theory Spec2Isabelle
  imports Main
begin

unbundle bit_operations_syntax

section \<open>Strings and numbers as Python renders them\<close>

text \<open>
  Python \<open>str\<close> values are modelled as \<open>string\<close> (a list of 8-bit characters), so the
  model covers ASCII text.  The integers that occur (header fields, calendar fields) are
  never negative: the header pattern matches digits only and the \<open>datetime\<close> constructor
  rejects a year below 1.  They are modelled as \<open>nat\<close>.
\<close>

type_synonym path = string
type_synonym url = string
type_synonym bytes = string

definition digit_char :: "nat \<Rightarrow> char" where
  "digit_char d = ''0123456789'' ! d"

text \<open>\<open>str(n)\<close> and \<open>f"{n}"\<close> for a non-negative integer: decimal, no padding.\<close>

fun str_nat :: "nat \<Rightarrow> string" where
  "str_nat n = (if n < 10 then [digit_char n] else str_nat (n div 10) @ [digit_char (n mod 10)])"

declare str_nat.simps [simp del]

text \<open>\<open>f"{n:03d}"\<close>: decimal, padded with zeros on the left to at least three characters.\<close>

definition format_03d :: "nat \<Rightarrow> string" where
  "format_03d n = replicate (3 - length (str_nat n)) (CHR ''0'') @ str_nat n"

text \<open>\<open>s[-2:]\<close>: the last two characters, or all of \<open>s\<close> when it is shorter.\<close>

definition last_two :: "string \<Rightarrow> string" where
  "last_two s = drop (length s - 2) s"

text \<open>\<open>str.lower()\<close> and \<open>str.upper()\<close> on ASCII text.\<close>

definition ascii_uppercase :: string where
  "ascii_uppercase = ''ABCDEFGHIJKLMNOPQRSTUVWXYZ''"

definition ascii_lowercase :: string where
  "ascii_lowercase = ''abcdefghijklmnopqrstuvwxyz''"

definition lower_char :: "char \<Rightarrow> char" where
  "lower_char c = (case map_of (zip ascii_uppercase ascii_lowercase) c of Some l \<Rightarrow> l | None \<Rightarrow> c)"

definition upper_char :: "char \<Rightarrow> char" where
  "upper_char c = (case map_of (zip ascii_lowercase ascii_uppercase) c of Some u \<Rightarrow> u | None \<Rightarrow> c)"

definition lower :: "string \<Rightarrow> string" where
  "lower s = map lower_char s"

definition upper :: "string \<Rightarrow> string" where
  "upper s = map upper_char s"

text \<open>\<open>s.endswith(suffix)\<close>.\<close>

definition endswith :: "string \<Rightarrow> string \<Rightarrow> bool" where
  "endswith s suf = (length suf \<le> length s \<and> drop (length s - length suf) s = suf)"

text \<open>\<open>os.path.join(a, b)\<close> of \<open>posixpath\<close>, for two arguments.\<close>

definition os_path_join :: "path \<Rightarrow> path \<Rightarrow> path" where
  "os_path_join a b =
     (if b \<noteq> [] \<and> hd b = CHR ''/'' then b
      else if a = [] \<or> last a = CHR ''/'' then a @ b
      else a @ ''/'' @ b)"

text \<open>\<open>"sub" in s\<close>: the substring test.\<close>

definition startswith :: "string \<Rightarrow> string \<Rightarrow> bool" where
  "startswith s pre = (take (length pre) s = pre)"

fun contains :: "string \<Rightarrow> string \<Rightarrow> bool" where
  "contains sub [] = (sub = [])"
| "contains sub (c # cs) = (startswith (c # cs) sub \<or> contains sub cs)"

text \<open>
  The character classes of the header pattern, on ASCII: \<open>\d\<close> is a decimal digit and
  \<open>\s\<close> is a tab, line feed, vertical tab, form feed, carriage return, one of the four
  separators 28 to 31, or a space.
\<close>

definition is_digit :: "char \<Rightarrow> bool" where
  "is_digit c = (c \<in> set ''0123456789'')"

definition is_space :: "char \<Rightarrow> bool" where
  "is_space c = (let k = (of_char c :: nat) in (9 \<le> k \<and> k \<le> 13) \<or> (28 \<le> k \<and> k \<le> 32))"

text \<open>\<open>s.strip()\<close>.\<close>

definition strip :: "string \<Rightarrow> string" where
  "strip s = rev (dropWhile is_space (rev (dropWhile is_space s)))"

text \<open>\<open>int(s)\<close> for a string of decimal digits (leading zeros allowed).\<close>

definition digit_value :: "char \<Rightarrow> nat" where
  "digit_value c = (of_char c :: nat) - 48"

definition int_of_digits :: "string \<Rightarrow> nat" where
  "int_of_digits s = foldl (\<lambda>acc c. 10 * acc + digit_value c) 0 s"

text \<open>
  Iterating over a file opened in text mode yields its lines, each with its line feed
  (the last line may lack one).  The content of a file that is read as text is the text
  as Python hands it over, decoded and with every line ending translated to a line feed.
\<close>

fun file_lines :: "string \<Rightarrow> string list" where
  "file_lines [] = []"
| "file_lines (c # cs) =
     (if c = CHR 0x0A then [c] # file_lines cs
      else (case file_lines cs of [] \<Rightarrow> [[c]] | l # ls \<Rightarrow> (c # l) # ls))"

section \<open>The header pattern\<close>

text \<open>
  \<open>re.search(r'(\d{4})\s+(\d{1,2})\s+(\d{1,2})\s+(\d{1,2})\s+(\d{1,2})\s+([\d\.]+)', line)\<close>.
  Digits and white space are disjoint classes, so at a given start position at most one
  way of matching exists and it is the greedy one: \<open>\s+\<close> takes the whole run of white
  space, \<open>\d{1,2}\<close> takes two digits when two are there (and then white space must follow),
  and the last group takes the whole run of digits and dots.  \<open>re.search\<close> returns the
  match at the leftmost start position that has one.
\<close>

definition re_digits4 :: "string \<Rightarrow> (string \<times> string) option" where
  "re_digits4 s =
     (if 4 \<le> length s \<and> list_all is_digit (take 4 s) then Some (take 4 s, drop 4 s) else None)"

definition re_spaces :: "string \<Rightarrow> string option" where
  "re_spaces s = (case s of [] \<Rightarrow> None | c # cs \<Rightarrow> if is_space c then Some (dropWhile is_space cs) else None)"

definition re_digits12 :: "string \<Rightarrow> (string \<times> string) option" where
  "re_digits12 s =
     (case s of
        [] \<Rightarrow> None
      | a # r \<Rightarrow>
          if \<not> is_digit a then None
          else (case r of
                  [] \<Rightarrow> Some ([a], [])
                | b # r' \<Rightarrow> if is_digit b then Some ([a, b], r') else Some ([a], r)))"

definition re_digits_dots :: "string \<Rightarrow> string option" where
  "re_digits_dots s =
     (let g = takeWhile (\<lambda>c. is_digit c \<or> c = CHR ''.'') s in if g = [] then None else Some g)"

text \<open>One numeric field of one or two digits followed by white space.\<close>

definition re_field :: "string \<Rightarrow> (string \<times> string) option" where
  "re_field s =
     (case re_digits12 s of
        None \<Rightarrow> None
      | Some (g, r) \<Rightarrow> (case re_spaces r of None \<Rightarrow> None | Some r' \<Rightarrow> Some (g, r')))"

type_synonym groups = "string \<times> string \<times> string \<times> string \<times> string \<times> string"

definition re_match_here :: "string \<Rightarrow> groups option" where
  "re_match_here s =
     (case re_digits4 s of None \<Rightarrow> None | Some (y, r0) \<Rightarrow>
      (case re_spaces r0 of None \<Rightarrow> None | Some r1 \<Rightarrow>
      (case re_field r1 of None \<Rightarrow> None | Some (mo, r2) \<Rightarrow>
      (case re_field r2 of None \<Rightarrow> None | Some (d, r3) \<Rightarrow>
      (case re_field r3 of None \<Rightarrow> None | Some (h, r4) \<Rightarrow>
      (case re_field r4 of None \<Rightarrow> None | Some (mi, r5) \<Rightarrow>
      (case re_digits_dots r5 of None \<Rightarrow> None | Some sec \<Rightarrow>
         Some (y, mo, d, h, mi, sec))))))))"

fun re_search :: "string \<Rightarrow> groups option" where
  "re_search [] = None"
| "re_search (c # cs) =
     (case re_match_here (c # cs) of Some g \<Rightarrow> Some g | None \<Rightarrow> re_search cs)"

section \<open>Binary floating point\<close>

text \<open>
  Python's \<open>float\<close> is IEEE 754 binary64.  The values that occur are never negative.  A finite
  value is kept exactly, as a mantissa and a binary exponent: \<open>Finite m e\<close> is
  \<open>m * 2 ^ e\<close>.  Every operation computes the exact result as a fraction of two
  naturals and rounds it once, to nearest with ties to even, to 53 significant bits (fewer
  below the normal range, whose unit in the last place is \<open>2 ^ -1074\<close>); a rounded value of
  \<open>2 ^ 1024\<close> or more is infinity.
\<close>

datatype pyfloat = Finite nat int | Infinity

fun bit_length :: "nat \<Rightarrow> nat" where
  "bit_length n = (if n = 0 then 0 else Suc (bit_length (n div 2)))"

declare bit_length.simps [simp del]

text \<open>\<open>a / b\<close> rounded to an integer, ties to even.\<close>

definition round_half_even :: "nat \<Rightarrow> nat \<Rightarrow> nat" where
  "round_half_even a b =
     (let f = a div b; r = a mod b in
      if 2 * r < b then f else if b < 2 * r then f + 1 else if even f then f else f + 1)"

text \<open>The integer \<open>k\<close> with \<open>2 ^ k \<le> a / b < 2 ^ (k + 1)\<close>, for positive \<open>a\<close> and \<open>b\<close>.\<close>

definition floor_log2 :: "nat \<Rightarrow> nat \<Rightarrow> int" where
  "floor_log2 a b =
     (let la = bit_length a; lb = bit_length b in
      if lb \<le> la then (if b * 2 ^ (la - lb) \<le> a then int (la - lb) else int (la - lb) - 1)
      else (if b \<le> a * 2 ^ (lb - la) then - int (lb - la) else - int (lb - la) - 1))"

definition round_binary64 :: "nat \<Rightarrow> nat \<Rightarrow> pyfloat" where
  "round_binary64 a b =
     (if a = 0 then Finite 0 0
      else
        (let e = max (floor_log2 a b - 52) (- 1074);
             m = (if 0 \<le> e then round_half_even a (b * 2 ^ nat e)
                  else round_half_even (a * 2 ^ nat (- e)) b)
         in if 1024 < int (bit_length m) + e then Infinity else Finite m e))"

text \<open>A finite value as a fraction.\<close>

definition float_num :: "nat \<Rightarrow> int \<Rightarrow> nat" where
  "float_num m e = (if 0 \<le> e then m * 2 ^ nat e else m)"

definition float_den :: "int \<Rightarrow> nat" where
  "float_den e = (if 0 \<le> e then 1 else 2 ^ nat (- e))"

text \<open>
  \<open>float(s)\<close> for a string of digits and dots: at most one dot and at least one digit, or
  \<open>ValueError\<close> (here \<open>None\<close>).  The decimal value is rounded correctly.
\<close>

definition float_of_string :: "string \<Rightarrow> pyfloat option" where
  "float_of_string s =
     (let ip = takeWhile is_digit s; r = dropWhile is_digit s in
      case r of
        [] \<Rightarrow> if ip = [] then None else Some (round_binary64 (int_of_digits ip) 1)
      | c # fp \<Rightarrow>
          if c \<noteq> CHR ''.'' \<or> \<not> list_all is_digit fp \<or> (ip = [] \<and> fp = []) then None
          else Some (round_binary64 (int_of_digits (ip @ fp)) (10 ^ length fp)))"

text \<open>\<open>int(x)\<close> truncates; on infinity it raises \<open>OverflowError\<close> (here \<open>None\<close>).\<close>

definition int_of_float :: "pyfloat \<Rightarrow> nat option" where
  "int_of_float x = (case x of Infinity \<Rightarrow> None | Finite m e \<Rightarrow> Some (float_num m e div float_den e))"

text \<open>
  \<open>x - n\<close> for a finite \<open>x\<close> and an integer \<open>n \<le> x\<close>: the integer is converted to
  \<open>float\<close> first, with \<open>OverflowError\<close> (here \<open>None\<close>) when it is too large.
\<close>

definition float_sub_int :: "nat \<Rightarrow> int \<Rightarrow> nat \<Rightarrow> pyfloat option" where
  "float_sub_int m e n =
     (case round_binary64 n 1 of
        Infinity \<Rightarrow> None
      | Finite m' e' \<Rightarrow>
          Some (round_binary64 (float_num m e * float_den e' - float_num m' e' * float_den e)
                               (float_den e * float_den e')))"

text \<open>\<open>x * 1_000_000\<close>.\<close>

definition float_mul_million :: "pyfloat \<Rightarrow> pyfloat" where
  "float_mul_million x =
     (case x of Infinity \<Rightarrow> Infinity
      | Finite m e \<Rightarrow> round_binary64 (float_num m e * 1000000) (float_den e))"

section \<open>Dates\<close>

text \<open>
  \<open>datetime.datetime\<close> of the standard library: the constructor checks the ranges of its
  fields and raises \<open>ValueError\<close> (here \<open>None\<close>) outside them.
\<close>

datatype tzinfo = Timezone_utc

record datetime =
  dt_year :: nat
  dt_month :: nat
  dt_day :: nat
  dt_hour :: nat
  dt_minute :: nat
  dt_second :: nat
  dt_microsecond :: nat
  dt_tzinfo :: "tzinfo option"

definition is_leap :: "nat \<Rightarrow> bool" where
  "is_leap y = (y mod 4 = 0 \<and> (y mod 100 \<noteq> 0 \<or> y mod 400 = 0))"

definition DAYS_IN_MONTH :: "nat list" where
  "DAYS_IN_MONTH = [0, 31, 28, 31, 30, 31, 30, 31, 31, 30, 31, 30, 31]"

definition DAYS_BEFORE_MONTH :: "nat list" where
  "DAYS_BEFORE_MONTH = [0, 0, 31, 59, 90, 120, 151, 181, 212, 243, 273, 304, 334]"

definition days_in_month :: "nat \<Rightarrow> nat \<Rightarrow> nat" where
  "days_in_month y m = (if m = 2 \<and> is_leap y then 29 else DAYS_IN_MONTH ! m)"

definition days_before_month :: "nat \<Rightarrow> nat \<Rightarrow> nat" where
  "days_before_month y m = DAYS_BEFORE_MONTH ! m + (if 2 < m \<and> is_leap y then 1 else 0)"

definition datetime_new ::
  "nat \<Rightarrow> nat \<Rightarrow> nat \<Rightarrow> nat \<Rightarrow> nat \<Rightarrow> nat \<Rightarrow> nat \<Rightarrow> tzinfo option \<Rightarrow> datetime option" where
  "datetime_new y mo d h mi s us tz =
     (if 1 \<le> y \<and> y \<le> 9999 \<and> 1 \<le> mo \<and> mo \<le> 12 \<and> 1 \<le> d \<and> d \<le> days_in_month y mo
         \<and> h \<le> 23 \<and> mi \<le> 59 \<and> s \<le> 59 \<and> us \<le> 999999
      then Some \<lparr>dt_year = y, dt_month = mo, dt_day = d, dt_hour = h, dt_minute = mi,
                 dt_second = s, dt_microsecond = us, dt_tzinfo = tz\<rparr>
      else None)"

text \<open>\<open>dt.timetuple().tm_yday\<close>: the days before the month, plus the day of the month.\<close>

definition tm_yday :: "datetime \<Rightarrow> nat" where
  "tm_yday dt = days_before_month (dt_year dt) (dt_month dt) + dt_day dt"

definition get_doy :: "datetime \<Rightarrow> nat" where
  "get_doy dt_object = tm_yday dt_object"

text \<open>
  The ordinal day of the year as the calendar defines it: the lengths of the months that
  have passed, added up, plus the day of the month.  February has 29 days in a year that
  is divisible by 4 and not by 100, or divisible by 400.
\<close>

definition month_lengths :: "nat \<Rightarrow> nat list" where
  "month_lengths y =
     [31, if y mod 400 = 0 \<or> (y mod 4 = 0 \<and> y mod 100 \<noteq> 0) then 29 else 28,
      31, 30, 31, 30, 31, 31, 30, 31, 30, 31]"

definition gregorian_ordinal :: "nat \<Rightarrow> nat \<Rightarrow> nat \<Rightarrow> nat" where
  "gregorian_ordinal y m d = sum_list (take (m - 1) (month_lengths y)) + d"

section \<open>The world outside the program\<close>

text \<open>
  The local file system is a map from paths to file contents, together with the set of
  directories.  Paths are strings, compared up to trailing slashes; \<open>.\<close>, \<open>..\<close>, doubled
  slashes and links are not resolved.  The empty directory name of a relative path is the
  current directory, which exists.  Where a world lists a path both as a file and as a
  directory, the file counts for reading.  The file system has no quota and no write
  protection: creating, writing and removing fail only for a reason that the paths and the
  files and directories that exist give.

  An operation of the operating system that fails raises an \<open>OSError\<close>.  The handlers of the
  source tell \<open>FileNotFoundError\<close> from every other exception, and so does the model.
\<close>

datatype os_error = FileNotFoundError | Other_error

datatype 'a outcome = Returns 'a | Raises os_error

text \<open>
  The network answers each request according to \<open>net\<close>, which sees the number of requests sent
  before and the URL.  \<open>requests.get\<close> with \<open>stream=True\<close> returns once the status line and
  headers are there, so a transfer can still break while \<open>iter_content\<close> yields the body:
  a response carries the chunks that arrive and the exception that ends the stream early,
  if any.  An exception of \<open>requests\<close> is named after the \<open>except\<close> clause of
  \<open>download_file\<close> that catches it.
\<close>

datatype request_error = HTTPError | ConnectionError | Timeout | RequestException

datatype response =
    Get_raises request_error
  | Response nat "bytes list" "request_error option"

text \<open>
  Besides the network the environment fixes: \<open>inflate_rest\<close>, what \<open>zlib\<close> makes of a deflate
  stream from a compressed block on (given the output so far, the output of the rest of the
  stream and the number of bytes it takes up, or \<open>None\<close> for a stream that \<open>zlib\<close> rejects);
  \<open>partial_output\<close>, the bytes that have reached the output file when inflation of a
  compressed file raises; and \<open>unreadable\<close>, the files that cannot be read (no permission,
  or bytes that do not decode as text).
\<close>

record env =
  net :: "nat \<Rightarrow> url \<Rightarrow> response"
  inflate_rest :: "bytes \<Rightarrow> bytes \<Rightarrow> (bytes \<times> nat) option"
  partial_output :: "bytes \<Rightarrow> bytes"
  unreadable :: "path set"

record world =
  files :: "path \<Rightarrow> bytes option"
  dirs :: "path set"
  sent :: nat

text \<open>\<open>p.rstrip('/')\<close> and \<open>os.path.dirname(p)\<close> of \<open>posixpath\<close>.\<close>

definition rstrip_slash :: "path \<Rightarrow> path" where
  "rstrip_slash p = rev (dropWhile (\<lambda>c. c = CHR ''/'') (rev p))"

definition dirname :: "path \<Rightarrow> path" where
  "dirname p =
     (let head = rev (dropWhile (\<lambda>c. c \<noteq> CHR ''/'') (rev p))
      in if rstrip_slash head = [] then head else rstrip_slash head)"

text \<open>The root is a directory; the empty path names nothing.\<close>

definition is_dir :: "world \<Rightarrow> path \<Rightarrow> bool" where
  "is_dir w p = (p \<noteq> [] \<and> (rstrip_slash p = [] \<or> rstrip_slash p \<in> rstrip_slash ` dirs w))"

definition os_path_exists :: "world \<Rightarrow> path \<Rightarrow> bool" where
  "os_path_exists w p = (p \<noteq> [] \<and> (files w p \<noteq> None \<or> is_dir w p))"

text \<open>
  The path itself and the directories above it, outermost first: the prefixes of the path
  that end before a slash, and the whole path.
\<close>

fun path_prefixes :: "path \<Rightarrow> path \<Rightarrow> path list" where
  "path_prefixes pre [] = (if pre = [] then [] else [pre])"
| "path_prefixes pre (c # cs) =
     (if c = CHR ''/'' \<and> pre \<noteq> [] then pre # path_prefixes (pre @ [c]) cs
      else path_prefixes (pre @ [c]) cs)"

definition parents :: "path \<Rightarrow> path list" where
  "parents p = path_prefixes [] p"

text \<open>A file where a directory is needed: \<open>NotADirectoryError\<close> or \<open>FileExistsError\<close>.\<close>

definition blocked_by_file :: "world \<Rightarrow> path \<Rightarrow> bool" where
  "blocked_by_file w p = list_ex (\<lambda>q. files w (rstrip_slash q) \<noteq> None) (parents p)"

text \<open>
  \<open>open(p, 'r')\<close> and \<open>gzip.open(p, 'rb')\<close>, which opens the file at once: the content that
  reading will yield, or the exception.
\<close>

definition open_read :: "env \<Rightarrow> world \<Rightarrow> path \<Rightarrow> os_error + bytes" where
  "open_read E w p =
     (if p = [] then Inl FileNotFoundError
      else
        (case files w p of
           Some content \<Rightarrow> if p \<in> unreadable E then Inl Other_error else Inr content
         | None \<Rightarrow>
             if is_dir w p \<or> blocked_by_file w p then Inl Other_error
             else Inl FileNotFoundError))"

text \<open>
  \<open>open(p, 'wb')\<close>: the exception, if any.  The directory of the file has to exist; a path
  that is a directory or ends in a slash cannot be opened for writing.
\<close>

definition open_wb :: "world \<Rightarrow> path \<Rightarrow> os_error option" where
  "open_wb w p =
     (if p = [] then Some FileNotFoundError
      else if last p = CHR ''/'' \<or> is_dir w p then Some Other_error
      else if dirname p = [] \<or> is_dir w (dirname p) then None
      else if blocked_by_file w (dirname p) then Some Other_error
      else Some FileNotFoundError)"

text \<open>
  \<open>os.makedirs(d)\<close>: the exception, if any; otherwise \<open>d\<close> and the missing directories above
  it are created.
\<close>

definition makedirs_error :: "world \<Rightarrow> path \<Rightarrow> os_error option" where
  "makedirs_error w d =
     (if d = [] then Some FileNotFoundError
      else if blocked_by_file w d \<or> is_dir w d then Some Other_error
      else None)"

text \<open>
  What the program does to the world beyond the file system is recorded as a list of
  events, in order: each \<open>print\<close> (one constructor of \<open>msg\<close> for each \<open>print\<close> statement
  of the source, with the values it interpolates), each call of \<open>requests.get\<close> and each call
  of \<open>os.makedirs\<close>.
\<close>

datatype msg =
    Created_output_dir path
  | Could_not_parse_date string
  | Marker_not_found
  | Rover_not_found path
  | Rover_read_error
  | Attempting_download url
  | Downloaded_to path
  | Http_error_msg url
  | Connection_error_msg url
  | Timeout_msg url
  | Request_error_msg url
  | Decompressing path
  | Decompressed_to path
  | Removed_compressed path
  | Compressed_not_found path
  | Could_not_decompress path
  | Rover_start datetime
  | Year_doy_station nat string string
  | Warn_rinex2_manual string
  | Downloaded_decompress_manually path
  | Downloaded_not_decompressing path
  | Failed_obs_download
  | Failed_nav_dlr
  | Failed_nav_gde nat string
  | Finished
  | Check_output_dir path
  | Required_files
  | Summary_rover string
  | Summary_base_obs string
  | Summary_nav string

datatype event = Print msg | Http_get url | Make_dirs path

section \<open>The gzip format\<close>

text \<open>
  \<open>gzip.open(p, 'rb')\<close> read to its end, as \<open>shutil.copyfileobj\<close> does: the file is a
  sequence of members, each a header, a deflate stream and a trailer, with zero bytes
  allowed after a member; an empty file is empty content.  The reader raises for a wrong
  magic number or method, for a file that ends early and for a trailer that does not match.

  Numbers are little-endian.  The trailer holds the CRC-32 of the content and its length
  modulo \<open>2 ^ 32\<close>.
\<close>

definition byte_of_nat :: "nat \<Rightarrow> char" where
  "byte_of_nat n = Char (odd n) (odd (n div 2)) (odd (n div 4)) (odd (n div 8))
                        (odd (n div 16)) (odd (n div 32)) (odd (n div 64)) (odd (n div 128))"

definition le16 :: "bytes \<Rightarrow> nat" where
  "le16 bs = (of_char (bs ! 0) :: nat) + 256 * (of_char (bs ! 1) :: nat)"

definition le16_bytes :: "nat \<Rightarrow> bytes" where
  "le16_bytes n = [byte_of_nat n, byte_of_nat (n div 256)]"

definition le32_bytes :: "nat \<Rightarrow> bytes" where
  "le32_bytes n = [byte_of_nat n, byte_of_nat (n div 256), byte_of_nat (n div 65536),
                   byte_of_nat (n div 16777216)]"

text \<open>CRC-32 with the reflected polynomial \<open>0xEDB88320\<close>, bit by bit.\<close>

definition crc_step :: "nat \<Rightarrow> nat" where
  "crc_step c = (if odd c then (c div 2) XOR 3988292384 else c div 2)"

definition crc_byte :: "nat \<Rightarrow> char \<Rightarrow> nat" where
  "crc_byte c b =
     crc_step (crc_step (crc_step (crc_step (crc_step (crc_step (crc_step (crc_step
       (c XOR (of_char b :: nat)))))))))"

definition crc32 :: "bytes \<Rightarrow> nat" where
  "crc32 bs = foldl crc_byte 4294967295 bs XOR 4294967295"

text \<open>
  The header: magic number \<open>1F 8B\<close>, method 8, a flag byte, four bytes of modification
  time, extra flags and operating system; then, as the flag byte says, an extra field with
  its length (bit 2), a zero-terminated file name (bit 3), a zero-terminated comment
  (bit 4) and a two-byte header checksum (bit 1), which the reader skips.  The result is
  what follows the header.
\<close>

definition skip_zero_terminated :: "bytes \<Rightarrow> bytes" where
  "skip_zero_terminated s = drop 1 (dropWhile (\<lambda>c. c \<noteq> CHR 0x00) s)"

definition skip_extra :: "bytes \<Rightarrow> bytes option" where
  "skip_extra r = (if length r < 2 \<or> length r < 2 + le16 r then None else Some (drop (2 + le16 r) r))"

definition skip_header_crc :: "bytes \<Rightarrow> bytes option" where
  "skip_header_crc r = (if length r < 2 then None else Some (drop 2 r))"

definition gzip_header :: "bytes \<Rightarrow> bytes option" where
  "gzip_header z =
     (if take 2 z \<noteq> [CHR 0x1F, CHR 0x8B] \<or> length z < 10 \<or> z ! 2 \<noteq> CHR 0x08 then None
      else
        (case (if digit2 (z ! 3) then skip_extra (drop 10 z) else Some (drop 10 z)) of
           None \<Rightarrow> None
         | Some r1 \<Rightarrow>
             (let r2 = (if digit3 (z ! 3) then skip_zero_terminated r1 else r1);
                  r3 = (if digit4 (z ! 3) then skip_zero_terminated r2 else r2)
              in if digit1 (z ! 3) then skip_header_crc r3 else Some r3)))"

text \<open>
  The deflate stream, from a block that starts at a byte: the output and what follows the
  stream.  Bit 0 of the first byte marks the last block, bits 1 and 2 give the block type.
  A stored block (type 0) is the length of its data in two bytes, the complement of the
  length, and the data; it ends at a byte again.  Type 3 is an error.  A compressed block
  (types 1 and 2) and all that follows it in the stream is left to \<open>inflate_rest\<close>.
\<close>

fun inflate :: "env \<Rightarrow> bytes \<Rightarrow> bytes \<Rightarrow> (bytes \<times> bytes) option" where
  "inflate E window [] = None"
| "inflate E window (h # r) =
     (if \<not> digit1 h \<and> \<not> digit2 h then
        (if length r < 4 \<or> le16 r + le16 (drop 2 r) \<noteq> 65535 \<or> length r < 4 + le16 r then None
         else if digit0 h then Some (take (le16 r) (drop 4 r), drop (4 + le16 r) r)
         else
           (case inflate E (window @ take (le16 r) (drop 4 r)) (drop (4 + le16 r) r) of
              None \<Rightarrow> None
            | Some (further, rest) \<Rightarrow> Some (take (le16 r) (drop 4 r) @ further, rest)))
      else if digit1 h \<and> digit2 h then None
      else
        (case inflate_rest E window (h # r) of
           None \<Rightarrow> None
         | Some (out, k) \<Rightarrow> Some (out, drop k (h # r))))"

text \<open>One member: its content, and what follows its trailer and the zero bytes after it.\<close>

definition gunzip_member :: "env \<Rightarrow> bytes \<Rightarrow> (bytes \<times> bytes) option" where
  "gunzip_member E z =
     (case gzip_header z of
        None \<Rightarrow> None
      | Some r \<Rightarrow>
          (case inflate E [] r of
             None \<Rightarrow> None
           | Some (out, t) \<Rightarrow>
               if length t < 8 \<or> take 4 t \<noteq> le32_bytes (crc32 out)
                  \<or> take 4 (drop 4 t) \<noteq> le32_bytes (length out)
               then None
               else Some (out, dropWhile (\<lambda>c. c = CHR 0x00) (drop 8 t))))"

text \<open>Every member takes up at least its header, so the reader comes to an end.\<close>

lemma skip_zero_terminated_le: "length (skip_zero_terminated s) \<le> length s"
  using length_dropWhile_le [of "\<lambda>c. c \<noteq> CHR 0x00" s] by (simp add: skip_zero_terminated_def)

lemma skip_extra_le: "skip_extra r = Some r' \<Longrightarrow> length r' \<le> length r"
  by (auto simp: skip_extra_def split: if_splits)

lemma skip_header_crc_le: "skip_header_crc r = Some r' \<Longrightarrow> length r' \<le> length r"
  by (auto simp: skip_header_crc_def split: if_splits)

lemma gzip_header_shorter:
  assumes "gzip_header z = Some r"
  shows "length r < length z"
proof -
  have z: "10 \<le> length z"
    using assms by (auto simp: gzip_header_def split: if_splits)
  obtain r1 where r1: "(if digit2 (z ! 3) then skip_extra (drop 10 z) else Some (drop 10 z)) = Some r1"
    using assms by (auto simp: gzip_header_def split: if_splits option.splits)
  define r2 where "r2 = (if digit3 (z ! 3) then skip_zero_terminated r1 else r1)"
  define r3 where "r3 = (if digit4 (z ! 3) then skip_zero_terminated r2 else r2)"
  have r: "(if digit1 (z ! 3) then skip_header_crc r3 else Some r3) = Some r"
    using assms r1 by (auto simp: gzip_header_def Let_def r2_def r3_def split: if_splits)
  have "length r \<le> length r3"
    using r skip_header_crc_le by (auto split: if_splits)
  also have "\<dots> \<le> length r2"
    using skip_zero_terminated_le by (simp add: r3_def)
  also have "\<dots> \<le> length r1"
    using skip_zero_terminated_le by (simp add: r2_def)
  also have "\<dots> \<le> length (drop 10 z)"
    using r1 skip_extra_le [of "drop 10 z" r1] by (cases "digit2 (z ! 3)") auto
  also have "\<dots> < length z"
    using z by simp
  finally show ?thesis .
qed

lemma inflate_shorter: "inflate E w z = Some (out, r) \<Longrightarrow> length r \<le> length z"
proof (induction E w z arbitrary: out r rule: inflate.induct)
  case (1 E window)
  then show ?case by simp
next
  case (2 E window h t)
  show ?case
  proof (cases "\<not> digit1 h \<and> \<not> digit2 h")
    case stored: True
    then have ok: "\<not> (length t < 4 \<or> le16 t + le16 (drop 2 t) \<noteq> 65535 \<or> length t < 4 + le16 t)"
      using "2.prems" by (auto split: if_splits)
    show ?thesis
    proof (cases "digit0 h")
      case True
      then show ?thesis
        using "2.prems" stored ok by auto
    next
      case False
      then obtain further where
        "inflate E (window @ take (le16 t) (drop 4 t)) (drop (4 + le16 t) t) = Some (further, r)"
        using "2.prems" stored ok by (auto split: option.splits)
      from "2.IH" [OF stored ok False this] show ?thesis
        by simp
    qed
  next
    case False
    then show ?thesis
      using "2.prems" by (auto split: if_splits option.splits)
  qed
qed

lemma gunzip_member_shorter:
  assumes "gunzip_member E z = Some (out, r)"
  shows "length r < length z"
proof -
  obtain h t where h: "gzip_header z = Some h" and i: "inflate E [] h = Some (out, t)"
    and r: "r = dropWhile (\<lambda>c. c = CHR 0x00) (drop 8 t)"
    using assms by (auto simp: gunzip_member_def split: option.splits if_splits)
  have "length r \<le> length (drop 8 t)"
    unfolding r by (rule length_dropWhile_le)
  also have "\<dots> \<le> length t"
    by simp
  also have "\<dots> \<le> length h"
    by (rule inflate_shorter [OF i])
  also have "\<dots> < length z"
    by (rule gzip_header_shorter [OF h])
  finally show ?thesis .
qed

text \<open>The whole file: member after member, to the end.\<close>

function gunzip :: "env \<Rightarrow> bytes \<Rightarrow> bytes option" where
  "gunzip E z =
     (if z = [] then Some []
      else (case gunzip_member E z of
              None \<Rightarrow> None
            | Some (out, rest) \<Rightarrow>
                (case gunzip E rest of None \<Rightarrow> None | Some further \<Rightarrow> Some (out @ further))))"
  by pat_completeness auto
termination
  by (relation "measure (\<lambda>(E, z). length z)") (auto dest: gunzip_member_shorter)

declare gunzip.simps [simp del]

text \<open>
  A compressor that stores: the content in chunks of at most 65535 bytes, each in a stored
  block, the last one marked; \<open>gzip.compress(data, compresslevel=0)\<close> writes this format.
\<close>

definition stored_block :: "bool \<Rightarrow> bytes \<Rightarrow> bytes" where
  "stored_block final data =
     (if final then CHR 0x01 else CHR 0x00)
       # le16_bytes (length data) @ le16_bytes (65535 - length data) @ data"

fun stored_blocks :: "bytes list \<Rightarrow> bytes" where
  "stored_blocks [] = []"
| "stored_blocks [c] = stored_block True c"
| "stored_blocks (c # d # cs) = stored_block False c @ stored_blocks (d # cs)"

definition gzip_stored :: "bytes \<Rightarrow> char \<Rightarrow> char \<Rightarrow> bytes list \<Rightarrow> bytes" where
  "gzip_stored mtime xfl os chunks =
     [CHR 0x1F, CHR 0x8B, CHR 0x08, CHR 0x00] @ mtime @ [xfl, os]
       @ stored_blocks chunks
       @ le32_bytes (crc32 (concat chunks)) @ le32_bytes (length (concat chunks))"

section \<open>Configuration\<close>

definition CDDIS_BASE_URL :: url where
  "CDDIS_BASE_URL = ''https://cddis.nasa.gov/archive/gnss/data/daily''"

definition MGEX_NAV_BASE_URL :: url where
  "MGEX_NAV_BASE_URL = ''https://cddis.nasa.gov/archive/gnss/data/campaign/mgex/daily/rinex3''"

section \<open>Helper functions\<close>

subsection \<open>\<open>get_obs_date_from_rinex\<close>\<close>

text \<open>
  Lines 26 to 31: the six groups become a \<open>datetime\<close>.  \<open>float\<close>, \<open>int\<close> and the
  \<open>datetime\<close> constructor may raise; every such exception ends in the handler of line 40.
\<close>

definition datetime_of_groups :: "groups \<Rightarrow> datetime option" where
  "datetime_of_groups g =
     (case g of (year, month, day, hour, minute, second_full) \<Rightarrow>
      (case float_of_string second_full of None \<Rightarrow> None | Some x \<Rightarrow>
      (case int_of_float x of None \<Rightarrow> None | Some second \<Rightarrow>
      (case x of Infinity \<Rightarrow> None | Finite m e \<Rightarrow>
      (case float_sub_int m e second of None \<Rightarrow> None | Some frac \<Rightarrow>
      (case int_of_float (float_mul_million frac) of None \<Rightarrow> None | Some microsecond \<Rightarrow>
         datetime_new (int_of_digits year) (int_of_digits month) (int_of_digits day)
                      (int_of_digits hour) (int_of_digits minute) second microsecond
                      (Some Timezone_utc)))))))"

text \<open>The loop of line 22: the first line with the marker decides.\<close>

fun scan_lines :: "string list \<Rightarrow> datetime option \<times> event list" where
  "scan_lines [] = (None, [Print Marker_not_found])"
| "scan_lines (line # rest) =
     (if contains ''TIME OF FIRST OBS'' line then
        (case re_search line of
           Some g \<Rightarrow>
             (case datetime_of_groups g of
                Some dt \<Rightarrow> (Some dt, [])
              | None \<Rightarrow> (None, [Print Rover_read_error]))
         | None \<Rightarrow> (None, [Print (Could_not_parse_date (strip line))]))
      else scan_lines rest)"

text \<open>
  Lines 20 to 21 and 37 to 42: opening the file may raise; \<open>FileNotFoundError\<close> has its own
  handler, every other exception ends in the handler of line 40.
\<close>

definition get_obs_date_from_rinex :: "env \<Rightarrow> world \<Rightarrow> path \<Rightarrow> datetime option \<times> event list" where
  "get_obs_date_from_rinex E w rinex_rover_file =
     (case open_read E w rinex_rover_file of
        Inl FileNotFoundError \<Rightarrow> (None, [Print (Rover_not_found rinex_rover_file)])
      | Inl Other_error \<Rightarrow> (None, [Print Rover_read_error])
      | Inr content \<Rightarrow> scan_lines (file_lines content))"

subsection \<open>\<open>download_file\<close>\<close>

definition request_error_msg :: "request_error \<Rightarrow> url \<Rightarrow> msg" where
  "request_error_msg e u =
     (case e of
        HTTPError \<Rightarrow> Http_error_msg u
      | ConnectionError \<Rightarrow> Connection_error_msg u
      | Timeout \<Rightarrow> Timeout_msg u
      | RequestException \<Rightarrow> Request_error_msg u)"

text \<open>\<open>response.raise_for_status()\<close> raises \<open>HTTPError\<close> for a status from 400 to 599.\<close>

definition raise_for_status :: "nat \<Rightarrow> bool" where
  "raise_for_status status = (400 \<le> status \<and> status < 600)"

text \<open>
  The four handlers of lines 59 to 66 catch the exceptions of \<open>requests\<close> and nothing else:
  an \<open>OSError\<close> from \<open>open(output_path, 'wb')\<close> on line 54 leaves the function as an
  exception.  The file is opened after the status was checked and before the first chunk
  is read.
\<close>

definition download_file :: "env \<Rightarrow> world \<Rightarrow> url \<Rightarrow> path \<Rightarrow> bool outcome \<times> world \<times> event list" where
  "download_file E w u output_path =
     (let w1 = w\<lparr>sent := Suc (sent w)\<rparr>;
          t = [Print (Attempting_download u), Http_get u]
      in case net E (sent w) u of
           Get_raises e \<Rightarrow> (Returns False, w1, t @ [Print (request_error_msg e u)])
         | Response status chunks err \<Rightarrow>
             if raise_for_status status then (Returns False, w1, t @ [Print (Http_error_msg u)])
             else
               (case open_wb w1 output_path of
                  Some x \<Rightarrow> (Raises x, w1, t)
                | None \<Rightarrow>
                    (let w2 = w1\<lparr>files := (files w1)(output_path \<mapsto> concat chunks)\<rparr>
                     in case err of
                          None \<Rightarrow> (Returns True, w2, t @ [Print (Downloaded_to output_path)])
                        | Some e \<Rightarrow> (Returns False, w2, t @ [Print (request_error_msg e u)]))))"

subsection \<open>\<open>decompress_gz_file\<close>\<close>

text \<open>
  \<open>gzip.open\<close> opens the compressed file and reads nothing yet; \<open>open(output_file_path, 'wb')\<close>
  then creates or truncates the output, and the copy reads the compressed file as it is
  after that (empty, when both paths are the same).  Every exception is caught: a
  \<open>FileNotFoundError\<close>, from either \<open>open\<close>, by the handler of line 80, any other by the
  handler of line 82.  When the copy raises, the output holds what was written until then.
\<close>

definition decompress_error_msg :: "os_error \<Rightarrow> path \<Rightarrow> msg" where
  "decompress_error_msg x gz_file_path =
     (case x of
        FileNotFoundError \<Rightarrow> Compressed_not_found gz_file_path
      | Other_error \<Rightarrow> Could_not_decompress gz_file_path)"

definition decompress_gz_file :: "env \<Rightarrow> world \<Rightarrow> path \<Rightarrow> path \<Rightarrow> bool \<times> world \<times> event list" where
  "decompress_gz_file E w gz_file_path output_file_path =
     (let t = [Print (Decompressing gz_file_path)] in
      case open_read E w gz_file_path of
        Inl x \<Rightarrow> (False, w, t @ [Print (decompress_error_msg x gz_file_path)])
      | Inr z0 \<Rightarrow>
          (case open_wb w output_file_path of
             Some x \<Rightarrow> (False, w, t @ [Print (decompress_error_msg x gz_file_path)])
           | None \<Rightarrow>
               (let z = (if gz_file_path = output_file_path then [] else z0) in
                case gunzip E z of
                  None \<Rightarrow>
                    (False, w\<lparr>files := (files w)(output_file_path \<mapsto> partial_output E z)\<rparr>,
                     t @ [Print (Could_not_decompress gz_file_path)])
                | Some content \<Rightarrow>
                    (True,
                     w\<lparr>files := ((files w)(output_file_path \<mapsto> content))(gz_file_path := None)\<rparr>,
                     t @ [Print (Decompressed_to output_file_path),
                          Print (Removed_compressed gz_file_path)]))))"

section \<open>Main script logic\<close>

record args =
  rinex_rover_file :: path
  station_id :: string
  output_dir :: path
  rinex_obs_version :: string

subsection \<open>Lines 98 to 101: the output directory\<close>

text \<open>An exception of \<open>os.makedirs\<close> is caught nowhere and ends the run.\<close>

definition ensure_output_dir :: "world \<Rightarrow> path \<Rightarrow> unit outcome \<times> world \<times> event list" where
  "ensure_output_dir w d =
     (if \<not> os_path_exists w d then
        (case makedirs_error w d of
           Some x \<Rightarrow> (Raises x, w, [Make_dirs d])
         | None \<Rightarrow>
             (Returns (), w\<lparr>dirs := dirs w \<union> set (parents d)\<rparr>,
              [Make_dirs d, Print (Created_output_dir d)]))
      else (Returns (), w, []))"

subsection \<open>Lines 118 to 142: the names of the observation file\<close>

text \<open>
  The three variables \<open>obs_url\<close>, \<open>obs_filename_gz\<close> and \<open>obs_final_filename\<close> start as
  empty strings and are assigned in the branch of the requested version.  The local
  \<open>obs_filename_stem\<close> exists only inside a branch.  The branch of version 2 prints a
  warning.
\<close>

record obs_names =
  obs_url :: url
  obs_filename_gz :: string
  obs_final_filename :: string

definition obs_filename_stem :: "string \<Rightarrow> string \<Rightarrow> string \<Rightarrow> string \<Rightarrow> string" where
  "obs_filename_stem version station_id_lower doy_str yy =
     (if version = ''3'' then station_id_lower @ doy_str @ ''0.'' @ yy @ ''o''
      else station_id_lower @ doy_str @ ''0.'' @ yy @ ''d'')"

definition build_obs_names ::
  "string \<Rightarrow> nat \<Rightarrow> string \<Rightarrow> string \<Rightarrow> string \<Rightarrow> obs_names \<times> event list" where
  "build_obs_names version year doy_str yy station_id_lower =
     (if version = ''3'' then
        (let stem = obs_filename_stem ''3'' station_id_lower doy_str yy;
             obs_filename_crx_gz = stem @ ''.crx.gz''
         in (\<lparr>obs_url = CDDIS_BASE_URL @ ''/'' @ str_nat year @ ''/'' @ doy_str @ ''/'' @ yy @ ''o/''
                           @ obs_filename_crx_gz,
              obs_filename_gz = obs_filename_crx_gz,
              obs_final_filename = stem @ ''.crx''\<rparr>, []))
      else if version = ''2'' then
        (let stem = obs_filename_stem ''2'' station_id_lower doy_str yy;
             obs_filename_211_gz = stem @ ''.Z''
         in (\<lparr>obs_url = CDDIS_BASE_URL @ ''/'' @ str_nat year @ ''/'' @ doy_str @ ''/'' @ yy @ ''d/''
                           @ obs_filename_211_gz,
              obs_filename_gz = obs_filename_211_gz,
              obs_final_filename = stem\<rparr>,
             [Print (Warn_rinex2_manual obs_filename_211_gz)]))
      else (\<lparr>obs_url = [], obs_filename_gz = [], obs_final_filename = []\<rparr>, []))"

subsection \<open>Lines 145 to 156: download and decompress the observation file\<close>

text \<open>An exception that leaves \<open>download_file\<close> is not caught by \<open>main\<close> either.\<close>

definition obs_stage ::
  "env \<Rightarrow> world \<Rightarrow> string \<Rightarrow> path \<Rightarrow> obs_names \<Rightarrow> unit outcome \<times> world \<times> event list" where
  "obs_stage E w version out nm =
     (let obs_dl_path_gz = os_path_join out (obs_filename_gz nm);
          obs_dl_path_final = os_path_join out (obs_final_filename nm)
      in case download_file E w (obs_url nm) obs_dl_path_gz of
           (Raises x, w1, t1) \<Rightarrow> (Raises x, w1, t1)
         | (Returns ok, w1, t1) \<Rightarrow>
             if ok then
               (if version = ''3'' \<and> endswith (obs_filename_gz nm) ''.crx.gz'' then
                  (case decompress_gz_file E w1 obs_dl_path_gz obs_dl_path_final of
                     (ok2, w2, t2) \<Rightarrow> (Returns (), w2, t1 @ t2))
                else if version = ''2'' \<and> endswith (obs_filename_gz nm) ''.Z'' then
                  (Returns (), w1, t1 @ [Print (Downloaded_decompress_manually obs_dl_path_gz)])
                else (Returns (), w1, t1 @ [Print (Downloaded_not_decompressing obs_dl_path_gz)]))
             else (Returns (), w1, t1 @ [Print Failed_obs_download]))"

subsection \<open>Lines 159 to 184: the navigation file\<close>

definition nav_filename_stem :: "nat \<Rightarrow> string \<Rightarrow> string" where
  "nav_filename_stem year doy_str = ''BRDM00DLR_S_'' @ str_nat year @ doy_str @ ''0000_01D_MN''"

definition nav_filename_rnx_gz :: "nat \<Rightarrow> string \<Rightarrow> string" where
  "nav_filename_rnx_gz year doy_str = nav_filename_stem year doy_str @ ''.rnx.gz''"

definition nav_url :: "nat \<Rightarrow> string \<Rightarrow> url" where
  "nav_url year doy_str =
     MGEX_NAV_BASE_URL @ ''/'' @ str_nat year @ ''/'' @ doy_str @ ''/'' @ nav_filename_rnx_gz year doy_str"

definition nav_filename_stem_gde :: "nat \<Rightarrow> string \<Rightarrow> string" where
  "nav_filename_stem_gde year doy_str = ''BRDM00GDE_S_'' @ str_nat year @ doy_str @ ''0000_01D_MN''"

definition nav_filename_rnx_gz_gde :: "nat \<Rightarrow> string \<Rightarrow> string" where
  "nav_filename_rnx_gz_gde year doy_str = nav_filename_stem_gde year doy_str @ ''.rnx.gz''"

definition nav_url_gde :: "nat \<Rightarrow> string \<Rightarrow> url" where
  "nav_url_gde year doy_str =
     MGEX_NAV_BASE_URL @ ''/'' @ str_nat year @ ''/'' @ doy_str @ ''/''
       @ nav_filename_rnx_gz_gde year doy_str"

text \<open>The stage returns the value that \<open>nav_dl_path_final\<close> has at its end.\<close>

definition nav_stage ::
  "env \<Rightarrow> world \<Rightarrow> nat \<Rightarrow> string \<Rightarrow> path \<Rightarrow> path outcome \<times> world \<times> event list" where
  "nav_stage E w year doy_str out =
     (let nav_dl_path_gz = os_path_join out (nav_filename_rnx_gz year doy_str);
          nav_dl_path_final = os_path_join out (nav_filename_stem year doy_str @ ''.rnx'')
      in case download_file E w (nav_url year doy_str) nav_dl_path_gz of
           (Raises x, w1, t1) \<Rightarrow> (Raises x, w1, t1)
         | (Returns ok, w1, t1) \<Rightarrow>
             if \<not> ok then
               (let nav_dl_path_gz' = os_path_join out (nav_filename_rnx_gz_gde year doy_str);
                    nav_dl_path_final' = os_path_join out (nav_filename_stem_gde year doy_str @ ''.rnx'')
                in case download_file E w1 (nav_url_gde year doy_str) nav_dl_path_gz' of
                     (Raises x, w2, t2) \<Rightarrow> (Raises x, w2, t1 @ [Print Failed_nav_dlr] @ t2)
                   | (Returns ok', w2, t2) \<Rightarrow>
                       if ok' then
                         (case decompress_gz_file E w2 nav_dl_path_gz' nav_dl_path_final' of
                            (ok3, w3, t3) \<Rightarrow>
                              (Returns nav_dl_path_final', w3, t1 @ [Print Failed_nav_dlr] @ t2 @ t3))
                       else (Returns nav_dl_path_final', w2,
                             t1 @ [Print Failed_nav_dlr] @ t2 @ [Print (Failed_nav_gde year doy_str)]))
             else
               (case decompress_gz_file E w1 nav_dl_path_gz nav_dl_path_final of
                  (ok3, w3, t3) \<Rightarrow> (Returns nav_dl_path_final, w3, t1 @ t3)))"

subsection \<open>Lines 186 to 191: the summary\<close>

definition summary :: "world \<Rightarrow> args \<Rightarrow> path \<Rightarrow> path \<Rightarrow> event list" where
  "summary w a obs_dl_path_final nav_dl_path_final =
     [Print Finished,
      Print (Check_output_dir (output_dir a)),
      Print Required_files,
      Print (Summary_rover (rinex_rover_file a)),
      Print (Summary_base_obs (if os_path_exists w obs_dl_path_final then obs_dl_path_final
                               else ''Download/Decompress OBS manually if failed'')),
      Print (Summary_nav (if os_path_exists w nav_dl_path_final then nav_dl_path_final
                          else ''Download/Decompress NAV manually if failed''))]"

subsection \<open>\<open>main\<close>\<close>

text \<open>
  Lines 108 to 191, reached with the parsed date.  An exception ends the run where it is
  raised: nothing after it is executed.
\<close>

definition main_with_date :: "env \<Rightarrow> world \<Rightarrow> args \<Rightarrow> datetime \<Rightarrow> unit outcome \<times> world \<times> event list" where
  "main_with_date E w a obs_datetime =
     (let year = dt_year obs_datetime;
          yy = last_two (str_nat year);
          doy = get_doy obs_datetime;
          doy_str = format_03d doy;
          station_id_lower = lower (station_id a);
          t0 = [Print (Rover_start obs_datetime),
                Print (Year_doy_station year doy_str (upper station_id_lower))]
      in case build_obs_names (rinex_obs_version a) year doy_str yy station_id_lower of
           (nm, t1) \<Rightarrow>
             (case obs_stage E w (rinex_obs_version a) (output_dir a) nm of
                (Raises x, w1, t2) \<Rightarrow> (Raises x, w1, t0 @ t1 @ t2)
              | (Returns u, w1, t2) \<Rightarrow>
                  (case nav_stage E w1 year doy_str (output_dir a) of
                     (Raises x, w2, t3) \<Rightarrow> (Raises x, w2, t0 @ t1 @ t2 @ t3)
                   | (Returns nav_dl_path_final, w2, t3) \<Rightarrow>
                       (Returns (), w2,
                        t0 @ t1 @ t2 @ t3
                          @ summary w2 a (os_path_join (output_dir a) (obs_final_filename nm))
                              nav_dl_path_final))))"

definition main :: "env \<Rightarrow> world \<Rightarrow> args \<Rightarrow> unit outcome \<times> world \<times> event list" where
  "main E w a =
     (case ensure_output_dir w (output_dir a) of
        (Raises x, w0, t0) \<Rightarrow> (Raises x, w0, t0)
      | (Returns u, w0, t0) \<Rightarrow>
          (case get_obs_date_from_rinex E w0 (rinex_rover_file a) of
             (None, t1) \<Rightarrow> (Returns (), w0, t0 @ t1)
           | (Some obs_datetime, t1) \<Rightarrow>
               (case main_with_date E w0 a obs_datetime of
                  (r, w1, t2) \<Rightarrow> (r, w1, t0 @ t1 @ t2))))"

section \<open>What a run shows\<close>

text \<open>A call returns a result, a world and the events it caused.\<close>

abbreviation world_after :: "'a \<times> world \<times> event list \<Rightarrow> world" where
  "world_after r \<equiv> fst (snd r)"

abbreviation events :: "'a \<times> world \<times> event list \<Rightarrow> event list" where
  "events r \<equiv> snd (snd r)"

text \<open>
  The server delivers a file when \<open>requests.get\<close> returns, the status is outside 400 to 599
  and the body streams to its end.  A request fails before the body when \<open>requests.get\<close>
  raises or the status is from 400 to 599.
\<close>

definition fetch_succeeds :: "response \<Rightarrow> bool" where
  "fetch_succeeds r =
     (case r of Get_raises e \<Rightarrow> False
      | Response status chunks err \<Rightarrow> \<not> raise_for_status status \<and> err = None)"

definition fails_before_body :: "response \<Rightarrow> bool" where
  "fails_before_body r =
     (case r of Get_raises e \<Rightarrow> True | Response status chunks err \<Rightarrow> raise_for_status status)"

text \<open>
  A fetch raises when the request, the \<open>n\<close>-th of the run, gets as far as the body and the
  destination cannot be opened for writing.
\<close>

definition fetch_raises :: "env \<Rightarrow> nat \<Rightarrow> world \<Rightarrow> url \<Rightarrow> path \<Rightarrow> bool" where
  "fetch_raises E n w u p = (\<not> fails_before_body (net E n u) \<and> open_wb w p \<noteq> None)"

text \<open>Lines 99 to 101 raise when the output directory is missing and cannot be created.\<close>

definition makedirs_raises :: "world \<Rightarrow> path \<Rightarrow> bool" where
  "makedirs_raises w d = (\<not> os_path_exists w d \<and> makedirs_error w d \<noteq> None)"

text \<open>The world after lines 99 to 101.\<close>

definition after_makedirs :: "world \<Rightarrow> path \<Rightarrow> world" where
  "after_makedirs w d = world_after (ensure_output_dir w d)"

text \<open>The URLs requested, in order.\<close>

fun http_gets :: "event list \<Rightarrow> url list" where
  "http_gets [] = []"
| "http_gets (Http_get u # t) = u # http_gets t"
| "http_gets (Print m # t) = http_gets t"
| "http_gets (Make_dirs d # t) = http_gets t"

text \<open>
  The calls of \<open>decompress_gz_file\<close>, in order, by the compressed path: the function prints
  \<open>Decompressing\<close> as its first statement, and nothing else prints it.
\<close>

fun decompress_calls :: "event list \<Rightarrow> path list" where
  "decompress_calls [] = []"
| "decompress_calls (Print (Decompressing p) # t) = p # decompress_calls t"
| "decompress_calls (e # t) = decompress_calls t"

text \<open>
  The names and local paths of the observation file that \<open>main\<close> computes from its
  arguments and the parsed date.
\<close>

definition run_obs_names :: "args \<Rightarrow> datetime \<Rightarrow> obs_names" where
  "run_obs_names a dt =
     fst (build_obs_names (rinex_obs_version a) (dt_year dt) (format_03d (get_doy dt))
            (last_two (str_nat (dt_year dt))) (lower (station_id a)))"

definition obs_dl_path_gz :: "args \<Rightarrow> datetime \<Rightarrow> path" where
  "obs_dl_path_gz a dt = os_path_join (output_dir a) (obs_filename_gz (run_obs_names a dt))"

definition obs_dl_path_final :: "args \<Rightarrow> datetime \<Rightarrow> path" where
  "obs_dl_path_final a dt = os_path_join (output_dir a) (obs_final_filename (run_obs_names a dt))"

text \<open>The local paths of the two navigation files, compressed and decompressed.\<close>

definition nav_dl_path_gz :: "args \<Rightarrow> datetime \<Rightarrow> path" where
  "nav_dl_path_gz a dt =
     os_path_join (output_dir a) (nav_filename_rnx_gz (dt_year dt) (format_03d (get_doy dt)))"

definition nav_dl_path_gz_gde :: "args \<Rightarrow> datetime \<Rightarrow> path" where
  "nav_dl_path_gz_gde a dt =
     os_path_join (output_dir a) (nav_filename_rnx_gz_gde (dt_year dt) (format_03d (get_doy dt)))"

definition nav_dl_path_final :: "args \<Rightarrow> datetime \<Rightarrow> path" where
  "nav_dl_path_final a dt =
     os_path_join (output_dir a)
       (nav_filename_stem (dt_year dt) (format_03d (get_doy dt)) @ ''.rnx'')"

definition nav_dl_path_final_gde :: "args \<Rightarrow> datetime \<Rightarrow> path" where
  "nav_dl_path_final_gde a dt =
     os_path_join (output_dir a)
       (nav_filename_stem_gde (dt_year dt) (format_03d (get_doy dt)) @ ''.rnx'')"

text \<open>The texts that the summary prints in place of a path.\<close>

definition manual_obs :: string where
  "manual_obs = ''Download/Decompress OBS manually if failed''"

definition manual_nav :: string where
  "manual_nav = ''Download/Decompress NAV manually if failed''"

text \<open>
  The microseconds that a seconds field denotes: the digits after the decimal point, read
  as a fraction of a second, in whole microseconds, rounded down.
\<close>

definition truncated_microseconds :: "string \<Rightarrow> nat" where
  "truncated_microseconds s =
     (let fp = drop 1 (dropWhile is_digit s)
      in (int_of_digits fp * 1000000) div 10 ^ length fp)"

section \<open>Sample inputs\<close>

text \<open>A rover file whose header holds the first observation 2023-01-15 08:30:15.\<close>

definition sample_header :: string where
  "sample_header =
     ''     3.04           OBSERVATION DATA'' @ [CHR 0x0A]
     @ ''  2023    01    15    08    30   15.0000000     GPS         TIME OF FIRST OBS'' @ [CHR 0x0A]"

definition sample_datetime :: datetime where
  "sample_datetime =
     \<lparr>dt_year = 2023, dt_month = 1, dt_day = 15, dt_hour = 8, dt_minute = 30, dt_second = 15,
      dt_microsecond = 0, dt_tzinfo = Some Timezone_utc\<rparr>"

text \<open>The same header with a first observation a tenth of a second later.\<close>

definition tenth_header :: string where
  "tenth_header =
     ''     3.04           OBSERVATION DATA'' @ [CHR 0x0A]
     @ ''  2023    01    15    08    30   15.1000000     GPS         TIME OF FIRST OBS'' @ [CHR 0x0A]"

text \<open>
  Environments: every file can be read, and \<open>zlib\<close> accepts no compressed block.  A server
  that answers every request with status 404.
\<close>

definition env_404 :: env where
  "env_404 =
     \<lparr>net = (\<lambda>n u. Response 404 [] None), inflate_rest = (\<lambda>window z. None),
      partial_output = (\<lambda>z. []), unreadable = {}\<rparr>"

text \<open>A server that delivers the first request and answers the others with status 404.\<close>

definition env_first_only :: env where
  "env_first_only =
     \<lparr>net = (\<lambda>n u. if n = 0 then Response 200 [''abc'', ''def''] None else Response 404 [] None),
      inflate_rest = (\<lambda>window z. None), partial_output = (\<lambda>z. []), unreadable = {}\<rparr>"


text \<open>
  The 32 bytes of \<open>gzip.compress(b"ephemeris", compresslevel=0, mtime=0)\<close>: the header, one
  stored block, the CRC-32 \<open>0xFBD12525\<close> and the length 9.
\<close>

definition ephemeris_gz :: bytes where
  "ephemeris_gz =
     [CHR 0x1F, CHR 0x8B, CHR 0x08, CHR 0x00, CHR 0x00, CHR 0x00, CHR 0x00, CHR 0x00, CHR 0x04,
      CHR 0x03, CHR 0x01, CHR 0x09, CHR 0x00, CHR 0xF6, CHR 0xFF]
     @ ''ephemeris''
     @ [CHR 0x25, CHR 0x25, CHR 0xD1, CHR 0xFB, CHR 0x09, CHR 0x00, CHR 0x00, CHR 0x00]"

definition sample_world :: world where
  "sample_world = \<lparr>files = [''rover.obs'' \<mapsto> sample_header], dirs = {''out''}, sent = 0\<rparr>"

definition sample_args :: "string \<Rightarrow> string \<Rightarrow> args" where
  "sample_args station version =
     \<lparr>rinex_rover_file = ''rover.obs'', station_id = station, output_dir = ''out'',
      rinex_obs_version = version\<rparr>"

section \<open>Properties\<close>
subsection \<open>A stored stream inflates to its content\<close>

lemma byte_of_nat_char_of: "byte_of_nat n = char_of n"
  by (simp add: byte_of_nat_def char_of_def bit_iff_odd)

lemma of_char_byte_of_nat: "(of_char (byte_of_nat n) :: nat) = n mod 256"
  by (simp add: byte_of_nat_char_of)

lemma le16_le16_bytes: "n < 65536 \<Longrightarrow> le16 (le16_bytes n @ r) = n"
  by (simp add: le16_def le16_bytes_def of_char_byte_of_nat)

lemma length_le16_bytes: "length (le16_bytes n) = 2"
  by (simp add: le16_bytes_def)

lemma inflate_stored_final:
  assumes "length c \<le> 65535"
  shows "inflate E win (stored_block True c @ t) = Some (c, t)"
proof -
  define r where "r = le16_bytes (length c) @ le16_bytes (65535 - length c) @ c @ t"
  have a: "le16 r = length c"
    using assms by (simp add: r_def le16_le16_bytes)
  have b: "le16 (drop 2 r) = 65535 - length c"
    by (simp add: r_def length_le16_bytes le16_le16_bytes)
  have c: "drop 4 r = c @ t"
    by (simp add: r_def length_le16_bytes)
  have d: "drop (4 + length c) r = t"
    using c by (simp add: add.commute [of 4] drop_drop [symmetric] del: drop_drop)
  have l: "length r = 4 + length c + length t"
    by (simp add: r_def length_le16_bytes)
  have "inflate E win (CHR 0x01 # r) = Some (c, t)"
    unfolding inflate.simps using assms by (simp add: a b c d l)
  then show ?thesis
    by (simp add: stored_block_def r_def)
qed

lemma inflate_stored_more:
  assumes "length c \<le> 65535"
  shows "inflate E win (stored_block False c @ t) =
           (case inflate E (win @ c) t of None \<Rightarrow> None
            | Some (further, rest) \<Rightarrow> Some (c @ further, rest))"
proof -
  define r where "r = le16_bytes (length c) @ le16_bytes (65535 - length c) @ c @ t"
  have a: "le16 r = length c"
    using assms by (simp add: r_def le16_le16_bytes)
  have b: "le16 (drop 2 r) = 65535 - length c"
    by (simp add: r_def length_le16_bytes le16_le16_bytes)
  have c: "drop 4 r = c @ t"
    by (simp add: r_def length_le16_bytes)
  have d: "drop (4 + length c) r = t"
    using c by (simp add: add.commute [of 4] drop_drop [symmetric] del: drop_drop)
  have l: "length r = 4 + length c + length t"
    by (simp add: r_def length_le16_bytes)
  have "inflate E win (CHR 0x00 # r) =
           (case inflate E (win @ c) t of None \<Rightarrow> None
            | Some (further, rest) \<Rightarrow> Some (c @ further, rest))"
    unfolding inflate.simps using assms by (simp add: a b c d l split: option.splits)
  then show ?thesis
    by (simp add: stored_block_def r_def)
qed

lemma inflate_stored_blocks:
  "chunks \<noteq> [] \<Longrightarrow> \<forall>c\<in>set chunks. length c \<le> 65535 \<Longrightarrow>
   inflate E win (stored_blocks chunks @ t) = Some (concat chunks, t)"
proof (induction chunks arbitrary: win rule: stored_blocks.induct)
  case 1
  then show ?case by simp
next
  case (2 c)
  then show ?case by (simp add: inflate_stored_final)
next
  case (3 c d cs)
  have "inflate E (win @ c) (stored_blocks (d # cs) @ t) = Some (concat (d # cs), t)"
    using 3 by simp
  then show ?case
    using 3(3) by (simp add: inflate_stored_more)
qed

lemma gzip_header_plain:
  "length mtime = 4 \<Longrightarrow>
   gzip_header ([CHR 0x1F, CHR 0x8B, CHR 0x08, CHR 0x00] @ mtime @ [xfl, os] @ r) = Some r"
  by (simp add: gzip_header_def nth_append)

lemma length_le32_bytes: "length (le32_bytes n) = 4"
  by (simp add: le32_bytes_def)

lemma gunzip_empty: "gunzip E [] = Some []"
  by (simp add: gunzip.simps)

lemma gunzip_member_stored:
  assumes "length mtime = 4" "chunks \<noteq> []" "\<forall>c\<in>set chunks. length c \<le> 65535"
  shows "gunzip_member E (gzip_stored mtime xfl os chunks) = Some (concat chunks, [])"
proof -
  define t where "t = le32_bytes (crc32 (concat chunks)) @ le32_bytes (length (concat chunks))"
  have h: "gzip_header (gzip_stored mtime xfl os chunks) = Some (stored_blocks chunks @ t)"
    using gzip_header_plain [OF assms(1), of xfl os "stored_blocks chunks @ t"]
    by (simp add: gzip_stored_def t_def)
  have i: "inflate E [] (stored_blocks chunks @ t) = Some (concat chunks, t)"
    by (rule inflate_stored_blocks [OF assms(2,3)])
  have t: "length t = 8" "take 4 t = le32_bytes (crc32 (concat chunks))"
    "take 4 (drop 4 t) = le32_bytes (length (concat chunks))" "drop 8 t = []"
    by (simp_all add: t_def length_le32_bytes)
  show ?thesis
    by (simp add: gunzip_member_def h i t)
qed

lemma gunzip_gzip_stored:
  assumes "length mtime = 4" "chunks \<noteq> []" "\<forall>c\<in>set chunks. length c \<le> 65535"
  shows "gunzip E (gzip_stored mtime xfl os chunks) = Some (concat chunks)"
proof -
  have "gzip_stored mtime xfl os chunks \<noteq> []"
    by (simp add: gzip_stored_def)
  then show ?thesis
    by (subst gunzip.simps) (simp add: gunzip_member_stored [OF assms] gunzip_empty)
qed

lemma crc32_ephemeris: "crc32 ''ephemeris'' = 4224787749"
  by (simp add: crc32_def crc_byte_def crc_step_def)

lemma gzip_stored_ephemeris:
  "gzip_stored [CHR 0x00, CHR 0x00, CHR 0x00, CHR 0x00] (CHR 0x04) (CHR 0x03) [''ephemeris''] =
     [CHR 0x1F, CHR 0x8B, CHR 0x08, CHR 0x00, CHR 0x00, CHR 0x00, CHR 0x00, CHR 0x00, CHR 0x04,
      CHR 0x03, CHR 0x01, CHR 0x09, CHR 0x00, CHR 0xF6, CHR 0xFF]
     @ ''ephemeris''
     @ [CHR 0x25, CHR 0x25, CHR 0xD1, CHR 0xFB, CHR 0x09, CHR 0x00, CHR 0x00, CHR 0x00]"
  by (simp add: gzip_stored_def stored_block_def le16_bytes_def le32_bytes_def crc32_ephemeris
      byte_of_nat_def)


subsection \<open>The sample header, line by line\<close>

lemma file_lines_sample:
  "file_lines sample_header =
     [''     3.04           OBSERVATION DATA'' @ [CHR 0x0A],
      ''  2023    01    15    08    30   15.0000000     GPS         TIME OF FIRST OBS'' @ [CHR 0x0A]]"
  by (simp add: sample_header_def)

lemma contains1: "\<not> contains ''TIME OF FIRST OBS'' (''     3.04           OBSERVATION DATA'' @ [CHR 0x0A])"
  by (simp add: startswith_def)

lemma contains2: "contains ''TIME OF FIRST OBS'' (''  2023    01    15    08    30   15.0000000     GPS         TIME OF FIRST OBS'' @ [CHR 0x0A])"
  by (simp add: startswith_def)

lemma search2: "re_search (''  2023    01    15    08    30   15.0000000     GPS         TIME OF FIRST OBS'' @ [CHR 0x0A])
   = Some (''2023'', ''01'', ''15'', ''08'', ''30'', ''15.0000000'')"
  by (simp add: re_match_here_def re_digits4_def re_spaces_def re_field_def re_digits12_def
      re_digits_dots_def is_digit_def is_space_def)


subsection \<open>The seconds of the samples in binary arithmetic\<close>

lemmas round_binary64_eval =
  round_binary64_def floor_log2_def round_half_even_def Let_def bit_length.simps

lemma rb_150: "round_binary64 150000000 10000000 = Finite 8444249301319680 (- 49)"
  by (simp add: round_binary64_eval)

lemma rb_151: "round_binary64 151000000 10000000 = Finite 8500544296661811 (- 49)"
  by (simp add: round_binary64_eval)

lemma rb_zero: "round_binary64 0 b = Finite 0 0"
  by (simp add: round_binary64_def)

lemma rb_15: "round_binary64 15 (Suc 0) = Finite 8444249301319680 (- 49)"
  by (simp add: round_binary64_eval)

lemma rb_sub:
  "round_binary64 31691265005705622447426895872 316912650057057350374175801344
     = Finite 7205759403792768 (- 56)"
  by (simp add: round_binary64_eval)

lemma rb_mul: "round_binary64 7205759403792768000000 72057594037927936 = Finite 6871947673599976 (- 36)"
  by (simp add: round_binary64_eval)

lemma float_150: "float_of_string ''15.0000000'' = Some (Finite 8444249301319680 (- 49))"
  by (simp add: float_of_string_def is_digit_def int_of_digits_def digit_value_def rb_150)

lemma float_151: "float_of_string ''15.1000000'' = Some (Finite 8500544296661811 (- 49))"
  by (simp add: float_of_string_def is_digit_def int_of_digits_def digit_value_def rb_151)

lemma int_150: "int_of_float (Finite 8444249301319680 (- 49)) = Some 15"
  by (simp add: int_of_float_def float_num_def float_den_def)

lemma int_151: "int_of_float (Finite 8500544296661811 (- 49)) = Some 15"
  by (simp add: int_of_float_def float_num_def float_den_def)

lemma sub_150: "float_sub_int 8444249301319680 (- 49) 15 = Some (Finite 0 0)"
  by (simp add: float_sub_int_def rb_15 float_num_def float_den_def rb_zero)

lemma sub_151: "float_sub_int 8500544296661811 (- 49) 15 = Some (Finite 7205759403792768 (- 56))"
  by (simp add: float_sub_int_def rb_15 float_num_def float_den_def rb_sub)

lemma us_150: "int_of_float (float_mul_million (Finite 0 0)) = Some 0"
  by (simp add: float_mul_million_def int_of_float_def float_num_def float_den_def rb_zero)

lemma us_151: "int_of_float (float_mul_million (Finite 7205759403792768 (- 56))) = Some 99999"
  by (simp add: float_mul_million_def int_of_float_def float_num_def float_den_def rb_mul)

lemma datetime_of_groups_sample:
  "datetime_of_groups (''2023'', ''01'', ''15'', ''08'', ''30'', ''15.0000000'') = Some sample_datetime"
  by (simp add: datetime_of_groups_def float_150 int_150 sub_150 us_150 int_of_digits_def
      digit_value_def datetime_new_def days_in_month_def DAYS_IN_MONTH_def sample_datetime_def)

lemma datetime_of_groups_tenth:
  "datetime_of_groups (''2023'', ''01'', ''15'', ''08'', ''30'', ''15.1000000'')
     = Some (sample_datetime\<lparr>dt_microsecond := 99999\<rparr>)"
  by (simp add: datetime_of_groups_def float_151 int_151 sub_151 us_151 int_of_digits_def
      digit_value_def datetime_new_def days_in_month_def DAYS_IN_MONTH_def sample_datetime_def)


subsection \<open>Requests and decompressor calls of the helper functions\<close>

lemma scan_sample: "scan_lines (file_lines sample_header) = (Some sample_datetime, [])"
  by (simp only: file_lines_sample scan_lines.simps contains1 contains2 search2
      datetime_of_groups_sample if_True if_False option.case)

lemma parse_sample:
  "''rover.obs'' \<notin> unreadable E \<Longrightarrow>
   get_obs_date_from_rinex E sample_world ''rover.obs'' = (Some sample_datetime, [])"
  by (simp add: get_obs_date_from_rinex_def open_read_def sample_world_def scan_sample)

lemma rstrip_slash_out: "rstrip_slash ''out'' = ''out''"
  by (simp add: rstrip_slash_def)

lemma is_dir_sample_out: "is_dir sample_world ''out''"
  by (simp add: is_dir_def sample_world_def rstrip_slash_out)

lemma ensure_sample: "ensure_output_dir sample_world ''out'' = (Returns (), sample_world, [])"
  by (simp add: ensure_output_dir_def os_path_exists_def is_dir_sample_out)

lemma http_gets_append [simp]: "http_gets (s @ t) = http_gets s @ http_gets t"
  by (induction s rule: http_gets.induct) simp_all

lemma decompress_calls_append [simp]:
  "decompress_calls (s @ t) = decompress_calls s @ decompress_calls t"
  by (induction s rule: decompress_calls.induct) simp_all

text \<open>Whether a file can be opened for writing depends on the directories only.\<close>

lemma is_dir_dirs: "dirs w' = dirs w \<Longrightarrow> is_dir w' p = is_dir w p"
  by (simp add: is_dir_def)

lemma open_wb_dirs: "dirs w' = dirs w \<Longrightarrow> (open_wb w' p = None) = (open_wb w p = None)"
  by (simp add: open_wb_def is_dir_dirs [of w' w])

lemma open_wb_sent [simp]: "open_wb (w\<lparr>sent := n\<rparr>) p = open_wb w p"
  by (simp add: open_wb_def is_dir_def blocked_by_file_def)

lemma fetch_raises_dirs:
  "dirs w' = dirs w \<Longrightarrow> fetch_raises E n w' u p = fetch_raises E n w u p"
  by (simp add: fetch_raises_def open_wb_dirs [of w' w])

text \<open>The two ways out of \<open>download_file\<close>.\<close>

lemma download_file_cases:
  obtains
    (raises) x where
      "fetch_raises E (sent w) w u p"
      "download_file E w u p =
         (Raises x, w\<lparr>sent := Suc (sent w)\<rparr>, [Print (Attempting_download u), Http_get u])"
  | (returns) w1 t1 where
      "\<not> fetch_raises E (sent w) w u p"
      "download_file E w u p = (Returns (fetch_succeeds (net E (sent w) u)), w1, t1)"
proof (cases "fetch_raises E (sent w) w u p")
  case True
  then obtain x where "open_wb w p = Some x"
    by (auto simp: fetch_raises_def)
  with True show thesis
    by (intro raises [of x])
       (auto simp: download_file_def fetch_raises_def fails_before_body_def Let_def
          split: response.splits)
next
  case False
  then show thesis
    by (intro returns [of "world_after (download_file E w u p)" "events (download_file E w u p)"])
       (auto simp: download_file_def fetch_raises_def fails_before_body_def fetch_succeeds_def
          Let_def split: response.splits option.splits)
qed

lemma download_file_raises:
  "(\<exists>x. fst (download_file E w u p) = Raises x) = fetch_raises E (sent w) w u p"
  by (cases rule: download_file_cases [of E w u p]) auto

lemma download_file_ok:
  "fst (download_file E w u p) = Returns ok \<Longrightarrow> ok = fetch_succeeds (net E (sent w) u)"
  by (cases rule: download_file_cases [of E w u p]) auto

lemma download_file_sent: "sent (world_after (download_file E w u p)) = Suc (sent w)"
  by (simp add: download_file_def Let_def split: response.splits option.splits)

lemma download_file_gets: "http_gets (events (download_file E w u p)) = [u]"
  by (simp add: download_file_def Let_def split: response.splits option.splits)

lemma download_file_calls: "decompress_calls (events (download_file E w u p)) = []"
  by (simp add: download_file_def Let_def request_error_msg_def
      split: response.splits option.splits request_error.splits)

lemma download_file_frame:
  "q \<noteq> p \<Longrightarrow> files (world_after (download_file E w u p)) q = files w q"
  by (simp add: download_file_def Let_def split: response.splits option.splits)

lemma download_file_dirs: "dirs (world_after (download_file E w u p)) = dirs w"
  by (simp add: download_file_def Let_def split: response.splits option.splits)

lemma decompress_sent: "sent (world_after (decompress_gz_file E w g out)) = sent w"
  by (simp add: decompress_gz_file_def Let_def split: option.splits sum.splits)

lemma decompress_gets: "http_gets (events (decompress_gz_file E w g out)) = []"
  by (simp add: decompress_gz_file_def Let_def decompress_error_msg_def
      split: option.splits sum.splits os_error.splits)

lemma decompress_calls_decompress:
  "decompress_calls (events (decompress_gz_file E w g out)) = [g]"
  by (simp add: decompress_gz_file_def Let_def decompress_error_msg_def
      split: option.splits sum.splits os_error.splits)

lemma decompress_frame:
  "q \<noteq> g \<Longrightarrow> q \<noteq> out \<Longrightarrow> files (world_after (decompress_gz_file E w g out)) q = files w q"
  by (simp add: decompress_gz_file_def Let_def split: option.splits sum.splits)

lemma decompress_dirs: "dirs (world_after (decompress_gz_file E w g out)) = dirs w"
  by (simp add: decompress_gz_file_def Let_def split: option.splits sum.splits)

lemma dl_sent: "download_file E w u p = (r, w1, t1) \<Longrightarrow> sent w1 = Suc (sent w)"
  using download_file_sent [of E w u p] by simp

lemma dl_gets: "download_file E w u p = (r, w1, t1) \<Longrightarrow> http_gets t1 = [u]"
  using download_file_gets [of E w u p] by simp

lemma dl_calls: "download_file E w u p = (r, w1, t1) \<Longrightarrow> decompress_calls t1 = []"
  using download_file_calls [of E w u p] by simp

lemma dl_frame: "download_file E w u p = (r, w1, t1) \<Longrightarrow> q \<noteq> p \<Longrightarrow> files w1 q = files w q"
  using download_file_frame [of q p E w u] by simp

lemma dl_dirs: "download_file E w u p = (r, w1, t1) \<Longrightarrow> dirs w1 = dirs w"
  using download_file_dirs [of E w u p] by simp

lemma dz_sent: "decompress_gz_file E w g p = (ok, w1, t1) \<Longrightarrow> sent w1 = sent w"
  using decompress_sent [of E w g p] by simp

lemma dz_gets: "decompress_gz_file E w g p = (ok, w1, t1) \<Longrightarrow> http_gets t1 = []"
  using decompress_gets [of E w g p] by simp

lemma dz_calls: "decompress_gz_file E w g p = (ok, w1, t1) \<Longrightarrow> decompress_calls t1 = [g]"
  using decompress_calls_decompress [of E w g p] by simp

lemma dz_frame:
  "decompress_gz_file E w g out = (ok, w1, t1) \<Longrightarrow> q \<noteq> g \<Longrightarrow> q \<noteq> out \<Longrightarrow> files w1 q = files w q"
  using decompress_frame [of q g out E w] by simp

lemma dz_dirs: "decompress_gz_file E w g out = (ok, w1, t1) \<Longrightarrow> dirs w1 = dirs w"
  using decompress_dirs [of E w g out] by simp

text \<open>The ways through the observation stage.\<close>

lemma obs_stage_cases:
  obtains
    (raises) x where
      "fetch_raises E (sent w) w (obs_url nm) (os_path_join out (obs_filename_gz nm))"
      "obs_stage E w v out nm =
         (Raises x, w\<lparr>sent := Suc (sent w)\<rparr>,
          [Print (Attempting_download (obs_url nm)), Http_get (obs_url nm)])"
  | (failed) w1 t1 where
      "\<not> fetch_raises E (sent w) w (obs_url nm) (os_path_join out (obs_filename_gz nm))"
      "\<not> fetch_succeeds (net E (sent w) (obs_url nm))"
      "download_file E w (obs_url nm) (os_path_join out (obs_filename_gz nm)) = (Returns False, w1, t1)"
      "obs_stage E w v out nm = (Returns (), w1, t1 @ [Print Failed_obs_download])"
  | (decompressed) w1 t1 ok2 w2 t2 where
      "\<not> fetch_raises E (sent w) w (obs_url nm) (os_path_join out (obs_filename_gz nm))"
      "fetch_succeeds (net E (sent w) (obs_url nm))"
      "v = ''3''" "endswith (obs_filename_gz nm) ''.crx.gz''"
      "download_file E w (obs_url nm) (os_path_join out (obs_filename_gz nm)) = (Returns True, w1, t1)"
      "decompress_gz_file E w1 (os_path_join out (obs_filename_gz nm))
         (os_path_join out (obs_final_filename nm)) = (ok2, w2, t2)"
      "obs_stage E w v out nm = (Returns (), w2, t1 @ t2)"
  | (kept) w1 t1 m where
      "\<not> fetch_raises E (sent w) w (obs_url nm) (os_path_join out (obs_filename_gz nm))"
      "fetch_succeeds (net E (sent w) (obs_url nm))"
      "\<not> (v = ''3'' \<and> endswith (obs_filename_gz nm) ''.crx.gz'')"
      "download_file E w (obs_url nm) (os_path_join out (obs_filename_gz nm)) = (Returns True, w1, t1)"
      "m = (if v = ''2'' \<and> endswith (obs_filename_gz nm) ''.Z''
            then Downloaded_decompress_manually (os_path_join out (obs_filename_gz nm))
            else Downloaded_not_decompressing (os_path_join out (obs_filename_gz nm)))"
      "obs_stage E w v out nm = (Returns (), w1, t1 @ [Print m])"
proof (cases rule: download_file_cases [of E w "obs_url nm" "os_path_join out (obs_filename_gz nm)"])
  case (raises x)
  show thesis
    by (rule that(1) [of x]) (use raises in \<open>simp_all add: obs_stage_def Let_def\<close>)
next
  case (returns w1 t1)
  show thesis
  proof (cases "fetch_succeeds (net E (sent w) (obs_url nm))")
    case False
    show thesis
      by (rule failed [of w1 t1]) (use False returns in \<open>simp_all add: obs_stage_def Let_def\<close>)
  next
    case True
    show thesis
    proof (cases "v = ''3'' \<and> endswith (obs_filename_gz nm) ''.crx.gz''")
      case z: True
      obtain ok2 w2 t2 where d:
        "decompress_gz_file E w1 (os_path_join out (obs_filename_gz nm))
           (os_path_join out (obs_final_filename nm)) = (ok2, w2, t2)"
        using prod_cases3 by blast
      show thesis
        by (rule decompressed [of w1 t1 ok2 w2 t2])
           (use True returns z d in \<open>simp_all add: obs_stage_def Let_def\<close>)
    next
      case z: False
      show thesis
        by (rule kept [of w1 t1]) (use True returns z in \<open>auto simp: obs_stage_def Let_def\<close>)
    qed
  qed
qed

text \<open>The observation stage sends one request and leaves the counter one higher.\<close>

lemma obs_stage_gets: "http_gets (events (obs_stage E w v out nm)) = [obs_url nm]"
  by (cases rule: obs_stage_cases [of E w nm out v]) (simp_all add: dl_gets dz_gets)

lemma obs_stage_sent: "sent (world_after (obs_stage E w v out nm)) = Suc (sent w)"
  by (cases rule: obs_stage_cases [of E w nm out v]) (simp_all add: dl_sent dz_sent)

lemma obs_stage_dirs: "dirs (world_after (obs_stage E w v out nm)) = dirs w"
  by (cases rule: obs_stage_cases [of E w nm out v]) (simp_all add: dl_dirs dz_dirs)

lemma obs_stage_raises:
  "(\<exists>x. fst (obs_stage E w v out nm) = Raises x) =
     fetch_raises E (sent w) w (obs_url nm) (os_path_join out (obs_filename_gz nm))"
  by (cases rule: obs_stage_cases [of E w nm out v]) auto

subsection \<open>The shape of a run\<close>

lemma scan_lines_parsed: "fst (scan_lines ls) = Some dt \<Longrightarrow> snd (scan_lines ls) = []"
  by (induction ls) (auto split: option.splits if_splits)

lemma get_obs_parsed:
  "fst (get_obs_date_from_rinex E w p) = Some dt \<Longrightarrow> get_obs_date_from_rinex E w p = (Some dt, [])"
  by (auto simp: get_obs_date_from_rinex_def prod_eq_iff scan_lines_parsed
      split: sum.splits os_error.splits)

text \<open>Whether the parser returns a date depends on the files only, not on the directories.\<close>

lemma get_obs_files:
  "files w' = files w \<Longrightarrow>
   fst (get_obs_date_from_rinex E w' p) = Some dt \<longleftrightarrow> fst (get_obs_date_from_rinex E w p) = Some dt"
  by (auto simp: get_obs_date_from_rinex_def open_read_def
      split: sum.splits os_error.splits option.splits if_splits)

lemma ensure_sent: "sent (world_after (ensure_output_dir w d)) = sent w"
  by (simp add: ensure_output_dir_def split: option.splits)

lemma ensure_files: "files (world_after (ensure_output_dir w d)) = files w"
  by (simp add: ensure_output_dir_def split: option.splits)

lemma ensure_gets: "http_gets (events (ensure_output_dir w d)) = []"
  by (simp add: ensure_output_dir_def split: option.splits)

lemma ensure_calls: "decompress_calls (events (ensure_output_dir w d)) = []"
  by (simp add: ensure_output_dir_def split: option.splits)

lemma after_makedirs_sent [simp]: "sent (after_makedirs w d) = sent w"
  by (simp add: after_makedirs_def ensure_sent)

lemma after_makedirs_files [simp]: "files (after_makedirs w d) = files w"
  by (simp add: after_makedirs_def ensure_files)

lemma ensure_cases:
  obtains
    (raises) x where
      "makedirs_raises w d" "ensure_output_dir w d = (Raises x, w, [Make_dirs d])"
  | (returns) t0 where
      "\<not> makedirs_raises w d" "ensure_output_dir w d = (Returns (), after_makedirs w d, t0)"
proof (cases "makedirs_raises w d")
  case True
  then obtain x where "makedirs_error w d = Some x"
    by (auto simp: makedirs_raises_def)
  with True show thesis
    by (intro raises [of x]) (auto simp: ensure_output_dir_def makedirs_raises_def)
next
  case False
  then show thesis
    by (intro returns [of "events (ensure_output_dir w d)"])
       (auto simp: ensure_output_dir_def makedirs_raises_def after_makedirs_def
          split: option.splits)
qed

lemma en_gets: "ensure_output_dir w d = (r, w0, t0) \<Longrightarrow> http_gets t0 = []"
  using ensure_gets [of w d] by simp

lemma en_calls: "ensure_output_dir w d = (r, w0, t0) \<Longrightarrow> decompress_calls t0 = []"
  using ensure_calls [of w d] by simp

text \<open>A run whose output directory cannot be created ends there.\<close>

lemma main_makedirs_raises:
  assumes "makedirs_raises w (output_dir a)"
  shows "\<exists>x. main E w a = (Raises x, w, [Make_dirs (output_dir a)])"
  using assms by (cases rule: ensure_cases [of w "output_dir a"]) (simp_all add: main_def)

lemma main_parsed:
  assumes "fst (get_obs_date_from_rinex E w (rinex_rover_file a)) = Some dt"
    and "\<not> makedirs_raises w (output_dir a)"
  shows "main E w a =
     (fst (main_with_date E (after_makedirs w (output_dir a)) a dt),
      world_after (main_with_date E (after_makedirs w (output_dir a)) a dt),
      events (ensure_output_dir w (output_dir a))
        @ events (main_with_date E (after_makedirs w (output_dir a)) a dt))"
proof (cases rule: ensure_cases [of w "output_dir a"])
  case (raises x)
  then show ?thesis
    using assms(2) by simp
next
  case (returns t0)
  have "fst (get_obs_date_from_rinex E (after_makedirs w (output_dir a)) (rinex_rover_file a))
          = Some dt"
    using assms(1) by (simp add: get_obs_files [of "after_makedirs w (output_dir a)" w])
  then have "get_obs_date_from_rinex E (after_makedirs w (output_dir a)) (rinex_rover_file a)
          = (Some dt, [])"
    by (rule get_obs_parsed)
  then show ?thesis
    by (simp add: main_def returns(2) split: prod.splits)
qed

text \<open>The three ways through lines 108 to 191.\<close>

lemma main_with_date_cases:
  obtains
    (obs_raises) x w1 t2 where
      "obs_stage E w (rinex_obs_version a) (output_dir a) (run_obs_names a dt) = (Raises x, w1, t2)"
      "main_with_date E w a dt =
         (Raises x, w1,
          [Print (Rover_start dt),
           Print (Year_doy_station (dt_year dt) (format_03d (get_doy dt)) (upper (lower (station_id a))))]
          @ snd (build_obs_names (rinex_obs_version a) (dt_year dt) (format_03d (get_doy dt))
                   (last_two (str_nat (dt_year dt))) (lower (station_id a)))
          @ t2)"
  | (nav_raises) x w1 t2 w2 t3 where
      "obs_stage E w (rinex_obs_version a) (output_dir a) (run_obs_names a dt) = (Returns (), w1, t2)"
      "nav_stage E w1 (dt_year dt) (format_03d (get_doy dt)) (output_dir a) = (Raises x, w2, t3)"
      "main_with_date E w a dt =
         (Raises x, w2,
          [Print (Rover_start dt),
           Print (Year_doy_station (dt_year dt) (format_03d (get_doy dt)) (upper (lower (station_id a))))]
          @ snd (build_obs_names (rinex_obs_version a) (dt_year dt) (format_03d (get_doy dt))
                   (last_two (str_nat (dt_year dt))) (lower (station_id a)))
          @ t2 @ t3)"
  | (finished) w1 t2 nav_final w2 t3 where
      "obs_stage E w (rinex_obs_version a) (output_dir a) (run_obs_names a dt) = (Returns (), w1, t2)"
      "nav_stage E w1 (dt_year dt) (format_03d (get_doy dt)) (output_dir a) = (Returns nav_final, w2, t3)"
      "main_with_date E w a dt =
         (Returns (), w2,
          [Print (Rover_start dt),
           Print (Year_doy_station (dt_year dt) (format_03d (get_doy dt)) (upper (lower (station_id a))))]
          @ snd (build_obs_names (rinex_obs_version a) (dt_year dt) (format_03d (get_doy dt))
                   (last_two (str_nat (dt_year dt))) (lower (station_id a)))
          @ t2 @ t3 @ summary w2 a (obs_dl_path_final a dt) nav_final)"
proof -
  obtain nm t1 where b:
    "build_obs_names (rinex_obs_version a) (dt_year dt) (format_03d (get_doy dt))
       (last_two (str_nat (dt_year dt))) (lower (station_id a)) = (nm, t1)"
    by fastforce
  have nm: "run_obs_names a dt = nm"
    by (simp add: run_obs_names_def b)
  have fin: "obs_dl_path_final a dt = os_path_join (output_dir a) (obs_final_filename nm)"
    by (simp add: obs_dl_path_final_def nm)
  obtain r1 w1 t2 where o:
    "obs_stage E w (rinex_obs_version a) (output_dir a) nm = (r1, w1, t2)"
    using prod_cases3 by blast
  show thesis
  proof (cases r1)
    case (Raises x)
    show thesis
      by (rule obs_raises [of x w1 t2])
         (use o Raises in \<open>simp_all add: main_with_date_def Let_def b nm\<close>)
  next
    case (Returns u)
    obtain r2 w2 t3 where n:
      "nav_stage E w1 (dt_year dt) (format_03d (get_doy dt)) (output_dir a) = (r2, w2, t3)"
      using prod_cases3 by blast
    show thesis
    proof (cases r2)
      case (Raises x)
      show thesis
        by (rule nav_raises [of w1 t2 x w2 t3])
           (use o n Raises \<open>r1 = Returns u\<close> in
             \<open>simp_all add: main_with_date_def Let_def b nm\<close>)
    next
      case (Returns nav_final)
      show thesis
        by (rule finished [of w1 t2 nav_final w2 t3])
           (use o n Returns \<open>r1 = Returns u\<close> in
             \<open>simp_all add: main_with_date_def Let_def b nm fin\<close>)
    qed
  qed
qed

subsection \<open>The five ways through the navigation stage\<close>

lemma nav_stage_cases:
  obtains
    (dlr_raises) x w1 t1 where
      "fetch_raises E (sent w) w (nav_url y d) (os_path_join out (nav_filename_rnx_gz y d))"
      "download_file E w (nav_url y d) (os_path_join out (nav_filename_rnx_gz y d)) = (Raises x, w1, t1)"
      "nav_stage E w y d out = (Raises x, w1, t1)"
  | (primary) w1 t1 ok3 w3 t3 where
      "\<not> fetch_raises E (sent w) w (nav_url y d) (os_path_join out (nav_filename_rnx_gz y d))"
      "fetch_succeeds (net E (sent w) (nav_url y d))"
      "download_file E w (nav_url y d) (os_path_join out (nav_filename_rnx_gz y d)) = (Returns True, w1, t1)"
      "decompress_gz_file E w1 (os_path_join out (nav_filename_rnx_gz y d))
         (os_path_join out (nav_filename_stem y d @ ''.rnx'')) = (ok3, w3, t3)"
      "nav_stage E w y d out =
         (Returns (os_path_join out (nav_filename_stem y d @ ''.rnx'')), w3, t1 @ t3)"
  | (gde_raises) x w1 t1 w2 t2 where
      "\<not> fetch_raises E (sent w) w (nav_url y d) (os_path_join out (nav_filename_rnx_gz y d))"
      "\<not> fetch_succeeds (net E (sent w) (nav_url y d))"
      "fetch_raises E (Suc (sent w)) w (nav_url_gde y d) (os_path_join out (nav_filename_rnx_gz_gde y d))"
      "download_file E w (nav_url y d) (os_path_join out (nav_filename_rnx_gz y d)) = (Returns False, w1, t1)"
      "download_file E w1 (nav_url_gde y d) (os_path_join out (nav_filename_rnx_gz_gde y d)) = (Raises x, w2, t2)"
      "nav_stage E w y d out = (Raises x, w2, t1 @ [Print Failed_nav_dlr] @ t2)"
  | (fallback) w1 t1 w2 t2 ok3 w3 t3 where
      "\<not> fetch_raises E (sent w) w (nav_url y d) (os_path_join out (nav_filename_rnx_gz y d))"
      "\<not> fetch_succeeds (net E (sent w) (nav_url y d))"
      "\<not> fetch_raises E (Suc (sent w)) w (nav_url_gde y d) (os_path_join out (nav_filename_rnx_gz_gde y d))"
      "fetch_succeeds (net E (Suc (sent w)) (nav_url_gde y d))"
      "download_file E w (nav_url y d) (os_path_join out (nav_filename_rnx_gz y d)) = (Returns False, w1, t1)"
      "download_file E w1 (nav_url_gde y d) (os_path_join out (nav_filename_rnx_gz_gde y d)) = (Returns True, w2, t2)"
      "decompress_gz_file E w2 (os_path_join out (nav_filename_rnx_gz_gde y d))
         (os_path_join out (nav_filename_stem_gde y d @ ''.rnx'')) = (ok3, w3, t3)"
      "nav_stage E w y d out =
         (Returns (os_path_join out (nav_filename_stem_gde y d @ ''.rnx'')), w3,
          t1 @ [Print Failed_nav_dlr] @ t2 @ t3)"
  | (both_fail) w1 t1 w2 t2 where
      "\<not> fetch_raises E (sent w) w (nav_url y d) (os_path_join out (nav_filename_rnx_gz y d))"
      "\<not> fetch_succeeds (net E (sent w) (nav_url y d))"
      "\<not> fetch_raises E (Suc (sent w)) w (nav_url_gde y d) (os_path_join out (nav_filename_rnx_gz_gde y d))"
      "\<not> fetch_succeeds (net E (Suc (sent w)) (nav_url_gde y d))"
      "download_file E w (nav_url y d) (os_path_join out (nav_filename_rnx_gz y d)) = (Returns False, w1, t1)"
      "download_file E w1 (nav_url_gde y d) (os_path_join out (nav_filename_rnx_gz_gde y d)) = (Returns False, w2, t2)"
      "nav_stage E w y d out =
         (Returns (os_path_join out (nav_filename_stem_gde y d @ ''.rnx'')), w2,
          t1 @ [Print Failed_nav_dlr] @ t2 @ [Print (Failed_nav_gde y d)])"
proof (cases rule: download_file_cases [of E w "nav_url y d" "os_path_join out (nav_filename_rnx_gz y d)"])
  case (raises x)
  show thesis
    by (rule dlr_raises [of x "w\<lparr>sent := Suc (sent w)\<rparr>"
          "[Print (Attempting_download (nav_url y d)), Http_get (nav_url y d)]"])
       (use raises in \<open>simp_all add: nav_stage_def Let_def\<close>)
next
  case (returns w1 t1)
  note d1 = returns
  have s1: "sent w1 = Suc (sent w)" and dir1: "dirs w1 = dirs w"
    using dl_sent [OF d1(2)] dl_dirs [OF d1(2)] by simp_all
  show thesis
  proof (cases "fetch_succeeds (net E (sent w) (nav_url y d))")
    case True
    obtain ok3 w3 t3 where z:
      "decompress_gz_file E w1 (os_path_join out (nav_filename_rnx_gz y d))
         (os_path_join out (nav_filename_stem y d @ ''.rnx'')) = (ok3, w3, t3)"
      using prod_cases3 by blast
    show thesis
      by (rule primary [of w1 t1 ok3 w3 t3]) (use True d1 z in \<open>simp_all add: nav_stage_def Let_def\<close>)
  next
    case False
    show thesis
    proof (cases rule: download_file_cases
        [of E w1 "nav_url_gde y d" "os_path_join out (nav_filename_rnx_gz_gde y d)"])
      case (raises x)
      have r: "fetch_raises E (Suc (sent w)) w (nav_url_gde y d)
                 (os_path_join out (nav_filename_rnx_gz_gde y d))"
        using raises(1) by (simp add: s1 fetch_raises_dirs [OF dir1])
      show thesis
        by (rule gde_raises [of w1 t1 x "w1\<lparr>sent := Suc (sent w1)\<rparr>"
              "[Print (Attempting_download (nav_url_gde y d)), Http_get (nav_url_gde y d)]"])
           (use False d1 raises r in \<open>simp_all add: nav_stage_def Let_def\<close>)
    next
      case (returns w2 t2)
      note d2 = returns
      have r: "\<not> fetch_raises E (Suc (sent w)) w (nav_url_gde y d)
                 (os_path_join out (nav_filename_rnx_gz_gde y d))"
        using d2(1) by (simp add: s1 fetch_raises_dirs [OF dir1])
      show thesis
      proof (cases "fetch_succeeds (net E (Suc (sent w)) (nav_url_gde y d))")
        case True
        obtain ok3 w3 t3 where z:
          "decompress_gz_file E w2 (os_path_join out (nav_filename_rnx_gz_gde y d))
             (os_path_join out (nav_filename_stem_gde y d @ ''.rnx'')) = (ok3, w3, t3)"
          using prod_cases3 by blast
        show thesis
          by (rule fallback [of w1 t1 w2 t2 ok3 w3 t3])
            (use True \<open>\<not> fetch_succeeds (net E (sent w) (nav_url y d))\<close> d1 d2 r z s1 in
              \<open>simp_all add: nav_stage_def Let_def\<close>)
      next
        case False
        show thesis
          by (rule both_fail [of w1 t1 w2 t2])
            (use False \<open>\<not> fetch_succeeds (net E (sent w) (nav_url y d))\<close> d1 d2 r s1 in
              \<open>simp_all add: nav_stage_def Let_def\<close>)
      qed
    qed
  qed
qed

lemma nav_stage_gets:
  "http_gets (events (nav_stage E w y d out)) =
     nav_url y d
     # (if fetch_raises E (sent w) w (nav_url y d) (os_path_join out (nav_filename_rnx_gz y d))
           \<or> fetch_succeeds (net E (sent w) (nav_url y d))
        then [] else [nav_url_gde y d])"
  by (cases rule: nav_stage_cases [of E w y d out]) (simp_all add: dl_gets dz_gets)

lemma nav_stage_raises:
  "(\<exists>x. fst (nav_stage E w y d out) = Raises x) =
     (fetch_raises E (sent w) w (nav_url y d) (os_path_join out (nav_filename_rnx_gz y d))
      \<or> \<not> fetch_succeeds (net E (sent w) (nav_url y d))
        \<and> fetch_raises E (Suc (sent w)) w (nav_url_gde y d)
            (os_path_join out (nav_filename_rnx_gz_gde y d)))"
  by (cases rule: nav_stage_cases [of E w y d out]) auto

lemma nav_stage_final:
  "fst (nav_stage E w y d out) = Returns nav_final \<Longrightarrow>
   nav_final =
     (if fetch_succeeds (net E (sent w) (nav_url y d))
      then os_path_join out (nav_filename_stem y d @ ''.rnx'')
      else os_path_join out (nav_filename_stem_gde y d @ ''.rnx''))"
  by (cases rule: nav_stage_cases [of E w y d out]) auto


lemma nav_stage_calls:
  "set (decompress_calls (events (nav_stage E w y d out)))
     \<subseteq> {os_path_join out (nav_filename_rnx_gz y d), os_path_join out (nav_filename_rnx_gz_gde y d)}"
  by (cases rule: nav_stage_cases [of E w y d out]) (simp_all add: dl_calls dz_calls)

lemma nav_stage_dirs: "dirs (world_after (nav_stage E w y d out)) = dirs w"
  by (cases rule: nav_stage_cases [of E w y d out]) (simp_all add: dl_dirs dz_dirs)

lemma nav_stage_frame:
  assumes "q \<noteq> os_path_join out (nav_filename_rnx_gz y d)"
    "q \<noteq> os_path_join out (nav_filename_stem y d @ ''.rnx'')"
    "q \<noteq> os_path_join out (nav_filename_rnx_gz_gde y d)"
    "q \<noteq> os_path_join out (nav_filename_stem_gde y d @ ''.rnx'')"
  shows "files (world_after (nav_stage E w y d out)) q = files w q"
  using assms
  by (cases rule: nav_stage_cases [of E w y d out])
     (simp_all add: dl_frame [where q = q] dz_frame [where q = q])

subsection \<open>The events of a run with a parsed date\<close>

lemma os_gets: "obs_stage E w v out nm = (r, w1, t) \<Longrightarrow> http_gets t = [obs_url nm]"
  using obs_stage_gets [of E w v out nm] by simp

lemma os_sent: "obs_stage E w v out nm = (r, w1, t) \<Longrightarrow> sent w1 = Suc (sent w)"
  using obs_stage_sent [of E w v out nm] by simp

lemma os_dirs: "obs_stage E w v out nm = (r, w1, t) \<Longrightarrow> dirs w1 = dirs w"
  using obs_stage_dirs [of E w v out nm] by simp

lemma os_raises:
  "obs_stage E w v out nm = (Raises x, w1, t) \<Longrightarrow>
   fetch_raises E (sent w) w (obs_url nm) (os_path_join out (obs_filename_gz nm))"
  using obs_stage_raises [of E w v out nm] by simp

lemma os_returns:
  "obs_stage E w v out nm = (Returns u, w1, t) \<Longrightarrow>
   \<not> fetch_raises E (sent w) w (obs_url nm) (os_path_join out (obs_filename_gz nm))"
  using obs_stage_raises [of E w v out nm] by simp

lemma ns_gets:
  "nav_stage E w y d out = (r, w1, t) \<Longrightarrow>
   http_gets t =
     nav_url y d
     # (if fetch_raises E (sent w) w (nav_url y d) (os_path_join out (nav_filename_rnx_gz y d))
           \<or> fetch_succeeds (net E (sent w) (nav_url y d))
        then [] else [nav_url_gde y d])"
  using nav_stage_gets [of E w y d out] by simp

lemma ns_raises:
  "nav_stage E w y d out = (Raises x, w1, t) \<Longrightarrow>
   fetch_raises E (sent w) w (nav_url y d) (os_path_join out (nav_filename_rnx_gz y d))
   \<or> \<not> fetch_succeeds (net E (sent w) (nav_url y d))
     \<and> fetch_raises E (Suc (sent w)) w (nav_url_gde y d)
         (os_path_join out (nav_filename_rnx_gz_gde y d))"
  using nav_stage_raises [of E w y d out] by auto

lemma ns_returns:
  "nav_stage E w y d out = (Returns nav_final, w1, t) \<Longrightarrow>
   \<not> fetch_raises E (sent w) w (nav_url y d) (os_path_join out (nav_filename_rnx_gz y d))
   \<and> (fetch_succeeds (net E (sent w) (nav_url y d))
      \<or> \<not> fetch_raises E (Suc (sent w)) w (nav_url_gde y d)
           (os_path_join out (nav_filename_rnx_gz_gde y d)))"
  using nav_stage_raises [of E w y d out] by auto

lemma ns_final:
  "nav_stage E w y d out = (Returns nav_final, w1, t) \<Longrightarrow>
   nav_final =
     (if fetch_succeeds (net E (sent w) (nav_url y d))
      then os_path_join out (nav_filename_stem y d @ ''.rnx'')
      else os_path_join out (nav_filename_stem_gde y d @ ''.rnx''))"
  using nav_stage_final [of E w y d out nav_final] by simp

lemma ns_calls:
  "nav_stage E w y d out = (r, w1, t) \<Longrightarrow>
   set (decompress_calls t)
     \<subseteq> {os_path_join out (nav_filename_rnx_gz y d), os_path_join out (nav_filename_rnx_gz_gde y d)}"
  using nav_stage_calls [of E w y d out] by simp


lemma build_obs_names_gets:
  "http_gets (snd (build_obs_names v y d yy s)) = []"
  by (simp add: build_obs_names_def Let_def)

lemma build_obs_names_calls:
  "decompress_calls (snd (build_obs_names v y d yy s)) = []"
  by (simp add: build_obs_names_def Let_def)

lemma summary_gets: "http_gets (summary w a p n) = []"
  by (simp add: summary_def)

lemma summary_calls: "decompress_calls (summary w a p n) = []"
  by (simp add: summary_def)

text \<open>
  The four ways through a run whose rover file parses: the output directory cannot be
  created; the fetch of the observation file raises; a fetch of a navigation file raises;
  the run comes to its end.
\<close>

lemma main_cases:
  assumes "fst (get_obs_date_from_rinex E w (rinex_rover_file a)) = Some dt"
  obtains
    (no_dir) x where
      "makedirs_raises w (output_dir a)"
      "main E w a = (Raises x, w, [Make_dirs (output_dir a)])"
  | (obs_raises) t0 x w1 t2 where
      "\<not> makedirs_raises w (output_dir a)"
      "ensure_output_dir w (output_dir a) = (Returns (), after_makedirs w (output_dir a), t0)"
      "obs_stage E (after_makedirs w (output_dir a)) (rinex_obs_version a) (output_dir a)
         (run_obs_names a dt) = (Raises x, w1, t2)"
      "main E w a =
         (Raises x, w1,
          t0 @ [Print (Rover_start dt),
                Print (Year_doy_station (dt_year dt) (format_03d (get_doy dt))
                         (upper (lower (station_id a))))]
          @ snd (build_obs_names (rinex_obs_version a) (dt_year dt) (format_03d (get_doy dt))
                   (last_two (str_nat (dt_year dt))) (lower (station_id a)))
          @ t2)"
  | (nav_raises) t0 w1 t2 x w2 t3 where
      "\<not> makedirs_raises w (output_dir a)"
      "ensure_output_dir w (output_dir a) = (Returns (), after_makedirs w (output_dir a), t0)"
      "obs_stage E (after_makedirs w (output_dir a)) (rinex_obs_version a) (output_dir a)
         (run_obs_names a dt) = (Returns (), w1, t2)"
      "nav_stage E w1 (dt_year dt) (format_03d (get_doy dt)) (output_dir a) = (Raises x, w2, t3)"
      "main E w a =
         (Raises x, w2,
          t0 @ [Print (Rover_start dt),
                Print (Year_doy_station (dt_year dt) (format_03d (get_doy dt))
                         (upper (lower (station_id a))))]
          @ snd (build_obs_names (rinex_obs_version a) (dt_year dt) (format_03d (get_doy dt))
                   (last_two (str_nat (dt_year dt))) (lower (station_id a)))
          @ t2 @ t3)"
  | (finished) t0 w1 t2 nav_final w2 t3 where
      "\<not> makedirs_raises w (output_dir a)"
      "ensure_output_dir w (output_dir a) = (Returns (), after_makedirs w (output_dir a), t0)"
      "obs_stage E (after_makedirs w (output_dir a)) (rinex_obs_version a) (output_dir a)
         (run_obs_names a dt) = (Returns (), w1, t2)"
      "nav_stage E w1 (dt_year dt) (format_03d (get_doy dt)) (output_dir a)
         = (Returns nav_final, w2, t3)"
      "main E w a =
         (Returns (), w2,
          t0 @ [Print (Rover_start dt),
                Print (Year_doy_station (dt_year dt) (format_03d (get_doy dt))
                         (upper (lower (station_id a))))]
          @ snd (build_obs_names (rinex_obs_version a) (dt_year dt) (format_03d (get_doy dt))
                   (last_two (str_nat (dt_year dt))) (lower (station_id a)))
          @ t2 @ t3 @ summary w2 a (obs_dl_path_final a dt) nav_final)"
proof (cases rule: ensure_cases [of w "output_dir a"])
  case (raises x)
  show thesis
    by (rule no_dir [of x]) (use raises in \<open>simp_all add: main_def\<close>)
next
  case (returns t0)
  note m = main_parsed [OF assms returns(1)]
  show thesis
  proof (cases rule: main_with_date_cases [of E "after_makedirs w (output_dir a)" a dt])
    case (obs_raises x w1 t2)
    show thesis
      by (rule that(2) [of t0 x w1 t2]) (use returns obs_raises in \<open>simp_all add: m\<close>)
  next
    case (nav_raises x w1 t2 w2 t3)
    show thesis
      by (rule that(3) [of t0 w1 t2 x w2 t3]) (use returns nav_raises in \<open>simp_all add: m\<close>)
  next
    case (finished w1 t2 nav_final w2 t3)
    show thesis
      by (rule that(4) [of t0 w1 t2 nav_final w2 t3]) (use returns finished in \<open>simp_all add: m\<close>)
  qed
qed

lemma main_gets:
  assumes "fst (get_obs_date_from_rinex E w (rinex_rover_file a)) = Some dt"
  shows "http_gets (events (main E w a)) =
     (if makedirs_raises w (output_dir a) then []
      else obs_url (run_obs_names a dt)
        # (if fetch_raises E (sent w) (after_makedirs w (output_dir a))
                (obs_url (run_obs_names a dt)) (obs_dl_path_gz a dt)
           then []
           else nav_url (dt_year dt) (format_03d (get_doy dt))
             # (if fetch_raises E (Suc (sent w)) (after_makedirs w (output_dir a))
                      (nav_url (dt_year dt) (format_03d (get_doy dt))) (nav_dl_path_gz a dt)
                    \<or> fetch_succeeds (net E (Suc (sent w))
                         (nav_url (dt_year dt) (format_03d (get_doy dt))))
                 then [] else [nav_url_gde (dt_year dt) (format_03d (get_doy dt))])))"
using assms
proof (cases rule: main_cases)
  case (no_dir x)
  then show ?thesis by simp
next
  case (obs_raises t0 x w1 t2)
  show ?thesis
    using os_raises [OF obs_raises(3)] obs_raises(1)
    by (simp add: obs_raises(4) en_gets [OF obs_raises(2)] build_obs_names_gets
        os_gets [OF obs_raises(3)] obs_dl_path_gz_def)
next
  case (nav_raises t0 w1 t2 x w2 t3)
  show ?thesis
    using os_returns [OF nav_raises(3)] nav_raises(1)
    by (simp add: nav_raises(5) en_gets [OF nav_raises(2)] build_obs_names_gets
        os_gets [OF nav_raises(3)] ns_gets [OF nav_raises(4)] obs_dl_path_gz_def nav_dl_path_gz_def
        os_sent [OF nav_raises(3)] fetch_raises_dirs [OF os_dirs [OF nav_raises(3)]])
next
  case (finished t0 w1 t2 nav_final w2 t3)
  show ?thesis
    using os_returns [OF finished(3)] finished(1)
    by (simp add: finished(5) en_gets [OF finished(2)] build_obs_names_gets summary_gets
        os_gets [OF finished(3)] ns_gets [OF finished(4)] obs_dl_path_gz_def nav_dl_path_gz_def
        os_sent [OF finished(3)] fetch_raises_dirs [OF os_dirs [OF finished(3)]])
qed

text \<open>A run with a parsed date comes to its end exactly when nothing raises.\<close>

lemma main_returns:
  assumes "fst (get_obs_date_from_rinex E w (rinex_rover_file a)) = Some dt"
  shows "fst (main E w a) = Returns () \<longleftrightarrow>
     \<not> makedirs_raises w (output_dir a)
     \<and> \<not> fetch_raises E (sent w) (after_makedirs w (output_dir a))
           (obs_url (run_obs_names a dt)) (obs_dl_path_gz a dt)
     \<and> \<not> fetch_raises E (Suc (sent w)) (after_makedirs w (output_dir a))
           (nav_url (dt_year dt) (format_03d (get_doy dt))) (nav_dl_path_gz a dt)
     \<and> (fetch_succeeds (net E (Suc (sent w)) (nav_url (dt_year dt) (format_03d (get_doy dt))))
        \<or> \<not> fetch_raises E (Suc (Suc (sent w))) (after_makedirs w (output_dir a))
             (nav_url_gde (dt_year dt) (format_03d (get_doy dt))) (nav_dl_path_gz_gde a dt))"
using assms
proof (cases rule: main_cases)
  case (no_dir x)
  then show ?thesis by simp
next
  case (obs_raises t0 x w1 t2)
  show ?thesis
    using os_raises [OF obs_raises(3)]
    by (simp add: obs_raises(4) obs_dl_path_gz_def)
next
  case (nav_raises t0 w1 t2 x w2 t3)
  show ?thesis
    using ns_raises [OF nav_raises(4)] nav_raises(1)
    by (auto simp: nav_raises(5) nav_dl_path_gz_def nav_dl_path_gz_gde_def
        os_sent [OF nav_raises(3)] fetch_raises_dirs [OF os_dirs [OF nav_raises(3)]])
next
  case (finished t0 w1 t2 nav_final w2 t3)
  show ?thesis
    using ns_returns [OF finished(4)] os_returns [OF finished(3)] finished(1)
    by (auto simp: finished(5) nav_dl_path_gz_def nav_dl_path_gz_gde_def obs_dl_path_gz_def
        os_sent [OF finished(3)] fetch_raises_dirs [OF os_dirs [OF finished(3)]])
qed

lemma main_reaches_summary:
  assumes "fst (get_obs_date_from_rinex E w (rinex_rover_file a)) = Some dt"
    and "fst (main E w a) = Returns ()"
  shows "\<exists>pre. events (main E w a) =
           pre @ summary (world_after (main E w a)) a (obs_dl_path_final a dt)
                   (if fetch_succeeds (net E (Suc (sent w))
                         (nav_url (dt_year dt) (format_03d (get_doy dt))))
                    then nav_dl_path_final a dt else nav_dl_path_final_gde a dt)"
using assms(1)
proof (cases rule: main_cases)
  case (no_dir x)
  then show ?thesis using assms(2) by simp
next
  case (obs_raises t0 x w1 t2)
  then show ?thesis using assms(2) by simp
next
  case (nav_raises t0 w1 t2 x w2 t3)
  then show ?thesis using assms(2) by simp
next
  case (finished t0 w1 t2 nav_final w2 t3)
  have "nav_final =
          (if fetch_succeeds (net E (Suc (sent w)) (nav_url (dt_year dt) (format_03d (get_doy dt))))
           then nav_dl_path_final a dt else nav_dl_path_final_gde a dt)"
    using ns_final [OF finished(4)]
    by (simp add: os_sent [OF finished(3)] nav_dl_path_final_def nav_dl_path_final_gde_def)
  then show ?thesis
    by (simp only: finished(5) fst_conv snd_conv append_assoc [symmetric]) (rule exI, rule refl)
qed


subsection \<open>The names of the observation file\<close>

lemma str_nat_2023: "str_nat 2023 = ''2023''"
  by (simp add: str_nat.simps digit_char_def)

lemma lower_ALGO: "lower ''ALGO'' = ''algo''"
  by (simp add: lower_def lower_char_def ascii_uppercase_def ascii_lowercase_def)

lemma doy_sample: "format_03d (get_doy sample_datetime) = ''015''"
  by (simp add: format_03d_def get_doy_def tm_yday_def days_before_month_def DAYS_BEFORE_MONTH_def
      sample_datetime_def str_nat.simps digit_char_def)

lemma year_sample: "dt_year sample_datetime = 2023"
  by (simp add: sample_datetime_def)

text \<open>
  C1.  For version 3 the names are a fixed function of the year, the day-of-year string, the
  2-digit year and the lowercased station: the URL is the archive root, then the year, the
  day of year, the 2-digit year with \<open>o\<close>, and the file name, which is the station, the day
  of year, \<open>0.\<close>, the 2-digit year and \<open>o.crx.gz\<close>.  For 2023, \<open>015\<close>, \<open>23\<close> and \<open>ALGO\<close>
  the stem is \<open>algo0150.23o\<close>, the compressed name \<open>algo0150.23o.crx.gz\<close> and the URL ends in
  \<open>/2023/015/23o/algo0150.23o.crx.gz\<close>; a run on the sample header with station \<open>ALGO\<close>
  computes exactly these.
\<close>

theorem obs_names_version_3:
  "fst (build_obs_names ''3'' year doy_str yy station) =
     \<lparr>obs_url = CDDIS_BASE_URL @ ''/'' @ str_nat year @ ''/'' @ doy_str @ ''/'' @ yy @ ''o/''
                  @ station @ doy_str @ ''0.'' @ yy @ ''o.crx.gz'',
      obs_filename_gz = station @ doy_str @ ''0.'' @ yy @ ''o.crx.gz'',
      obs_final_filename = station @ doy_str @ ''0.'' @ yy @ ''o.crx''\<rparr>
   \<and> obs_filename_stem ''3'' station doy_str yy = station @ doy_str @ ''0.'' @ yy @ ''o''
   \<and> obs_filename_stem ''3'' (lower ''ALGO'') ''015'' ''23'' = ''algo0150.23o''
   \<and> obs_filename_gz (fst (build_obs_names ''3'' 2023 ''015'' ''23'' (lower ''ALGO'')))
       = ''algo0150.23o.crx.gz''
   \<and> obs_url (fst (build_obs_names ''3'' 2023 ''015'' ''23'' (lower ''ALGO'')))
       = ''https://cddis.nasa.gov/archive/gnss/data/daily/2023/015/23o/algo0150.23o.crx.gz''
   \<and> run_obs_names (sample_args ''ALGO'' ''3'') sample_datetime =
       \<lparr>obs_url = ''https://cddis.nasa.gov/archive/gnss/data/daily/2023/015/23o/algo0150.23o.crx.gz'',
        obs_filename_gz = ''algo0150.23o.crx.gz'',
        obs_final_filename = ''algo0150.23o.crx''\<rparr>"
  by (simp add: build_obs_names_def obs_filename_stem_def Let_def CDDIS_BASE_URL_def
      str_nat_2023 lower_ALGO run_obs_names_def sample_args_def doy_sample year_sample
      last_two_def)

subsection \<open>The navigation file and its one fallback\<close>


lemma parse_sample_args:
  "''rover.obs'' \<notin> unreadable E \<Longrightarrow>
   fst (get_obs_date_from_rinex E sample_world (rinex_rover_file (sample_args s v)))
     = Some sample_datetime"
  by (simp add: sample_args_def parse_sample)



lemma env_404_readable: "''rover.obs'' \<notin> unreadable env_404"
  by (simp add: env_404_def)

lemma sample_out_exists: "\<not> makedirs_raises sample_world (output_dir (sample_args s v))"
  by (simp add: makedirs_raises_def os_path_exists_def is_dir_sample_out sample_args_def)



subsection \<open>The summary\<close>

lemma lower_AL_GO: "lower ''AL/GO'' = ''al/go''"
  by (simp add: lower_def lower_char_def ascii_uppercase_def ascii_lowercase_def)

lemma upper_al_go: "upper ''al/go'' = ''AL/GO''"
  by (simp add: upper_def upper_char_def ascii_uppercase_def ascii_lowercase_def)

lemma names_AL_GO:
  "build_obs_names ''3'' 2023 ''015'' ''23'' ''al/go'' =
     (\<lparr>obs_url = ''https://cddis.nasa.gov/archive/gnss/data/daily/2023/015/23o/al/go0150.23o.crx.gz'',
       obs_filename_gz = ''al/go0150.23o.crx.gz'',
       obs_final_filename = ''al/go0150.23o.crx''\<rparr>, [])"
  by (simp add: build_obs_names_def obs_filename_stem_def Let_def CDDIS_BASE_URL_def str_nat_2023)

lemma dirname_AL_GO: "dirname ''out/al/go0150.23o.crx.gz'' = ''out/al''"
  by (simp add: dirname_def rstrip_slash_def)

lemma parents_out_al: "parents ''out/al'' = [''out'', ''out/al'']"
  by (simp add: parents_def)

lemma open_wb_AL_GO:
  "open_wb (sample_world\<lparr>sent := n\<rparr>) ''out/al/go0150.23o.crx.gz'' = Some FileNotFoundError"
  by (simp add: open_wb_def dirname_AL_GO is_dir_def blocked_by_file_def parents_out_al
      sample_world_def rstrip_slash_def)

lemma download_AL_GO:
  "download_file env_first_only sample_world
     ''https://cddis.nasa.gov/archive/gnss/data/daily/2023/015/23o/al/go0150.23o.crx.gz''
     ''out/al/go0150.23o.crx.gz'' =
   (Raises FileNotFoundError, sample_world\<lparr>sent := 1\<rparr>,
    [Print (Attempting_download
       ''https://cddis.nasa.gov/archive/gnss/data/daily/2023/015/23o/al/go0150.23o.crx.gz''),
     Http_get ''https://cddis.nasa.gov/archive/gnss/data/daily/2023/015/23o/al/go0150.23o.crx.gz''])"
proof -
  have n: "net env_first_only (sent sample_world) u = Response 200 [''abc'', ''def''] None" for u
    by (simp add: env_first_only_def sample_world_def)
  have s: "Suc (sent sample_world) = 1"
    by (simp add: sample_world_def)
  show ?thesis
    unfolding download_file_def Let_def n s
    by (simp add: raise_for_status_def open_wb_AL_GO del: open_wb_sent)
qed

lemma obs_stage_AL_GO:
  "obs_stage env_first_only sample_world ''3'' ''out''
     \<lparr>obs_url = ''https://cddis.nasa.gov/archive/gnss/data/daily/2023/015/23o/al/go0150.23o.crx.gz'',
      obs_filename_gz = ''al/go0150.23o.crx.gz'',
      obs_final_filename = ''al/go0150.23o.crx''\<rparr> =
   (Raises FileNotFoundError, sample_world\<lparr>sent := 1\<rparr>,
    [Print (Attempting_download
       ''https://cddis.nasa.gov/archive/gnss/data/daily/2023/015/23o/al/go0150.23o.crx.gz''),
     Http_get ''https://cddis.nasa.gov/archive/gnss/data/daily/2023/015/23o/al/go0150.23o.crx.gz''])"
proof -
  have j: "os_path_join ''out'' ''al/go0150.23o.crx.gz'' = ''out/al/go0150.23o.crx.gz''"
    by (simp add: os_path_join_def)
  show ?thesis
    unfolding obs_stage_def Let_def obs_names.simps j download_AL_GO
    by simp
qed

lemma last_two_2023: "last_two ''2023'' = ''23''"
  by (simp add: last_two_def)

lemma main_with_date_AL_GO:
  "main_with_date env_first_only sample_world (sample_args ''AL/GO'' ''3'') sample_datetime =
   (Raises FileNotFoundError, sample_world\<lparr>sent := 1\<rparr>,
    [Print (Rover_start sample_datetime),
     Print (Year_doy_station 2023 ''015'' ''AL/GO''),
     Print (Attempting_download
       ''https://cddis.nasa.gov/archive/gnss/data/daily/2023/015/23o/al/go0150.23o.crx.gz''),
     Http_get ''https://cddis.nasa.gov/archive/gnss/data/daily/2023/015/23o/al/go0150.23o.crx.gz''])"
proof -
  have a: "rinex_obs_version (sample_args ''AL/GO'' ''3'') = ''3''"
    "output_dir (sample_args ''AL/GO'' ''3'') = ''out''"
    "station_id (sample_args ''AL/GO'' ''3'') = ''AL/GO''"
    by (simp_all add: sample_args_def)
  show ?thesis
    unfolding main_with_date_def Let_def a year_sample doy_sample str_nat_2023 last_two_2023
      lower_AL_GO upper_al_go names_AL_GO
    by (simp add: obs_stage_AL_GO)
qed

lemma env_first_only_readable: "''rover.obs'' \<notin> unreadable env_first_only"
  by (simp add: env_first_only_def)

text \<open>Only the summary prints the line that the download process has finished.\<close>

lemma download_file_unfinished: "Print Finished \<notin> set (events (download_file E w u p))"
  by (auto simp: download_file_def Let_def request_error_msg_def
      split: response.splits option.splits request_error.splits)

lemma decompress_unfinished: "Print Finished \<notin> set (events (decompress_gz_file E w g out))"
  by (auto simp: decompress_gz_file_def Let_def decompress_error_msg_def
      split: option.splits sum.splits os_error.splits)

lemma dl_unfinished: "download_file E w u p = (r, w1, t1) \<Longrightarrow> Print Finished \<notin> set t1"
  using download_file_unfinished [of E w u p] by simp

lemma dz_unfinished: "decompress_gz_file E w g p = (ok, w1, t1) \<Longrightarrow> Print Finished \<notin> set t1"
  using decompress_unfinished [of E w g p] by simp

lemma obs_stage_unfinished: "Print Finished \<notin> set (events (obs_stage E w v out nm))"
  by (cases rule: obs_stage_cases [of E w nm out v])
     (auto simp: dl_unfinished dz_unfinished split: if_splits)

lemma nav_stage_unfinished: "Print Finished \<notin> set (events (nav_stage E w y d out))"
  by (cases rule: nav_stage_cases [of E w y d out]) (auto simp: dl_unfinished dz_unfinished)

lemma os_unfinished: "obs_stage E w v out nm = (r, w1, t) \<Longrightarrow> Print Finished \<notin> set t"
  using obs_stage_unfinished [of E w v out nm] by simp

lemma ns_unfinished: "nav_stage E w y d out = (r, w1, t) \<Longrightarrow> Print Finished \<notin> set t"
  using nav_stage_unfinished [of E w y d out] by simp

lemma en_unfinished: "ensure_output_dir w d = (r, w0, t0) \<Longrightarrow> Print Finished \<notin> set t0"
  by (auto simp: ensure_output_dir_def split: if_splits option.splits)

lemma build_obs_names_unfinished: "Print Finished \<notin> set (snd (build_obs_names v y d yy s))"
  by (simp add: build_obs_names_def Let_def)

text \<open>
  A run whose rover file parses prints the summary exactly when nothing raises: an exception
  of \<open>os.makedirs\<close> or of a fetch ends the run without it.
\<close>

lemma summary_iff_returns:
  assumes "fst (get_obs_date_from_rinex E w (rinex_rover_file a)) = Some dt"
  shows "Print Finished \<in> set (events (main E w a)) \<longleftrightarrow> fst (main E w a) = Returns ()"
  using assms
proof (cases rule: main_cases)
  case (no_dir x)
  then show ?thesis by simp
next
  case (obs_raises t0 x w1 t2)
  show ?thesis
    using en_unfinished [OF obs_raises(2)] os_unfinished [OF obs_raises(3)]
      build_obs_names_unfinished
    by (simp add: obs_raises(4))
next
  case (nav_raises t0 w1 t2 x w2 t3)
  show ?thesis
    using en_unfinished [OF nav_raises(2)] os_unfinished [OF nav_raises(3)]
      ns_unfinished [OF nav_raises(4)] build_obs_names_unfinished
    by (simp add: nav_raises(5))
next
  case (finished t0 w1 t2 nav_final w2 t3)
  show ?thesis
    by (simp add: finished(5) summary_def)
qed

text \<open>
  C7.  The summary is not reached by every run.  \<open>download_file\<close> catches the exceptions of
  \<open>requests\<close>, unlike \<open>decompress_gz_file\<close> and the parser, which catch every exception:
  when the destination of a download cannot be opened, \<open>open\<close> raises on line 54, no handler
  catches it, and the run ends there.  With the station id \<open>AL/GO\<close>, the output directory
  \<open>out\<close> (which exists) and a server that delivers the observation file, the destination is
  \<open>out/al/go0150.23o.crx.gz\<close> in the directory \<open>out/al\<close>, which does not exist: the run
  raises \<open>FileNotFoundError\<close> after its first request.  No navigation file is requested and
  no line of the summary is printed.  (When the summary is printed, the path of the rover
  file on line 189 is printed without a check, unlike the other two.)
\<close>

theorem summary_not_reached:
  "fetch_succeeds (net env_first_only (sent sample_world)
      ''https://cddis.nasa.gov/archive/gnss/data/daily/2023/015/23o/al/go0150.23o.crx.gz'')
   \<and> main env_first_only sample_world (sample_args ''AL/GO'' ''3'') =
       (Raises FileNotFoundError, sample_world\<lparr>sent := 1\<rparr>,
        [Print (Rover_start sample_datetime),
         Print (Year_doy_station 2023 ''015'' ''AL/GO''),
         Print (Attempting_download
           ''https://cddis.nasa.gov/archive/gnss/data/daily/2023/015/23o/al/go0150.23o.crx.gz''),
         Http_get ''https://cddis.nasa.gov/archive/gnss/data/daily/2023/015/23o/al/go0150.23o.crx.gz''])
   \<and> Print Finished \<notin> set (events (main env_first_only sample_world (sample_args ''AL/GO'' ''3'')))"
proof -
  have f: "fetch_succeeds (net env_first_only (sent sample_world) u)" for u
    by (simp add: env_first_only_def sample_world_def fetch_succeeds_def raise_for_status_def)
  have a: "output_dir (sample_args ''AL/GO'' ''3'') = ''out''"
    "rinex_rover_file (sample_args ''AL/GO'' ''3'') = ''rover.obs''"
    by (simp_all add: sample_args_def)
  have m: "main env_first_only sample_world (sample_args ''AL/GO'' ''3'') =
       (Raises FileNotFoundError, sample_world\<lparr>sent := 1\<rparr>,
        [Print (Rover_start sample_datetime),
         Print (Year_doy_station 2023 ''015'' ''AL/GO''),
         Print (Attempting_download
           ''https://cddis.nasa.gov/archive/gnss/data/daily/2023/015/23o/al/go0150.23o.crx.gz''),
         Http_get ''https://cddis.nasa.gov/archive/gnss/data/daily/2023/015/23o/al/go0150.23o.crx.gz''])"
    by (simp add: main_def a ensure_sample parse_sample [OF env_first_only_readable]
        main_with_date_AL_GO)
  show ?thesis
    unfolding m by (simp add: f)
qed

subsection \<open>Version 2 is never decompressed\<close>

lemma last_os_path_join: "b \<noteq> [] \<Longrightarrow> last (os_path_join a b) = last b"
  by (simp add: os_path_join_def)

lemma run_obs_names_v2:
  "rinex_obs_version a = ''2'' \<Longrightarrow>
   run_obs_names a dt =
     \<lparr>obs_url = CDDIS_BASE_URL @ ''/'' @ str_nat (dt_year dt) @ ''/'' @ format_03d (get_doy dt)
                  @ ''/'' @ last_two (str_nat (dt_year dt)) @ ''d/'' @ lower (station_id a)
                  @ format_03d (get_doy dt) @ ''0.'' @ last_two (str_nat (dt_year dt)) @ ''d.Z'',
      obs_filename_gz = lower (station_id a) @ format_03d (get_doy dt) @ ''0.''
                          @ last_two (str_nat (dt_year dt)) @ ''d.Z'',
      obs_final_filename = lower (station_id a) @ format_03d (get_doy dt) @ ''0.''
                             @ last_two (str_nat (dt_year dt)) @ ''d''\<rparr>"
  by (simp add: run_obs_names_def build_obs_names_def obs_filename_stem_def Let_def)

lemma endswith_Z_v2:
  "rinex_obs_version a = ''2'' \<Longrightarrow> endswith (obs_filename_gz (run_obs_names a dt)) ''.Z''"
  by (simp add: run_obs_names_def build_obs_names_def Let_def endswith_def)

lemma build_obs_names_warns_v2:
  "snd (build_obs_names ''2'' y d yy s) = [Print (Warn_rinex2_manual (s @ d @ ''0.'' @ yy @ ''d.Z''))]"
  by (simp add: build_obs_names_def obs_filename_stem_def Let_def)

lemma obs_stage_calls_v2:
  "decompress_calls (events (obs_stage E w ''2'' out nm)) = []"
  by (cases rule: obs_stage_cases [of E w nm out "''2''"]) (simp_all add: dl_calls)

lemma obs_stage_manual_v2:
  assumes "fetch_succeeds (net E (sent w) (obs_url nm))"
    and "\<not> fetch_raises E (sent w) w (obs_url nm) (os_path_join out (obs_filename_gz nm))"
    and "endswith (obs_filename_gz nm) ''.Z''"
  shows "Print (Downloaded_decompress_manually (os_path_join out (obs_filename_gz nm)))
           \<in> set (events (obs_stage E w ''2'' out nm))"
  using assms by (cases rule: obs_stage_cases [of E w nm out "''2''"]) simp_all

lemma obs_stage_frame_v2:
  assumes "q \<noteq> os_path_join out (obs_filename_gz nm)"
  shows "files (world_after (obs_stage E w ''2'' out nm)) q = files w q"
  using assms
  by (cases rule: obs_stage_cases [of E w nm out "''2''"]) (simp_all add: dl_frame [where q = q])

lemma os_calls_v2: "obs_stage E w ''2'' out nm = (r, w1, t) \<Longrightarrow> decompress_calls t = []"
  using obs_stage_calls_v2 [of E w out nm] by simp

lemma os_frame_v2:
  "obs_stage E w ''2'' out nm = (r, w1, t) \<Longrightarrow> q \<noteq> os_path_join out (obs_filename_gz nm) \<Longrightarrow>
   files w1 q = files w q"
  using obs_stage_frame_v2 [of q out nm E w] by simp

lemma ns_dirs: "nav_stage E w y d out = (r, w1, t) \<Longrightarrow> dirs w1 = dirs w"
  using nav_stage_dirs [of E w y d out] by simp

lemma ns_frame:
  "nav_stage E w y d out = (r, w1, t) \<Longrightarrow>
   q \<noteq> os_path_join out (nav_filename_rnx_gz y d) \<Longrightarrow>
   q \<noteq> os_path_join out (nav_filename_stem y d @ ''.rnx'') \<Longrightarrow>
   q \<noteq> os_path_join out (nav_filename_rnx_gz_gde y d) \<Longrightarrow>
   q \<noteq> os_path_join out (nav_filename_stem_gde y d @ ''.rnx'') \<Longrightarrow>
   files w1 q = files w q"
  using nav_stage_frame [of q out y d E w] by simp

lemma main_calls_v2:
  assumes "fst (get_obs_date_from_rinex E w (rinex_rover_file a)) = Some dt"
    and "rinex_obs_version a = ''2''"
  shows "set (decompress_calls (events (main E w a)))
           \<subseteq> {nav_dl_path_gz a dt, nav_dl_path_gz_gde a dt}"
  using assms(1)
proof (cases rule: main_cases)
  case (no_dir x)
  then show ?thesis by simp
next
  case (obs_raises t0 x w1 t2)
  show ?thesis
    using os_calls_v2 [OF obs_raises(3) [unfolded assms(2)]]
    by (simp add: obs_raises(4) en_calls [OF obs_raises(2)] build_obs_names_calls)
next
  case (nav_raises t0 w1 t2 x w2 t3)
  show ?thesis
    using os_calls_v2 [OF nav_raises(3) [unfolded assms(2)]] ns_calls [OF nav_raises(4)]
    by (simp add: nav_raises(5) en_calls [OF nav_raises(2)] build_obs_names_calls
        nav_dl_path_gz_def nav_dl_path_gz_gde_def)
next
  case (finished t0 w1 t2 nav_final w2 t3)
  show ?thesis
    using os_calls_v2 [OF finished(3) [unfolded assms(2)]] ns_calls [OF finished(4)]
    by (simp add: finished(5) en_calls [OF finished(2)] build_obs_names_calls summary_calls
        nav_dl_path_gz_def nav_dl_path_gz_gde_def)
qed

lemma main_warns_v2:
  assumes "fst (get_obs_date_from_rinex E w (rinex_rover_file a)) = Some dt"
    and "rinex_obs_version a = ''2''"
    and "\<not> makedirs_raises w (output_dir a)"
  shows "Print (Warn_rinex2_manual (obs_filename_gz (run_obs_names a dt))) \<in> set (events (main E w a))"
  using assms(1)
proof (cases rule: main_cases)
  case (no_dir x)
  then show ?thesis using assms(3) by simp
next
  case (obs_raises t0 x w1 t2)
  show ?thesis
    by (simp add: obs_raises(4) assms(2) build_obs_names_warns_v2 run_obs_names_v2 [OF assms(2)])
next
  case (nav_raises t0 w1 t2 x w2 t3)
  show ?thesis
    by (simp add: nav_raises(5) assms(2) build_obs_names_warns_v2 run_obs_names_v2 [OF assms(2)])
next
  case (finished t0 w1 t2 nav_final w2 t3)
  show ?thesis
    by (simp add: finished(5) assms(2) build_obs_names_warns_v2 run_obs_names_v2 [OF assms(2)])
qed

lemma main_manual_v2:
  assumes "fst (get_obs_date_from_rinex E w (rinex_rover_file a)) = Some dt"
    and "rinex_obs_version a = ''2''"
    and "\<not> makedirs_raises w (output_dir a)"
    and "fetch_succeeds (net E (sent w) (obs_url (run_obs_names a dt)))"
    and "\<not> fetch_raises E (sent w) (after_makedirs w (output_dir a))
           (obs_url (run_obs_names a dt)) (obs_dl_path_gz a dt)"
  shows "Print (Downloaded_decompress_manually (obs_dl_path_gz a dt)) \<in> set (events (main E w a))"
proof -
  have m: "Print (Downloaded_decompress_manually (obs_dl_path_gz a dt))
            \<in> set (events (obs_stage E (after_makedirs w (output_dir a)) ''2'' (output_dir a)
                             (run_obs_names a dt)))"
    unfolding obs_dl_path_gz_def
    by (rule obs_stage_manual_v2)
       (use assms(4,5) in \<open>simp_all add: endswith_Z_v2 [OF assms(2)] obs_dl_path_gz_def\<close>)
  from assms(1) show ?thesis
  proof (cases rule: main_cases)
    case (no_dir x)
    then show ?thesis using assms(3) by simp
  next
    case (obs_raises t0 x w1 t2)
    show ?thesis
      using m by (simp add: obs_raises(4) obs_raises(3) [unfolded assms(2)])
  next
    case (nav_raises t0 w1 t2 x w2 t3)
    show ?thesis
      using m by (simp add: nav_raises(5) nav_raises(3) [unfolded assms(2)])
  next
    case (finished t0 w1 t2 nav_final w2 t3)
    show ?thesis
      using m by (simp add: finished(5) finished(3) [unfolded assms(2)])
  qed
qed

lemma main_prints_base_obs:
  assumes "fst (get_obs_date_from_rinex E w (rinex_rover_file a)) = Some dt"
    and "fst (main E w a) = Returns ()"
  shows "Print (Summary_base_obs
                  (if os_path_exists (world_after (main E w a)) (obs_dl_path_final a dt)
                   then obs_dl_path_final a dt else manual_obs)) \<in> set (events (main E w a))"
proof -
  obtain pre n where
    "events (main E w a) = pre @ summary (world_after (main E w a)) a (obs_dl_path_final a dt) n"
    using main_reaches_summary [OF assms] by blast
  then show ?thesis
    by (simp add: summary_def manual_obs_def)
qed

lemma os_path_exists_cong:
  "files w' p = files w p \<Longrightarrow> dirs w' = dirs w \<Longrightarrow> os_path_exists w' p = os_path_exists w p"
  by (simp add: os_path_exists_def is_dir_def)

lemma version_2_final_absent:
  assumes "fst (get_obs_date_from_rinex E w (rinex_rover_file a)) = Some dt"
    and "rinex_obs_version a = ''2''"
    and "fst (main E w a) = Returns ()"
  shows "os_path_exists (world_after (main E w a)) (obs_dl_path_final a dt)
           = os_path_exists (after_makedirs w (output_dir a)) (obs_dl_path_final a dt)"
proof -
  note v = assms(2)
  note names = run_obs_names_v2 [OF v, of dt]
  let ?P = "obs_dl_path_final a dt"
  have l: "last ?P = CHR ''d''"
    by (simp add: obs_dl_path_final_def names last_os_path_join)
  have n1: "?P \<noteq> os_path_join (output_dir a) (obs_filename_gz (run_obs_names a dt))"
    using l by (auto simp: names last_os_path_join)
  have n2: "?P \<noteq> os_path_join (output_dir a)
                    (nav_filename_rnx_gz (dt_year dt) (format_03d (get_doy dt)))"
    using l by (auto simp: last_os_path_join nav_filename_rnx_gz_def)
  have n3: "?P \<noteq> os_path_join (output_dir a)
                    (nav_filename_stem (dt_year dt) (format_03d (get_doy dt)) @ ''.rnx'')"
    using l by (auto simp: last_os_path_join)
  have n4: "?P \<noteq> os_path_join (output_dir a)
                    (nav_filename_rnx_gz_gde (dt_year dt) (format_03d (get_doy dt)))"
    using l by (auto simp: last_os_path_join nav_filename_rnx_gz_gde_def)
  have n5: "?P \<noteq> os_path_join (output_dir a)
                    (nav_filename_stem_gde (dt_year dt) (format_03d (get_doy dt)) @ ''.rnx'')"
    using l by (auto simp: last_os_path_join)
  from assms(1) show ?thesis
  proof (cases rule: main_cases)
    case (no_dir x)
    then show ?thesis using assms(3) by simp
  next
    case (obs_raises t0 x w1 t2)
    then show ?thesis using assms(3) by simp
  next
    case (nav_raises t0 w1 t2 x w2 t3)
    then show ?thesis using assms(3) by simp
  next
    case (finished t0 w1 t2 nav_final w2 t3)
    have f: "files w2 ?P = files (after_makedirs w (output_dir a)) ?P"
      using ns_frame [OF finished(4) n2 n3 n4 n5] os_frame_v2 [OF finished(3) [unfolded v] n1]
      by simp
    have d: "dirs w2 = dirs (after_makedirs w (output_dir a))"
      using ns_dirs [OF finished(4)] os_dirs [OF finished(3)] by simp
    show ?thesis
      by (simp add: finished(5) os_path_exists_cong [OF f d])
  qed
qed

text \<open>
  C8.  With version 2 and a parsed date, whatever the network answers: the observation
  stage never calls the decompressor; every call of the decompressor in the run is on one
  of the two compressed navigation files, and the compressed observation file (whose name
  ends in \<open>.Z\<close>) is not among them; once the output directory is there, the warning that
  the file needs manual decompression is printed before the fetch, so in either outcome;
  when the fetch delivers the file the program also asks to decompress the downloaded file
  manually; and unless the decompressed observation file is there before the fetch, the
  summary of a run that comes to its end gives the instruction to obtain it manually, in
  either outcome.
\<close>

theorem version_2_never_decompressed:
  assumes "fst (get_obs_date_from_rinex E w (rinex_rover_file a)) = Some dt"
    and "rinex_obs_version a = ''2''"
  shows "obs_dl_path_gz a dt \<notin> set (decompress_calls (events (main E w a)))
     \<and> decompress_calls (events (obs_stage E w' ''2'' (output_dir a) (run_obs_names a dt))) = []
     \<and> set (decompress_calls (events (main E w a)))
         \<subseteq> {nav_dl_path_gz a dt, nav_dl_path_gz_gde a dt}
     \<and> obs_filename_gz (run_obs_names a dt) =
         lower (station_id a) @ format_03d (get_doy dt) @ ''0.''
           @ last_two (str_nat (dt_year dt)) @ ''d.Z''
     \<and> (\<not> makedirs_raises w (output_dir a)
          \<longrightarrow> Print (Warn_rinex2_manual (obs_filename_gz (run_obs_names a dt)))
                \<in> set (events (main E w a)))
     \<and> (\<not> makedirs_raises w (output_dir a)
          \<and> fetch_succeeds (net E (sent w) (obs_url (run_obs_names a dt)))
          \<and> \<not> fetch_raises E (sent w) (after_makedirs w (output_dir a))
                (obs_url (run_obs_names a dt)) (obs_dl_path_gz a dt)
          \<longrightarrow> Print (Downloaded_decompress_manually (obs_dl_path_gz a dt))
                \<in> set (events (main E w a)))
     \<and> (fst (main E w a) = Returns ()
          \<and> \<not> os_path_exists (after_makedirs w (output_dir a)) (obs_dl_path_final a dt)
          \<longrightarrow> Print (Summary_base_obs manual_obs) \<in> set (events (main E w a)))"
proof -
  note v = assms(2)
  note names = run_obs_names_v2 [OF v, of dt]
  have sub: "set (decompress_calls (events (main E w a)))
         \<subseteq> {nav_dl_path_gz a dt, nav_dl_path_gz_gde a dt}"
    by (rule main_calls_v2 [OF assms])
  have l1: "last (obs_dl_path_gz a dt) = CHR ''Z''"
    by (simp add: obs_dl_path_gz_def names last_os_path_join)
  have l2: "last (nav_dl_path_gz a dt) = CHR ''z''"
    by (simp add: nav_dl_path_gz_def last_os_path_join nav_filename_rnx_gz_def)
  have l3: "last (nav_dl_path_gz_gde a dt) = CHR ''z''"
    by (simp add: nav_dl_path_gz_gde_def last_os_path_join nav_filename_rnx_gz_gde_def)
  have notin: "obs_dl_path_gz a dt \<notin> set (decompress_calls (events (main E w a)))"
  proof
    assume "obs_dl_path_gz a dt \<in> set (decompress_calls (events (main E w a)))"
    with sub have "obs_dl_path_gz a dt = nav_dl_path_gz a dt
                 \<or> obs_dl_path_gz a dt = nav_dl_path_gz_gde a dt"
      by blast
    then show False
      using l1 l2 l3 by auto
  qed
  have summ: "Print (Summary_base_obs manual_obs) \<in> set (events (main E w a))"
    if "fst (main E w a) = Returns ()"
      "\<not> os_path_exists (after_makedirs w (output_dir a)) (obs_dl_path_final a dt)"
    using main_prints_base_obs [OF assms(1) that(1)] version_2_final_absent [OF assms that(1)] that(2)
    by simp
  show ?thesis
    using notin sub main_warns_v2 [OF assms] main_manual_v2 [OF assms] summ
    by (simp add: obs_stage_calls_v2 names)
qed

lemma env_first_only_no_raise_out:
  "\<not> fetch_raises env_first_only n sample_world u ''out/algo0150.23d.Z''"
  by (simp add: fetch_raises_def open_wb_def dirname_def rstrip_slash_def is_dir_def
      sample_world_def)

lemma after_makedirs_sample: "after_makedirs sample_world ''out'' = sample_world"
  by (simp add: after_makedirs_def ensure_sample)

theorem version_2_never_decompressed_witness:
  "fst (get_obs_date_from_rinex env_first_only sample_world
          (rinex_rover_file (sample_args ''ALGO'' ''2''))) = Some sample_datetime
   \<and> rinex_obs_version (sample_args ''ALGO'' ''2'') = ''2''
   \<and> \<not> makedirs_raises sample_world (output_dir (sample_args ''ALGO'' ''2''))
   \<and> fetch_succeeds (net env_first_only (sent sample_world)
         (obs_url (run_obs_names (sample_args ''ALGO'' ''2'') sample_datetime)))
   \<and> fst (main env_first_only sample_world (sample_args ''ALGO'' ''2'')) = Returns ()
   \<and> ''out/algo0150.23d.Z''
        \<notin> set (decompress_calls (events (main env_first_only sample_world (sample_args ''ALGO'' ''2''))))
   \<and> Print (Warn_rinex2_manual ''algo0150.23d.Z'')
        \<in> set (events (main env_first_only sample_world (sample_args ''ALGO'' ''2'')))
   \<and> Print (Downloaded_decompress_manually ''out/algo0150.23d.Z'')
        \<in> set (events (main env_first_only sample_world (sample_args ''ALGO'' ''2'')))
   \<and> \<not> os_path_exists sample_world ''out/algo0150.23d''
   \<and> Print (Summary_base_obs manual_obs)
        \<in> set (events (main env_first_only sample_world (sample_args ''ALGO'' ''2'')))"
proof -
  have p: "fst (get_obs_date_from_rinex env_first_only sample_world
                  (rinex_rover_file (sample_args ''ALGO'' ''2''))) = Some sample_datetime"
    by (rule parse_sample_args [OF env_first_only_readable])
  have v: "rinex_obs_version (sample_args ''ALGO'' ''2'') = ''2''"
    by (simp add: sample_args_def)
  have g: "obs_filename_gz (run_obs_names (sample_args ''ALGO'' ''2'') sample_datetime)
             = ''algo0150.23d.Z''"
    using run_obs_names_v2 [OF v, of sample_datetime]
    by (simp add: sample_args_def lower_ALGO doy_sample year_sample str_nat_2023 last_two_def)
  have q: "obs_dl_path_gz (sample_args ''ALGO'' ''2'') sample_datetime = ''out/algo0150.23d.Z''"
    by (simp add: obs_dl_path_gz_def g) (simp add: sample_args_def os_path_join_def)
  have ok: "fetch_succeeds (net env_first_only (sent sample_world) u)" for u
    by (simp add: env_first_only_def sample_world_def fetch_succeeds_def raise_for_status_def)
  have h: "obs_final_filename (run_obs_names (sample_args ''ALGO'' ''2'') sample_datetime)
             = ''algo0150.23d''"
    using run_obs_names_v2 [OF v, of sample_datetime]
    by (simp add: sample_args_def lower_ALGO doy_sample year_sample str_nat_2023 last_two_def)
  have r: "obs_dl_path_final (sample_args ''ALGO'' ''2'') sample_datetime = ''out/algo0150.23d''"
    by (simp add: obs_dl_path_final_def h) (simp add: sample_args_def os_path_join_def)
  have o: "output_dir (sample_args ''ALGO'' ''2'') = ''out''"
    by (simp add: sample_args_def)
  have x: "\<not> os_path_exists sample_world ''out/algo0150.23d''"
    by (simp add: os_path_exists_def is_dir_def rstrip_slash_def sample_world_def)
  have m: "\<not> makedirs_raises sample_world (output_dir (sample_args ''ALGO'' ''2''))"
    by (rule sample_out_exists)
  have n1: "\<not> fetch_raises env_first_only (sent sample_world)
              (after_makedirs sample_world (output_dir (sample_args ''ALGO'' ''2'')))
              (obs_url (run_obs_names (sample_args ''ALGO'' ''2'') sample_datetime))
              (obs_dl_path_gz (sample_args ''ALGO'' ''2'') sample_datetime)"
    by (simp only: o after_makedirs_sample q env_first_only_no_raise_out simp_thms)
  have fb: "fails_before_body (net env_first_only (Suc n) u)" for n u
    by (simp add: env_first_only_def fails_before_body_def raise_for_status_def)
  have ret: "fst (main env_first_only sample_world (sample_args ''ALGO'' ''2'')) = Returns ()"
    using main_returns [OF p] m n1 by (simp add: fetch_raises_def fb)
  show ?thesis
    using version_2_never_decompressed [OF p v] p v ok x m n1 ret
    unfolding g q r o after_makedirs_sample by blast
qed

subsection \<open>The station identifier\<close>

lemma lower_char_not_upper: "lower_char c \<notin> set ascii_uppercase"
  by (simp add: lower_char_def ascii_uppercase_def ascii_lowercase_def)

lemma run_obs_names_v3:
  "rinex_obs_version a = ''3'' \<Longrightarrow>
   run_obs_names a dt =
     \<lparr>obs_url = CDDIS_BASE_URL @ ''/'' @ str_nat (dt_year dt) @ ''/'' @ format_03d (get_doy dt)
                  @ ''/'' @ last_two (str_nat (dt_year dt)) @ ''o/'' @ lower (station_id a)
                  @ format_03d (get_doy dt) @ ''0.'' @ last_two (str_nat (dt_year dt)) @ ''o.crx.gz'',
      obs_filename_gz = lower (station_id a) @ format_03d (get_doy dt) @ ''0.''
                          @ last_two (str_nat (dt_year dt)) @ ''o.crx.gz'',
      obs_final_filename = lower (station_id a) @ format_03d (get_doy dt) @ ''0.''
                             @ last_two (str_nat (dt_year dt)) @ ''o.crx''\<rparr>"
  by (simp add: run_obs_names_def build_obs_names_def obs_filename_stem_def Let_def)

text \<open>
  C10.  The station identifier is used as it is given, whatever its length: it is
  lowercased character by character (same length, no upper-case letter left) and that
  string is the beginning of the file name stem and a part of the URL, for version 3 and
  for version 2 alike.  No check stands between the arguments and the request: whenever
  the parser returns a date and the output directory is there or can be made, the first
  request of the run is for the URL built from the identifier.
\<close>

theorem station_id_not_validated:
  assumes "fst (get_obs_date_from_rinex E w (rinex_rover_file a)) = Some dt"
  shows "(\<not> makedirs_raises w (output_dir a) \<longrightarrow>
            http_gets (events (main E w a)) \<noteq> []
            \<and> hd (http_gets (events (main E w a))) = obs_url (run_obs_names a dt))
     \<and> length (lower (station_id a)) = length (station_id a)
     \<and> set (lower (station_id a)) \<inter> set ascii_uppercase = {}
     \<and> (rinex_obs_version a = ''3'' \<longrightarrow>
          obs_filename_stem ''3'' (lower (station_id a)) (format_03d (get_doy dt))
              (last_two (str_nat (dt_year dt)))
            = lower (station_id a) @ format_03d (get_doy dt) @ ''0.''
                @ last_two (str_nat (dt_year dt)) @ ''o''
          \<and> obs_url (run_obs_names a dt) =
              CDDIS_BASE_URL @ ''/'' @ str_nat (dt_year dt) @ ''/'' @ format_03d (get_doy dt)
                @ ''/'' @ last_two (str_nat (dt_year dt)) @ ''o/'' @ lower (station_id a)
                @ format_03d (get_doy dt) @ ''0.'' @ last_two (str_nat (dt_year dt)) @ ''o.crx.gz'')
     \<and> (rinex_obs_version a = ''2'' \<longrightarrow>
          obs_filename_stem ''2'' (lower (station_id a)) (format_03d (get_doy dt))
              (last_two (str_nat (dt_year dt)))
            = lower (station_id a) @ format_03d (get_doy dt) @ ''0.''
                @ last_two (str_nat (dt_year dt)) @ ''d''
          \<and> obs_url (run_obs_names a dt) =
              CDDIS_BASE_URL @ ''/'' @ str_nat (dt_year dt) @ ''/'' @ format_03d (get_doy dt)
                @ ''/'' @ last_two (str_nat (dt_year dt)) @ ''d/'' @ lower (station_id a)
                @ format_03d (get_doy dt) @ ''0.'' @ last_two (str_nat (dt_year dt)) @ ''d.Z'')"
proof -
  have "http_gets (events (main E w a)) \<noteq> []
        \<and> hd (http_gets (events (main E w a))) = obs_url (run_obs_names a dt)"
    if "\<not> makedirs_raises w (output_dir a)"
    using that by (simp add: main_gets [OF assms])
  moreover have "set (lower (station_id a)) \<inter> set ascii_uppercase = {}"
    using lower_char_not_upper by (auto simp: lower_def)
  ultimately show ?thesis
    by (simp add: run_obs_names_v3 run_obs_names_v2 obs_filename_stem_def) (simp add: lower_def)
qed

lemma lower_ALGONQUIN: "lower ''ALGONQUIN'' = ''algonquin''"
  by (simp add: lower_def lower_char_def ascii_uppercase_def ascii_lowercase_def)

theorem station_id_not_validated_witness:
  "fst (get_obs_date_from_rinex env_404 sample_world
          (rinex_rover_file (sample_args ''ALGONQUIN'' ''3''))) = Some sample_datetime
   \<and> rinex_obs_version (sample_args ''ALGONQUIN'' ''3'') = ''3''
   \<and> \<not> makedirs_raises sample_world (output_dir (sample_args ''ALGONQUIN'' ''3''))
   \<and> hd (http_gets (events (main env_404 sample_world (sample_args ''ALGONQUIN'' ''3'')))) =
       ''https://cddis.nasa.gov/archive/gnss/data/daily/2023/015/23o/algonquin0150.23o.crx.gz''"
proof -
  have p: "fst (get_obs_date_from_rinex env_404 sample_world
                  (rinex_rover_file (sample_args ''ALGONQUIN'' ''3''))) = Some sample_datetime"
    by (rule parse_sample_args [OF env_404_readable])
  have v: "rinex_obs_version (sample_args ''ALGONQUIN'' ''3'') = ''3''"
    by (simp add: sample_args_def)
  have s: "station_id (sample_args ''ALGONQUIN'' ''3'') = ''ALGONQUIN''"
    by (simp add: sample_args_def)
  have m: "\<not> makedirs_raises sample_world (output_dir (sample_args ''ALGONQUIN'' ''3''))"
    by (rule sample_out_exists)
  have "hd (http_gets (events (main env_404 sample_world (sample_args ''ALGONQUIN'' ''3'')))) =
          CDDIS_BASE_URL @ ''/'' @ str_nat (dt_year sample_datetime) @ ''/''
            @ format_03d (get_doy sample_datetime) @ ''/''
            @ last_two (str_nat (dt_year sample_datetime)) @ ''o/''
            @ lower (station_id (sample_args ''ALGONQUIN'' ''3''))
            @ format_03d (get_doy sample_datetime) @ ''0.''
            @ last_two (str_nat (dt_year sample_datetime)) @ ''o.crx.gz''"
    using station_id_not_validated [OF p] v m by simp
  then show ?thesis
    using p v m
    by (simp add: s lower_ALGONQUIN doy_sample year_sample str_nat_2023 last_two_def
        CDDIS_BASE_URL_def)
qed

subsection \<open>A failing parser ends the run\<close>

lemma scan_lines_no_marker:
  "\<forall>l \<in> set ls. \<not> contains ''TIME OF FIRST OBS'' l \<Longrightarrow>
   scan_lines ls = (None, [Print Marker_not_found])"
  by (induction ls) simp_all

lemma scan_lines_unmatchable:
  "\<forall>x \<in> set pre. \<not> contains ''TIME OF FIRST OBS'' x \<Longrightarrow>
   contains ''TIME OF FIRST OBS'' l \<Longrightarrow> re_search l = None \<Longrightarrow>
   scan_lines (pre @ l # post) = (None, [Print (Could_not_parse_date (strip l))])"
  by (induction pre) simp_all

lemma scan_lines_quiet:
  "http_gets (snd (scan_lines ls)) = [] \<and> decompress_calls (snd (scan_lines ls)) = []
   \<and> Print Finished \<notin> set (snd (scan_lines ls))"
  by (induction ls) (auto split: option.splits)

lemma get_obs_quiet:
  "http_gets (snd (get_obs_date_from_rinex E w p)) = []
   \<and> decompress_calls (snd (get_obs_date_from_rinex E w p)) = []
   \<and> Print Finished \<notin> set (snd (get_obs_date_from_rinex E w p))"
  using scan_lines_quiet
  by (auto simp: get_obs_date_from_rinex_def split: sum.splits os_error.splits)

lemma get_obs_files_none:
  assumes "files w' = files w"
  shows "fst (get_obs_date_from_rinex E w' p) = None \<longleftrightarrow> fst (get_obs_date_from_rinex E w p) = None"
  using get_obs_files [OF assms, of E p] by (metis option.exhaust)

lemma main_not_parsed:
  assumes "fst (get_obs_date_from_rinex E w (rinex_rover_file a)) = None"
    and "\<not> makedirs_raises w (output_dir a)"
  shows "main E w a =
     (Returns (), after_makedirs w (output_dir a),
      events (ensure_output_dir w (output_dir a))
        @ snd (get_obs_date_from_rinex E (after_makedirs w (output_dir a)) (rinex_rover_file a)))"
proof (cases rule: ensure_cases [of w "output_dir a"])
  case (raises x)
  then show ?thesis
    using assms(2) by simp
next
  case (returns t0)
  have "fst (get_obs_date_from_rinex E (after_makedirs w (output_dir a)) (rinex_rover_file a)) = None"
    using assms(1) by (simp add: get_obs_files_none [of "after_makedirs w (output_dir a)" w])
  then obtain t1 where
    "get_obs_date_from_rinex E (after_makedirs w (output_dir a)) (rinex_rover_file a) = (None, t1)"
    by (cases "get_obs_date_from_rinex E (after_makedirs w (output_dir a)) (rinex_rover_file a)") auto
  then show ?thesis
    by (simp add: main_def returns(2))
qed

text \<open>
  C6.  The parser returns no date when the rover file is missing, when it cannot be read,
  when no line holds the marker, and when the first line that holds the marker does not
  match the pattern.  Whenever the parser returns no date, for whatever reason, \<open>main\<close> ends
  at once: no request is sent, the decompressor is not called, the summary is not printed,
  and no file is changed.  Its events are the creation of the output directory (if it was
  not there) and the diagnostic of the parser; when the output directory cannot be created
  the run ends even before the parser, with an exception.
\<close>

theorem parser_failure_aborts:
  "(files w p = None \<longrightarrow> fst (get_obs_date_from_rinex E w p) = None)
   \<and> (files w p = None \<and> \<not> is_dir w p \<and> \<not> blocked_by_file w p \<longrightarrow>
        get_obs_date_from_rinex E w p = (None, [Print (Rover_not_found p)]))
   \<and> (p \<noteq> [] \<and> files w p \<noteq> None \<and> p \<in> unreadable E \<longrightarrow>
        get_obs_date_from_rinex E w p = (None, [Print Rover_read_error]))
   \<and> (p \<noteq> [] \<and> files w p = None \<and> is_dir w p \<longrightarrow>
        get_obs_date_from_rinex E w p = (None, [Print Rover_read_error]))
   \<and> (p \<noteq> [] \<and> files w p = Some content \<and> p \<notin> unreadable E
        \<and> (\<forall>l \<in> set (file_lines content). \<not> contains ''TIME OF FIRST OBS'' l) \<longrightarrow>
        get_obs_date_from_rinex E w p = (None, [Print Marker_not_found]))
   \<and> (p \<noteq> [] \<and> files w p = Some content \<and> p \<notin> unreadable E \<and> file_lines content = pre @ l # post
        \<and> (\<forall>x \<in> set pre. \<not> contains ''TIME OF FIRST OBS'' x)
        \<and> contains ''TIME OF FIRST OBS'' l \<and> re_search l = None \<longrightarrow>
        get_obs_date_from_rinex E w p = (None, [Print (Could_not_parse_date (strip l))]))
   \<and> (fst (get_obs_date_from_rinex E w (rinex_rover_file a)) = None \<longrightarrow>
        http_gets (events (main E w a)) = []
        \<and> decompress_calls (events (main E w a)) = []
        \<and> Print Finished \<notin> set (events (main E w a))
        \<and> files (world_after (main E w a)) = files w
        \<and> sent (world_after (main E w a)) = sent w
        \<and> (\<not> makedirs_raises w (output_dir a) \<longrightarrow>
             main E w a =
               (Returns (), after_makedirs w (output_dir a),
                events (ensure_output_dir w (output_dir a))
                  @ snd (get_obs_date_from_rinex E (after_makedirs w (output_dir a))
                           (rinex_rover_file a))))
        \<and> (makedirs_raises w (output_dir a) \<longrightarrow>
             (\<exists>x. main E w a = (Raises x, w, [Make_dirs (output_dir a)]))))"
proof (intro conjI impI)
  show "fst (get_obs_date_from_rinex E w p) = None" if "files w p = None"
    using that by (simp add: get_obs_date_from_rinex_def open_read_def split: os_error.splits)
  show "get_obs_date_from_rinex E w p = (None, [Print (Rover_not_found p)])"
    if "files w p = None \<and> \<not> is_dir w p \<and> \<not> blocked_by_file w p"
    using that by (simp add: get_obs_date_from_rinex_def open_read_def)
  show "get_obs_date_from_rinex E w p = (None, [Print Rover_read_error])"
    if "p \<noteq> [] \<and> files w p \<noteq> None \<and> p \<in> unreadable E"
    using that by (auto simp: get_obs_date_from_rinex_def open_read_def)
  show "get_obs_date_from_rinex E w p = (None, [Print Rover_read_error])"
    if "p \<noteq> [] \<and> files w p = None \<and> is_dir w p"
    using that by (auto simp: get_obs_date_from_rinex_def open_read_def)
  show "get_obs_date_from_rinex E w p = (None, [Print Marker_not_found])"
    if "p \<noteq> [] \<and> files w p = Some content \<and> p \<notin> unreadable E
        \<and> (\<forall>l \<in> set (file_lines content). \<not> contains ''TIME OF FIRST OBS'' l)"
    using that by (simp add: get_obs_date_from_rinex_def open_read_def scan_lines_no_marker)
  show "get_obs_date_from_rinex E w p = (None, [Print (Could_not_parse_date (strip l))])"
    if "p \<noteq> [] \<and> files w p = Some content \<and> p \<notin> unreadable E \<and> file_lines content = pre @ l # post
        \<and> (\<forall>x \<in> set pre. \<not> contains ''TIME OF FIRST OBS'' x)
        \<and> contains ''TIME OF FIRST OBS'' l \<and> re_search l = None"
    using that by (simp add: get_obs_date_from_rinex_def open_read_def scan_lines_unmatchable)
next
  assume n: "fst (get_obs_date_from_rinex E w (rinex_rover_file a)) = None"
  note m = main_not_parsed [OF n]
  show "main E w a =
          (Returns (), after_makedirs w (output_dir a),
           events (ensure_output_dir w (output_dir a))
             @ snd (get_obs_date_from_rinex E (after_makedirs w (output_dir a)) (rinex_rover_file a)))"
    if "\<not> makedirs_raises w (output_dir a)"
    by (rule m [OF that])
  show "\<exists>x. main E w a = (Raises x, w, [Make_dirs (output_dir a)])"
    if "makedirs_raises w (output_dir a)"
    by (rule main_makedirs_raises [OF that])
  show "http_gets (events (main E w a)) = []"
    using main_makedirs_raises [of w a E] m
    by (cases "makedirs_raises w (output_dir a)") (auto simp: ensure_gets get_obs_quiet)
  show "decompress_calls (events (main E w a)) = []"
    using main_makedirs_raises [of w a E] m
    by (cases "makedirs_raises w (output_dir a)") (auto simp: ensure_calls get_obs_quiet)
  show "Print Finished \<notin> set (events (main E w a))"
    using main_makedirs_raises [of w a E] m
    by (cases "makedirs_raises w (output_dir a)")
       (auto simp: get_obs_quiet ensure_output_dir_def split: option.splits)
  show "files (world_after (main E w a)) = files w"
    using main_makedirs_raises [of w a E] m
    by (cases "makedirs_raises w (output_dir a)") auto
  show "sent (world_after (main E w a)) = sent w"
    using main_makedirs_raises [of w a E] m
    by (cases "makedirs_raises w (output_dir a)") auto
qed

lemma parents_missing: "parents ''missing.obs'' = [''missing.obs'']"
  by (simp add: parents_def)

theorem parser_failure_aborts_witness:
  "files sample_world ''missing.obs'' = None
   \<and> \<not> is_dir sample_world ''missing.obs''
   \<and> \<not> blocked_by_file sample_world ''missing.obs''
   \<and> \<not> makedirs_raises sample_world ''out''
   \<and> fst (get_obs_date_from_rinex env_404 sample_world
            (rinex_rover_file (sample_args ''ALGO'' ''3''\<lparr>rinex_rover_file := ''missing.obs''\<rparr>)))
       = None
   \<and> http_gets (events (main env_404 sample_world
                        (sample_args ''ALGO'' ''3''\<lparr>rinex_rover_file := ''missing.obs''\<rparr>))) = []
   \<and> main env_404 sample_world (sample_args ''ALGO'' ''3''\<lparr>rinex_rover_file := ''missing.obs''\<rparr>)
       = (Returns (), sample_world, [Print (Rover_not_found ''missing.obs'')])"
proof -
  have f: "files sample_world ''missing.obs'' = None"
    by (simp add: sample_world_def)
  have d: "\<not> is_dir sample_world ''missing.obs''"
    by (simp add: is_dir_def sample_world_def rstrip_slash_def)
  have b: "\<not> blocked_by_file sample_world ''missing.obs''"
    by (simp add: blocked_by_file_def parents_missing sample_world_def rstrip_slash_def)
  have r: "rinex_rover_file (sample_args ''ALGO'' ''3''\<lparr>rinex_rover_file := ''missing.obs''\<rparr>)
             = ''missing.obs''"
    "output_dir (sample_args ''ALGO'' ''3''\<lparr>rinex_rover_file := ''missing.obs''\<rparr>) = ''out''"
    by (simp_all add: sample_args_def)
  have k: "\<not> makedirs_raises sample_world ''out''"
    using sample_out_exists [of "''ALGO''" "''3''"] by (simp add: sample_args_def)
  note t = parser_failure_aborts [of sample_world "''missing.obs''" env_404 "[]" "[]" "[]" "[]"
      "sample_args ''ALGO'' ''3''\<lparr>rinex_rover_file := ''missing.obs''\<rparr>"]
  from t f d b have g: "get_obs_date_from_rinex env_404 sample_world ''missing.obs''
                      = (None, [Print (Rover_not_found ''missing.obs'')])"
    by blast
  then have n: "fst (get_obs_date_from_rinex env_404 sample_world
            (rinex_rover_file (sample_args ''ALGO'' ''3''\<lparr>rinex_rover_file := ''missing.obs''\<rparr>)))
       = None"
    by (simp add: r)
  from t n k have "main env_404 sample_world
                   (sample_args ''ALGO'' ''3''\<lparr>rinex_rover_file := ''missing.obs''\<rparr>) =
          (Returns (), after_makedirs sample_world ''out'',
           events (ensure_output_dir sample_world ''out'')
             @ snd (get_obs_date_from_rinex env_404 (after_makedirs sample_world ''out'')
                      ''missing.obs''))"
    and "http_gets (events (main env_404 sample_world
                        (sample_args ''ALGO'' ''3''\<lparr>rinex_rover_file := ''missing.obs''\<rparr>))) = []"
    unfolding r by blast+
  then show ?thesis
    using f d b k n by (simp add: g ensure_sample after_makedirs_sample)
qed

subsection \<open>The decompressor\<close>

lemma decompress_result:
  "fst (decompress_gz_file E w gz out) \<longleftrightarrow>
     (\<exists>z. open_read E w gz = Inr z \<and> open_wb w out = None
          \<and> gunzip E (if gz = out then [] else z) \<noteq> None)"
  by (auto simp: decompress_gz_file_def Let_def split: sum.splits option.splits)

lemma open_read_Inr: "open_read E w gz = Inr z \<Longrightarrow> files w gz = Some z"
  by (auto simp: open_read_def split: if_splits option.splits)

lemma open_read_missing: "files w gz = None \<Longrightarrow> \<exists>x. open_read E w gz = Inl x"
  by (auto simp: open_read_def)

lemma decompress_no_input:
  "open_read E w gz = Inl x \<Longrightarrow>
   decompress_gz_file E w gz out =
     (False, w, [Print (Decompressing gz), Print (decompress_error_msg x gz)])"
  by (simp add: decompress_gz_file_def)

lemma decompress_no_output:
  "open_wb w out = Some x \<Longrightarrow>
   \<not> fst (decompress_gz_file E w gz out) \<and> world_after (decompress_gz_file E w gz out) = w"
  by (auto simp: decompress_gz_file_def Let_def split: sum.splits)

lemma decompress_failure_keeps:
  "\<not> fst (decompress_gz_file E w gz out) \<Longrightarrow>
   (files (world_after (decompress_gz_file E w gz out)) gz = None \<longleftrightarrow> files w gz = None)
   \<and> (gz \<noteq> out \<longrightarrow> files (world_after (decompress_gz_file E w gz out)) gz = files w gz)"
  by (auto simp: decompress_gz_file_def Let_def gunzip_empty split: sum.splits option.splits if_splits)

lemma decompress_success:
  "open_read E w gz = Inr z \<Longrightarrow> open_wb w out = None \<Longrightarrow> gz \<noteq> out \<Longrightarrow>
   gunzip E z = Some content \<Longrightarrow>
   fst (decompress_gz_file E w gz out)
   \<and> files (world_after (decompress_gz_file E w gz out)) out = Some content
   \<and> files (world_after (decompress_gz_file E w gz out)) gz = None"
  by (simp add: decompress_gz_file_def)

lemma decompress_deleted:
  "files w gz \<noteq> None \<and> files (world_after (decompress_gz_file E w gz out)) gz = None
     \<longleftrightarrow> fst (decompress_gz_file E w gz out)"
  by (auto simp: decompress_gz_file_def Let_def gunzip_empty dest: open_read_Inr
      split: sum.splits option.splits if_splits)

text \<open>
  C5.  \<open>decompress_gz_file\<close> reports success exactly when the compressed file can be opened
  and read, the output can be opened for writing, and the reader accepts the compressed
  content to its end.  The compressed file is deleted by the call exactly when the call
  reports success.  When the compressed file is missing or cannot be opened, and when the
  output cannot be opened, nothing changes at all; on any failure the compressed file is
  still there if it was there before, with its content when the output is a different path.
  On success with an output path different from the input, the output holds exactly the
  content of the compressed file, and the compressed file is gone; in particular, for a
  compressed file that holds a content stored in gzip format, the output is that content,
  byte for byte.  No other file is touched.  The function catches every exception, so it
  always returns to its caller.
\<close>

theorem decompress_deletes_iff_success:
  "(fst (decompress_gz_file E w gz out) \<longleftrightarrow>
      (\<exists>z. open_read E w gz = Inr z \<and> open_wb w out = None
           \<and> gunzip E (if gz = out then [] else z) \<noteq> None))
   \<and> (files w gz \<noteq> None \<and> files (world_after (decompress_gz_file E w gz out)) gz = None
        \<longleftrightarrow> fst (decompress_gz_file E w gz out))
   \<and> (files w gz = None \<longrightarrow>
        \<not> fst (decompress_gz_file E w gz out) \<and> world_after (decompress_gz_file E w gz out) = w)
   \<and> (open_read E w gz = Inl x \<longrightarrow>
        decompress_gz_file E w gz out =
          (False, w, [Print (Decompressing gz), Print (decompress_error_msg x gz)]))
   \<and> (open_wb w out = Some x' \<longrightarrow>
        \<not> fst (decompress_gz_file E w gz out) \<and> world_after (decompress_gz_file E w gz out) = w)
   \<and> (\<not> fst (decompress_gz_file E w gz out) \<longrightarrow>
        (files (world_after (decompress_gz_file E w gz out)) gz = None \<longleftrightarrow> files w gz = None)
        \<and> (gz \<noteq> out \<longrightarrow> files (world_after (decompress_gz_file E w gz out)) gz = files w gz))
   \<and> (open_read E w gz = Inr z \<and> open_wb w out = None \<and> gz \<noteq> out \<and> gunzip E z = Some content \<longrightarrow>
        fst (decompress_gz_file E w gz out)
        \<and> files (world_after (decompress_gz_file E w gz out)) out = Some content
        \<and> files (world_after (decompress_gz_file E w gz out)) gz = None)
   \<and> (length mtime = 4 \<and> chunks \<noteq> [] \<and> (\<forall>c\<in>set chunks. length c \<le> 65535)
        \<and> open_read E w gz = Inr (gzip_stored mtime xfl os chunks)
        \<and> open_wb w out = None \<and> gz \<noteq> out \<longrightarrow>
        fst (decompress_gz_file E w gz out)
        \<and> files (world_after (decompress_gz_file E w gz out)) out = Some (concat chunks)
        \<and> files (world_after (decompress_gz_file E w gz out)) gz = None)
   \<and> (\<forall>q. q \<noteq> gz \<and> q \<noteq> out \<longrightarrow> files (world_after (decompress_gz_file E w gz out)) q = files w q)"
proof (intro conjI impI allI)
  show "fst (decompress_gz_file E w gz out) \<longleftrightarrow>
      (\<exists>z. open_read E w gz = Inr z \<and> open_wb w out = None
           \<and> gunzip E (if gz = out then [] else z) \<noteq> None)"
    by (rule decompress_result)
  show "files w gz \<noteq> None \<and> files (world_after (decompress_gz_file E w gz out)) gz = None
        \<longleftrightarrow> fst (decompress_gz_file E w gz out)"
    by (rule decompress_deleted)
  show "\<not> fst (decompress_gz_file E w gz out)" if "files w gz = None"
    using open_read_missing [OF that, of E] decompress_no_input [of E w gz _ out] by auto
  show "world_after (decompress_gz_file E w gz out) = w" if "files w gz = None"
    using open_read_missing [OF that, of E] decompress_no_input [of E w gz _ out] by auto
  show "decompress_gz_file E w gz out =
          (False, w, [Print (Decompressing gz), Print (decompress_error_msg x gz)])"
    if "open_read E w gz = Inl x"
    by (rule decompress_no_input [OF that])
  show "\<not> fst (decompress_gz_file E w gz out)" if "open_wb w out = Some x'"
    using decompress_no_output [OF that] by simp
  show "world_after (decompress_gz_file E w gz out) = w" if "open_wb w out = Some x'"
    using decompress_no_output [OF that] by simp
  show "files (world_after (decompress_gz_file E w gz out)) gz = None \<longleftrightarrow> files w gz = None"
    if "\<not> fst (decompress_gz_file E w gz out)"
    using decompress_failure_keeps [OF that] by simp
  show "files (world_after (decompress_gz_file E w gz out)) gz = files w gz"
    if "\<not> fst (decompress_gz_file E w gz out)" "gz \<noteq> out"
    using decompress_failure_keeps [OF that(1)] that(2) by simp
next
  assume a: "open_read E w gz = Inr z \<and> open_wb w out = None \<and> gz \<noteq> out \<and> gunzip E z = Some content"
  then have r: "open_read E w gz = Inr z" and o: "open_wb w out = None" and ne: "gz \<noteq> out"
    and g: "gunzip E z = Some content"
    by simp_all
  note s = decompress_success [OF r o ne g]
  show "fst (decompress_gz_file E w gz out)"
    "files (world_after (decompress_gz_file E w gz out)) out = Some content"
    "files (world_after (decompress_gz_file E w gz out)) gz = None"
    using s by simp_all
next
  assume a: "length mtime = 4 \<and> chunks \<noteq> [] \<and> (\<forall>c\<in>set chunks. length c \<le> 65535)
        \<and> open_read E w gz = Inr (gzip_stored mtime xfl os chunks)
        \<and> open_wb w out = None \<and> gz \<noteq> out"
  then have g: "gunzip E (gzip_stored mtime xfl os chunks) = Some (concat chunks)"
    by (simp add: gunzip_gzip_stored)
  from a have r: "open_read E w gz = Inr (gzip_stored mtime xfl os chunks)"
    and o: "open_wb w out = None" and ne: "gz \<noteq> out"
    by simp_all
  note s = decompress_success [OF r o ne g]
  show "fst (decompress_gz_file E w gz out)"
    "files (world_after (decompress_gz_file E w gz out)) out = Some (concat chunks)"
    "files (world_after (decompress_gz_file E w gz out)) gz = None"
    using s by simp_all
next
  fix q
  assume "q \<noteq> gz \<and> q \<noteq> out"
  then show "files (world_after (decompress_gz_file E w gz out)) q = files w q"
    by (simp add: decompress_frame)
qed

text \<open>
  A file system that holds the compressed navigation file \<open>out/n.rnx.gz\<close>, with the bytes
  that \<open>gzip.compress\<close> writes for the content \<open>ephemeris\<close>, in the directory \<open>out\<close>.
\<close>

lemma ephemeris_gz_stored:
  "ephemeris_gz =
     gzip_stored [CHR 0x00, CHR 0x00, CHR 0x00, CHR 0x00] (CHR 0x04) (CHR 0x03) [''ephemeris'']"
  by (simp only: gzip_stored_ephemeris ephemeris_gz_def)

lemma open_read_ephemeris:
  "open_read env_404 (sample_world\<lparr>files := [''out/n.rnx.gz'' \<mapsto> ephemeris_gz]\<rparr>) ''out/n.rnx.gz''
     = Inr ephemeris_gz"
  by (simp add: open_read_def env_404_def)

lemma open_wb_out_n:
  "open_wb (sample_world\<lparr>files := [''out/n.rnx.gz'' \<mapsto> ephemeris_gz]\<rparr>) ''out/n.rnx'' = None"
  by (simp add: open_wb_def dirname_def rstrip_slash_def is_dir_def sample_world_def)

lemma parents_nodir: "parents ''nodir'' = [''nodir'']"
  by (simp add: parents_def)

lemma open_wb_nodir_n:
  "open_wb (sample_world\<lparr>files := [''out/n.rnx.gz'' \<mapsto> ephemeris_gz]\<rparr>) ''nodir/n.rnx''
     = Some FileNotFoundError"
  by (simp add: open_wb_def dirname_def rstrip_slash_def is_dir_def sample_world_def
      blocked_by_file_def parents_nodir)

theorem decompress_deletes_iff_success_witness:
  "open_read env_404 (sample_world\<lparr>files := [''out/n.rnx.gz'' \<mapsto> ephemeris_gz]\<rparr>) ''out/n.rnx.gz''
     = Inr (gzip_stored [CHR 0x00, CHR 0x00, CHR 0x00, CHR 0x00] (CHR 0x04) (CHR 0x03) [''ephemeris''])
   \<and> open_wb (sample_world\<lparr>files := [''out/n.rnx.gz'' \<mapsto> ephemeris_gz]\<rparr>) ''out/n.rnx'' = None
   \<and> fst (decompress_gz_file env_404
             (sample_world\<lparr>files := [''out/n.rnx.gz'' \<mapsto> ephemeris_gz]\<rparr>)
             ''out/n.rnx.gz'' ''out/n.rnx'')
   \<and> files (world_after (decompress_gz_file env_404
             (sample_world\<lparr>files := [''out/n.rnx.gz'' \<mapsto> ephemeris_gz]\<rparr>)
             ''out/n.rnx.gz'' ''out/n.rnx'')) ''out/n.rnx'' = Some ''ephemeris''
   \<and> files (world_after (decompress_gz_file env_404
             (sample_world\<lparr>files := [''out/n.rnx.gz'' \<mapsto> ephemeris_gz]\<rparr>)
             ''out/n.rnx.gz'' ''out/n.rnx'')) ''out/n.rnx.gz'' = None
   \<and> open_wb (sample_world\<lparr>files := [''out/n.rnx.gz'' \<mapsto> ephemeris_gz]\<rparr>) ''nodir/n.rnx''
       = Some FileNotFoundError
   \<and> \<not> fst (decompress_gz_file env_404
             (sample_world\<lparr>files := [''out/n.rnx.gz'' \<mapsto> ephemeris_gz]\<rparr>)
             ''out/n.rnx.gz'' ''nodir/n.rnx'')
   \<and> world_after (decompress_gz_file env_404
             (sample_world\<lparr>files := [''out/n.rnx.gz'' \<mapsto> ephemeris_gz]\<rparr>)
             ''out/n.rnx.gz'' ''nodir/n.rnx'')
       = sample_world\<lparr>files := [''out/n.rnx.gz'' \<mapsto> ephemeris_gz]\<rparr>"
proof -
  let ?w = "sample_world\<lparr>files := [''out/n.rnx.gz'' \<mapsto> ephemeris_gz]\<rparr>"
  have r: "open_read env_404 ?w ''out/n.rnx.gz''
     = Inr (gzip_stored [CHR 0x00, CHR 0x00, CHR 0x00, CHR 0x00] (CHR 0x04) (CHR 0x03) [''ephemeris''])"
    using open_read_ephemeris ephemeris_gz_stored by simp
  have l: "length [CHR 0x00, CHR 0x00, CHR 0x00, CHR 0x00] = 4" "[''ephemeris''] \<noteq> []"
    "\<forall>c\<in>set [''ephemeris'']. length c \<le> 65535" "''out/n.rnx.gz'' \<noteq> ''out/n.rnx''"
    "concat [''ephemeris''] = ''ephemeris''"
    by simp_all
  note ok = decompress_deletes_iff_success [of env_404 ?w "''out/n.rnx.gz''" "''out/n.rnx''"
      FileNotFoundError FileNotFoundError ephemeris_gz "''ephemeris''"
      "[CHR 0x00, CHR 0x00, CHR 0x00, CHR 0x00]" "[''ephemeris'']" "CHR 0x04" "CHR 0x03"]
  note no = decompress_deletes_iff_success [of env_404 ?w "''out/n.rnx.gz''" "''nodir/n.rnx''"
      FileNotFoundError FileNotFoundError ephemeris_gz "''ephemeris''"
      "[CHR 0x00, CHR 0x00, CHR 0x00, CHR 0x00]" "[''ephemeris'']" "CHR 0x04" "CHR 0x03"]
  have a: "fst (decompress_gz_file env_404 ?w ''out/n.rnx.gz'' ''out/n.rnx'')
        \<and> files (world_after (decompress_gz_file env_404 ?w ''out/n.rnx.gz'' ''out/n.rnx''))
             ''out/n.rnx'' = Some (concat [''ephemeris''])
        \<and> files (world_after (decompress_gz_file env_404 ?w ''out/n.rnx.gz'' ''out/n.rnx''))
             ''out/n.rnx.gz'' = None"
    using ok r open_wb_out_n l(1-4) by blast
  have b: "\<not> fst (decompress_gz_file env_404 ?w ''out/n.rnx.gz'' ''nodir/n.rnx'')
        \<and> world_after (decompress_gz_file env_404 ?w ''out/n.rnx.gz'' ''nodir/n.rnx'') = ?w"
    using no open_wb_nodir_n by blast
  show ?thesis
    using a b r open_wb_out_n open_wb_nodir_n unfolding l(5) by blast
qed

subsection \<open>The fetcher and the destination file\<close>





subsection \<open>Day of year and 2-digit year\<close>

lemma str_nat_nonempty: "str_nat n \<noteq> []"
  by (subst str_nat.simps) simp

lemma last_str_nat: "last (str_nat n) = digit_char (n mod 10)"
  by (subst str_nat.simps) simp

lemma str_nat_1: "n < 10 \<Longrightarrow> str_nat n = [digit_char n]"
  by (subst str_nat.simps) simp

lemma str_nat_2: "10 \<le> n \<Longrightarrow> n < 100 \<Longrightarrow> str_nat n = [digit_char (n div 10), digit_char (n mod 10)]"
  by (subst str_nat.simps) (simp add: str_nat_1)

lemma str_nat_3:
  "100 \<le> n \<Longrightarrow> n < 1000 \<Longrightarrow>
   str_nat n = [digit_char (n div 100), digit_char (n div 10 mod 10), digit_char (n mod 10)]"
  by (subst str_nat.simps) (simp add: str_nat_2 div_mult2_eq [symmetric])

lemma str_nat_4:
  "1000 \<le> n \<Longrightarrow> n < 10000 \<Longrightarrow>
   str_nat n = [digit_char (n div 1000), digit_char (n div 100 mod 10),
                digit_char (n div 10 mod 10), digit_char (n mod 10)]"
  by (subst str_nat.simps) (simp add: str_nat_3 div_mult2_eq [symmetric])

lemma format_03d_digits:
  assumes "n < 1000"
  shows "format_03d n = [digit_char (n div 100), digit_char (n div 10 mod 10), digit_char (n mod 10)]"
proof -
  consider "n < 10" | "10 \<le> n" "n < 100" | "100 \<le> n"
    by linarith
  then show ?thesis
  proof cases
    case 1
    then show ?thesis
      by (simp add: format_03d_def str_nat_1 digit_char_def numeral_3_eq_3)
  next
    case 2
    then have "n div 100 = 0"
      by simp
    with 2 show ?thesis
      by (simp add: format_03d_def str_nat_2 digit_char_def)
  next
    case 3
    with assms show ?thesis
      by (simp add: format_03d_def str_nat_3)
  qed
qed

lemma last_two_str_nat:
  assumes "10 \<le> n"
  shows "last_two (str_nat n) = [digit_char (n div 10 mod 10), digit_char (n mod 10)]"
proof -
  have s: "str_nat n = str_nat (n div 10) @ [digit_char (n mod 10)]"
    using assms by (subst str_nat.simps) simp
  obtain xs where x: "str_nat (n div 10) = xs @ [digit_char (n div 10 mod 10)]"
    using str_nat_nonempty [of "n div 10"] last_str_nat [of "n div 10"]
    by (metis append_butlast_last_id)
  show ?thesis
    by (simp add: s x last_two_def)
qed


lemma month_cases:
  assumes "1 \<le> (m::nat)" "m \<le> 12"
  obtains "m = 1" | "m = 2" | "m = 3" | "m = 4" | "m = 5" | "m = 6"
    | "m = 7" | "m = 8" | "m = 9" | "m = 10" | "m = 11" | "m = 12"
proof -
  have "m = 1 \<or> m = 2 \<or> m = 3 \<or> m = 4 \<or> m = 5 \<or> m = 6
      \<or> m = 7 \<or> m = 8 \<or> m = 9 \<or> m = 10 \<or> m = 11 \<or> m = 12"
    using assms by arith
  then show thesis
    using that by blast
qed

lemma leap_rule: "(y mod 400 = 0 \<or> (y mod 4 = 0 \<and> y mod 100 \<noteq> 0)) = is_leap y"
  unfolding is_leap_def by presburger

lemma month_lengths_leap:
  "month_lengths y = [31, if is_leap y then 29 else 28, 31, 30, 31, 30, 31, 31, 30, 31, 30, 31]"
  unfolding month_lengths_def leap_rule by (rule refl)

lemma days_before_month_sum:
  assumes "1 \<le> m" "m \<le> 12"
  shows "days_before_month y m = sum_list (take (m - 1) (month_lengths y))"
  using assms
  by (cases m rule: month_cases)
     (simp_all add: days_before_month_def DAYS_BEFORE_MONTH_def month_lengths_leap)

lemma days_through_month:
  assumes "1 \<le> m" "m \<le> 12"
  shows "days_before_month y m + days_in_month y m \<le> 366"
  using assms
  by (cases m rule: month_cases)
     (simp_all add: days_before_month_def days_in_month_def DAYS_BEFORE_MONTH_def
        DAYS_IN_MONTH_def)

lemma datetime_new_Some:
  assumes "datetime_new y mo d h mi s us tz = Some dt"
  shows "dt_year dt = y" "dt_month dt = mo" "dt_day dt = d"
    "1 \<le> y" "y \<le> 9999" "1 \<le> mo" "mo \<le> 12" "1 \<le> d" "d \<le> days_in_month y mo"
  using assms by (auto simp: datetime_new_def split: if_splits)

lemma digit_value_char:
  assumes "is_digit c"
  shows "digit_value c < 10" "digit_char (digit_value c) = c"
  using assms by (auto simp: is_digit_def digit_value_def digit_char_def)

lemma last_two_four_digits:
  assumes "length ys = 4" "list_all is_digit ys" "10 \<le> int_of_digits ys"
  shows "last_two (str_nat (int_of_digits ys)) = drop 2 ys"
proof -
  from assms(1) have "length ys = Suc (Suc (Suc (Suc 0)))"
    by simp
  then obtain a b c d where ys: "ys = [a, b, c, d]"
    by (auto simp: length_Suc_conv)
  have dig: "is_digit c" "is_digit d"
    using assms(2) by (simp_all add: ys)
  define k where "k = 10 * digit_value a + digit_value b"
  define j where "j = digit_value c + 10 * k"
  have v: "int_of_digits ys = digit_value d + 10 * j"
    by (simp add: ys int_of_digits_def k_def j_def)
  have m: "int_of_digits ys mod 10 = digit_value d"
    using digit_value_char(1) [OF dig(2)] by (simp add: v)
  have "int_of_digits ys div 10 = j"
    using digit_value_char(1) [OF dig(2)] by (simp add: v)
  then have q: "int_of_digits ys div 10 mod 10 = digit_value c"
    using digit_value_char(1) [OF dig(1)] by (simp add: j_def)
  have "last_two (str_nat (int_of_digits ys)) = [c, d]"
    by (simp only: last_two_str_nat [OF assms(3)] m q digit_value_char(2) [OF dig(1)]
        digit_value_char(2) [OF dig(2)])
  then show ?thesis
    by (simp add: ys)
qed

text \<open>
  For every date that the \<open>datetime\<close> constructor accepts, the day of year of the program is
  the ordinal day of the Gregorian calendar, from 1 to 366, and it is rendered as exactly
  three decimal digits, padded with zeros.  For every year from 10 on, the 2-digit year
  consists of the tens digit and the units digit of the year, and it equals the last two
  characters of every 4-digit decimal field that denotes the year (the year field of the
  header); from 1000 on the decimal rendering of the year itself has four characters.
\<close>

lemma doy_is_gregorian_ordinal:
  assumes "datetime_new y mo d h mi s us tz = Some dt"
  shows "get_doy dt = gregorian_ordinal y mo d
     \<and> 1 \<le> get_doy dt \<and> get_doy dt \<le> 366
     \<and> length (format_03d (get_doy dt)) = 3
     \<and> format_03d (get_doy dt) =
         [digit_char (get_doy dt div 100), digit_char (get_doy dt div 10 mod 10),
          digit_char (get_doy dt mod 10)]
     \<and> (10 \<le> y \<longrightarrow>
          last_two (str_nat (dt_year dt)) = [digit_char (y div 10 mod 10), digit_char (y mod 10)])
     \<and> (10 \<le> y \<and> length ys = 4 \<and> list_all is_digit ys \<and> int_of_digits ys = y \<longrightarrow>
          last_two (str_nat (dt_year dt)) = drop 2 ys)
     \<and> (1000 \<le> y \<longrightarrow> length (str_nat (dt_year dt)) = 4
          \<and> last_two (str_nat (dt_year dt)) = drop 2 (str_nat (dt_year dt)))"
proof -
  note f = datetime_new_Some [OF assms]
  have doy: "get_doy dt = days_before_month y mo + d"
    by (simp add: get_doy_def tm_yday_def f)
  have ord: "get_doy dt = gregorian_ordinal y mo d"
    by (simp add: doy gregorian_ordinal_def days_before_month_sum [OF f(6) f(7)])
  have hi: "get_doy dt \<le> 366"
    using days_through_month [OF f(6) f(7), of y] f(9) by (simp add: doy)
  have lo: "1 \<le> get_doy dt"
    using f(8) by (simp add: doy)
  have fmt: "format_03d (get_doy dt) =
         [digit_char (get_doy dt div 100), digit_char (get_doy dt div 10 mod 10),
          digit_char (get_doy dt mod 10)]"
    using hi by (intro format_03d_digits) simp
  have four: "length (str_nat y) = 4 \<and> last_two (str_nat y) = drop 2 (str_nat y)" if "1000 \<le> y"
    using that f(5) by (simp add: str_nat_4 last_two_def)
  show ?thesis
    using ord lo hi fmt four last_two_str_nat [of y] last_two_four_digits [of ys]
    by (auto simp: f(1))
qed

text \<open>The 29th of February 2024 is day 60, the 28th of February 2023 is day 59.\<close>

lemma doy_of_february:
  "datetime_new 2024 2 29 8 30 15 0 (Some Timezone_utc) =
     Some \<lparr>dt_year = 2024, dt_month = 2, dt_day = 29, dt_hour = 8, dt_minute = 30,
           dt_second = 15, dt_microsecond = 0, dt_tzinfo = Some Timezone_utc\<rparr>
   \<and> get_doy \<lparr>dt_year = 2024, dt_month = 2, dt_day = 29, dt_hour = 8, dt_minute = 30,
           dt_second = 15, dt_microsecond = 0, dt_tzinfo = Some Timezone_utc\<rparr> = 60
   \<and> gregorian_ordinal 2024 2 29 = 60
   \<and> format_03d 60 = ''060''
   \<and> last_two (str_nat 2024) = ''24''
   \<and> datetime_new 2023 2 28 8 30 15 0 (Some Timezone_utc) =
     Some \<lparr>dt_year = 2023, dt_month = 2, dt_day = 28, dt_hour = 8, dt_minute = 30,
           dt_second = 15, dt_microsecond = 0, dt_tzinfo = Some Timezone_utc\<rparr>
   \<and> get_doy \<lparr>dt_year = 2023, dt_month = 2, dt_day = 28, dt_hour = 8, dt_minute = 30,
           dt_second = 15, dt_microsecond = 0, dt_tzinfo = Some Timezone_utc\<rparr> = 59
   \<and> gregorian_ordinal 2023 2 28 = 59"
proof -
  have a: "datetime_new 2024 2 29 8 30 15 0 (Some Timezone_utc) =
     Some \<lparr>dt_year = 2024, dt_month = 2, dt_day = 29, dt_hour = 8, dt_minute = 30,
           dt_second = 15, dt_microsecond = 0, dt_tzinfo = Some Timezone_utc\<rparr>"
    by (simp add: datetime_new_def days_in_month_def is_leap_def)
  have b: "datetime_new 2023 2 28 8 30 15 0 (Some Timezone_utc) =
     Some \<lparr>dt_year = 2023, dt_month = 2, dt_day = 28, dt_hour = 8, dt_minute = 30,
           dt_second = 15, dt_microsecond = 0, dt_tzinfo = Some Timezone_utc\<rparr>"
    by (simp add: datetime_new_def days_in_month_def is_leap_def DAYS_IN_MONTH_def)
  have g: "gregorian_ordinal 2024 2 29 = 60" "gregorian_ordinal 2023 2 28 = 59"
    by (simp_all add: gregorian_ordinal_def month_lengths_def)
  have y: "(10::nat) \<le> 2024" "digit_char (2024 div 10 mod 10) = CHR ''2''"
    "digit_char (2024 mod 10) = CHR ''4''"
    by (simp_all add: digit_char_def)
  have d: "digit_char (60 div 100) = CHR ''0''" "digit_char (60 div 10 mod 10) = CHR ''6''"
    "digit_char (60 mod 10) = CHR ''0''"
    by (simp_all add: digit_char_def)
  note t1 = doy_is_gregorian_ordinal [OF a, of "''2024''"]
  note t2 = doy_is_gregorian_ordinal [OF b, of "''2023''"]
  have e1: "get_doy \<lparr>dt_year = 2024, dt_month = 2, dt_day = 29, dt_hour = 8, dt_minute = 30,
           dt_second = 15, dt_microsecond = 0, dt_tzinfo = Some Timezone_utc\<rparr> = 60"
    using t1 g(1) by simp
  have e2: "get_doy \<lparr>dt_year = 2023, dt_month = 2, dt_day = 28, dt_hour = 8, dt_minute = 30,
           dt_second = 15, dt_microsecond = 0, dt_tzinfo = Some Timezone_utc\<rparr> = 59"
    using t2 g(2) by simp
  have f: "format_03d 60 = ''060''"
    using t1 d by (simp add: e1)
  have l: "last_two (str_nat 2024) = ''24''"
    using t1 y by simp
  show ?thesis
    using a b g e1 e2 f l by simp
qed

text \<open>
  C4.  The day of year is the Gregorian ordinal and is rendered with three digits, as shown
  above.  The 2-digit year is not always two digits: line 109 takes the last two characters
  of \<open>str(year)\<close>, which has no leading zeros, where its comment says \<open>2-digit year\<close>.  The
  header pattern accepts the year field \<open>0005\<close> and the date constructor accepts the year
  5; the 2-digit year of the program is then the single character \<open>5\<close>, not the last two
  characters \<open>05\<close> of the 4-digit year, and it is that single character that goes into the
  URL.
\<close>

theorem two_digit_year_of_year_5:
  "re_search (''  0005    01    15    08    30   15.0000000     GPS         TIME OF FIRST OBS''
              @ [CHR 0x0A])
     = Some (''0005'', ''01'', ''15'', ''08'', ''30'', ''15.0000000'')
   \<and> datetime_of_groups (''0005'', ''01'', ''15'', ''08'', ''30'', ''15.0000000'')
       = Some (sample_datetime\<lparr>dt_year := 5\<rparr>)
   \<and> last_two (str_nat (dt_year (sample_datetime\<lparr>dt_year := 5\<rparr>))) = ''5''
   \<and> last_two (str_nat (dt_year (sample_datetime\<lparr>dt_year := 5\<rparr>))) \<noteq> drop 2 ''0005''
   \<and> obs_url (run_obs_names (sample_args ''ALGO'' ''3'') (sample_datetime\<lparr>dt_year := 5\<rparr>))
       = ''https://cddis.nasa.gov/archive/gnss/data/daily/5/015/5o/algo0150.5o.crx.gz''"
proof (intro conjI)
  show "re_search (''  0005    01    15    08    30   15.0000000     GPS         TIME OF FIRST OBS''
              @ [CHR 0x0A])
     = Some (''0005'', ''01'', ''15'', ''08'', ''30'', ''15.0000000'')"
    by (simp add: re_match_here_def re_digits4_def re_spaces_def re_field_def re_digits12_def
        re_digits_dots_def is_digit_def is_space_def)
  show "datetime_of_groups (''0005'', ''01'', ''15'', ''08'', ''30'', ''15.0000000'')
       = Some (sample_datetime\<lparr>dt_year := 5\<rparr>)"
    by (simp add: datetime_of_groups_def float_150 int_150 sub_150 us_150 int_of_digits_def
        digit_value_def datetime_new_def days_in_month_def DAYS_IN_MONTH_def sample_datetime_def)
  have s: "str_nat 5 = ''5''"
    by (simp add: str_nat_1 digit_char_def)
  show "last_two (str_nat (dt_year (sample_datetime\<lparr>dt_year := 5\<rparr>))) = ''5''"
    by (simp add: s last_two_def)
  show "last_two (str_nat (dt_year (sample_datetime\<lparr>dt_year := 5\<rparr>))) \<noteq> drop 2 ''0005''"
    by (simp add: s last_two_def)
  have d: "format_03d (get_doy (sample_datetime\<lparr>dt_year := 5\<rparr>)) = ''015''"
    by (simp add: format_03d_def get_doy_def tm_yday_def days_before_month_def DAYS_BEFORE_MONTH_def
        sample_datetime_def str_nat.simps digit_char_def)
  show "obs_url (run_obs_names (sample_args ''ALGO'' ''3'') (sample_datetime\<lparr>dt_year := 5\<rparr>))
       = ''https://cddis.nasa.gov/archive/gnss/data/daily/5/015/5o/algo0150.5o.crx.gz''"
    by (simp add: run_obs_names_def sample_args_def build_obs_names_def obs_filename_stem_def
        Let_def d s last_two_def lower_ALGO CDDIS_BASE_URL_def)
qed


subsection \<open>Fractional seconds\<close>

lemma file_lines_tenth:
  "file_lines tenth_header =
     [''     3.04           OBSERVATION DATA'' @ [CHR 0x0A],
      ''  2023    01    15    08    30   15.1000000     GPS         TIME OF FIRST OBS'' @ [CHR 0x0A]]"
  by (simp add: tenth_header_def)

lemma contains_tenth:
  "contains ''TIME OF FIRST OBS''
     (''  2023    01    15    08    30   15.1000000     GPS         TIME OF FIRST OBS'' @ [CHR 0x0A])"
  by (simp add: startswith_def)

lemma search_tenth:
  "re_search (''  2023    01    15    08    30   15.1000000     GPS         TIME OF FIRST OBS''
              @ [CHR 0x0A])
     = Some (''2023'', ''01'', ''15'', ''08'', ''30'', ''15.1000000'')"
  by (simp add: re_match_here_def re_digits4_def re_spaces_def re_field_def re_digits12_def
      re_digits_dots_def is_digit_def is_space_def)

lemma scan_tenth:
  "scan_lines (file_lines tenth_header) = (Some (sample_datetime\<lparr>dt_microsecond := 99999\<rparr>), [])"
  by (simp only: file_lines_tenth scan_lines.simps contains1 contains_tenth search_tenth
      datetime_of_groups_tenth if_True if_False option.case)

text \<open>
  C3.  The claim holds for the header of the sample, whose seconds are \<open>15.0000000\<close>, but not
  for every valid line.  For the seconds \<open>15.1000000\<close> the fraction is a tenth of a second,
  that is 100000 microseconds, and nothing needs to be cut off; the parser returns 99999.
  The binary value nearest to 15.1 lies below it, the difference to 15 is taken and
  multiplied in binary arithmetic, and \<open>int\<close> cuts \<open>99999.99999999965\<close> down.
\<close>

theorem tenth_of_a_second_parsed:
  "get_obs_date_from_rinex env_404 (sample_world\<lparr>files := [''rover.obs'' \<mapsto> tenth_header]\<rparr>)
       ''rover.obs''
     = (Some \<lparr>dt_year = 2023, dt_month = 1, dt_day = 15, dt_hour = 8, dt_minute = 30,
               dt_second = 15, dt_microsecond = 99999, dt_tzinfo = Some Timezone_utc\<rparr>, [])
   \<and> truncated_microseconds ''15.1000000'' = 100000
   \<and> fst (get_obs_date_from_rinex env_404 sample_world ''rover.obs'')
       = Some \<lparr>dt_year = 2023, dt_month = 1, dt_day = 15, dt_hour = 8, dt_minute = 30,
               dt_second = 15, dt_microsecond = 0, dt_tzinfo = Some Timezone_utc\<rparr>
   \<and> truncated_microseconds ''15.0000000'' = 0"
proof (intro conjI)
  show "get_obs_date_from_rinex env_404 (sample_world\<lparr>files := [''rover.obs'' \<mapsto> tenth_header]\<rparr>)
       ''rover.obs''
     = (Some \<lparr>dt_year = 2023, dt_month = 1, dt_day = 15, dt_hour = 8, dt_minute = 30,
               dt_second = 15, dt_microsecond = 99999, dt_tzinfo = Some Timezone_utc\<rparr>, [])"
    by (simp add: get_obs_date_from_rinex_def open_read_def env_404_def scan_tenth)
       (simp add: sample_datetime_def)
  show "truncated_microseconds ''15.1000000'' = 100000"
    by (simp add: truncated_microseconds_def is_digit_def int_of_digits_def digit_value_def)
  show "fst (get_obs_date_from_rinex env_404 sample_world ''rover.obs'')
       = Some \<lparr>dt_year = 2023, dt_month = 1, dt_day = 15, dt_hour = 8, dt_minute = 30,
               dt_second = 15, dt_microsecond = 0, dt_tzinfo = Some Timezone_utc\<rparr>"
    by (simp add: parse_sample [OF env_404_readable] sample_datetime_def)
  show "truncated_microseconds ''15.0000000'' = 0"
    by (simp add: truncated_microseconds_def is_digit_def int_of_digits_def digit_value_def)
qed

end
